theory Spec2Isabelle
  imports Complex_Main "HOL-Library.Word" "HOL-Library.Monad_Syntax"
begin

section \<open>Tensors and the arithmetic of their elements\<close>

text \<open>
  The source builds a graph of TensorFlow operations; what is modelled here is the value
  that graph computes when it runs on given inputs and given variable values. A rank-2
  tensor is its two dimensions and an element function, a rank-1 tensor its length and
  an element function; only the elements inside the dimensions are meaningful. The
  static shape of a tensor computed inside the step is taken to be the shape it has
  when the graph runs; only the input of the step carries a separate static shape.

  The elements are the values of the tensor's dtype (\<open>dtype = x.dtype\<close>): for a float
  dtype the finite numbers of the format, the two infinities and NaN. The arithmetic of
  the dtype is a parameter of every operation: a record of the scalar kernels the
  framework applies. Two such records are defined below, the float32 one and the exact
  arithmetic of the real numbers; whatever is proved for every record holds for both.
\<close>

record 'a tensor2 =
  nrows :: nat
  ncols :: nat
  el :: "nat \<Rightarrow> nat \<Rightarrow> 'a"

record 'a tensor1 =
  len :: nat
  vel :: "nat \<Rightarrow> 'a"

record 'a arith =
  a_const :: "real \<Rightarrow> 'a"
  a_add :: "'a \<Rightarrow> 'a \<Rightarrow> 'a"
  a_mul :: "'a \<Rightarrow> 'a \<Rightarrow> 'a"
  a_minimum :: "'a \<Rightarrow> 'a \<Rightarrow> 'a"
  a_maximum :: "'a \<Rightarrow> 'a \<Rightarrow> 'a"
  a_sigmoid :: "'a \<Rightarrow> 'a"
  a_tanh :: "'a \<Rightarrow> 'a"
  a_dot :: "'a list \<Rightarrow> 'a list \<Rightarrow> 'a"
  a_moments :: "'a list \<Rightarrow> 'a \<times> 'a"
  a_normalize :: "'a \<Rightarrow> 'a \<Rightarrow> 'a \<Rightarrow> 'a \<Rightarrow> 'a \<Rightarrow> real \<Rightarrow> 'a"

text \<open>
  \<open>a_const\<close> converts a Python float to the dtype (\<open>convert_to_tensor\<close>); \<open>a_dot\<close> is
  the entry of a matrix product for one row and one column; \<open>a_moments\<close> gives the mean
  and the variance of one column of a batch; \<open>a_normalize x mean variance offset scale
  epsilon\<close> is one element of \<open>nn.batch_normalization\<close>.

  An operation of the framework that rejects its operands (incompatible shapes, a bad
  argument) raises; the model returns \<open>None\<close> there.
\<close>

definition map_tensor :: "('a \<Rightarrow> 'a) \<Rightarrow> 'a tensor2 \<Rightarrow> 'a tensor2" where
  \<comment> \<open>an elementwise unary operation, or an operation with a Python scalar\<close>
  "map_tensor g x = \<lparr>nrows = nrows x, ncols = ncols x, el = (\<lambda>r c. g (el x r c))\<rparr>"

definition bdim :: "nat \<Rightarrow> nat \<Rightarrow> nat option" where
  \<comment> \<open>broadcasting of one dimension: equal, or one of the two is 1\<close>
  "bdim a b = (if a = b then Some a else if a = 1 then Some b
               else if b = 1 then Some a else None)"

definition bidx :: "nat \<Rightarrow> nat \<Rightarrow> nat" where
  "bidx n k = (if n = 1 then 0 else k)"

definition broadcast2 :: "('a \<Rightarrow> 'a \<Rightarrow> 'a) \<Rightarrow> 'a tensor2 \<Rightarrow> 'a tensor2 \<Rightarrow> 'a tensor2 option" where
  \<comment> \<open>an elementwise binary operation (\<open>+\<close>, \<open>*\<close>) with numpy-style broadcasting\<close>
  "broadcast2 g x y =
     (case bdim (nrows x) (nrows y) of None \<Rightarrow> None
      | Some r \<Rightarrow>
        (case bdim (ncols x) (ncols y) of None \<Rightarrow> None
         | Some c \<Rightarrow>
           Some \<lparr>nrows = r, ncols = c,
                 el = (\<lambda>i j. g (el x (bidx (nrows x) i) (bidx (ncols x) j))
                               (el y (bidx (nrows y) i) (bidx (ncols y) j)))\<rparr>))"

definition as_row :: "'a tensor1 \<Rightarrow> 'a tensor2" where
  \<comment> \<open>a rank-1 operand of a rank-2 operation is broadcast as a single row\<close>
  "as_row v = \<lparr>nrows = 1, ncols = len v, el = (\<lambda>i j. vel v j)\<rparr>"

definition row_of :: "'a tensor2 \<Rightarrow> nat \<Rightarrow> 'a list" where
  "row_of a i = map (\<lambda>k. el a i k) [0..<ncols a]"

definition column_of :: "'a tensor2 \<Rightarrow> nat \<Rightarrow> 'a list" where
  "column_of b j = map (\<lambda>k. el b k j) [0..<nrows b]"

definition matmul :: "'a arith \<Rightarrow> 'a tensor2 \<Rightarrow> 'a tensor2 \<Rightarrow> 'a tensor2 option" where
  "matmul ar a b =
     (if ncols a = nrows b
      then Some \<lparr>nrows = nrows a, ncols = ncols b,
                 el = (\<lambda>i j. a_dot ar (row_of a i) (column_of b j))\<rparr>
      else None)"

definition bias_add :: "'a arith \<Rightarrow> 'a tensor2 \<Rightarrow> 'a tensor1 \<Rightarrow> 'a tensor2 option" where
  \<comment> \<open>\<open>nn_ops.bias_add\<close>: the bias has the size of the last dimension, no broadcasting\<close>
  "bias_add ar x b =
     (if len b = ncols x
      then Some \<lparr>nrows = nrows x, ncols = ncols x, el = (\<lambda>i j. a_add ar (el x i j) (vel b j))\<rparr>
      else None)"

definition concat1 :: "'a tensor2 \<Rightarrow> 'a tensor2 \<Rightarrow> 'a tensor2 option" where
  \<comment> \<open>\<open>array_ops.concat(1, [x, y])\<close>\<close>
  "concat1 x y =
     (if nrows x = nrows y
      then Some \<lparr>nrows = nrows x, ncols = ncols x + ncols y,
                 el = (\<lambda>i j. if j < ncols x then el x i j else el y i (j - ncols x))\<rparr>
      else None)"

definition slice1 :: "'a tensor2 \<Rightarrow> nat \<Rightarrow> nat \<Rightarrow> 'a tensor2" where
  "slice1 x start width = \<lparr>nrows = nrows x, ncols = width, el = (\<lambda>i j. el x i (start + j))\<rparr>"

definition split4 :: "'a tensor2 \<Rightarrow> ('a tensor2 \<times> 'a tensor2 \<times> 'a tensor2 \<times> 'a tensor2) option" where
  \<comment> \<open>\<open>array_ops.split(1, 4, x)\<close>: four slices of equal width along dimension 1\<close>
  "split4 x =
     (if ncols x mod 4 = 0
      then (let w = ncols x div 4
            in Some (slice1 x 0 w, slice1 x w w, slice1 x (2 * w) w, slice1 x (3 * w) w))
      else None)"

definition clip_by_value :: "'a arith \<Rightarrow> 'a tensor2 \<Rightarrow> real \<Rightarrow> real \<Rightarrow> 'a tensor2" where
  \<comment> \<open>\<open>clip_ops.clip_by_value\<close>: \<open>maximum(minimum(t, clip_value_max), clip_value_min)\<close>,
      the two bounds being Python floats converted to the dtype of \<open>t\<close>\<close>
  "clip_by_value ar t clip_value_min clip_value_max =
     map_tensor (\<lambda>v. a_maximum ar (a_minimum ar v (a_const ar clip_value_max))
                        (a_const ar clip_value_min)) t"

definition moments :: "'a arith \<Rightarrow> 'a tensor2 \<Rightarrow> 'a tensor1 \<times> 'a tensor1" where
  \<comment> \<open>\<open>moments(x, axes)\<close> with \<open>axes = range(len(input_shape) - 1)\<close>, for a rank-2 \<open>x\<close>:
      mean and variance of every column\<close>
  "moments ar x =
     (\<lparr>len = ncols x, vel = (\<lambda>j. fst (a_moments ar (column_of x j)))\<rparr>,
      \<lparr>len = ncols x, vel = (\<lambda>j. snd (a_moments ar (column_of x j)))\<rparr>)"

definition scale1 :: "'a arith \<Rightarrow> real \<Rightarrow> 'a tensor1 \<Rightarrow> 'a tensor1" where
  \<comment> \<open>a Python float times a rank-1 tensor: the float is converted to the dtype\<close>
  "scale1 ar c v = \<lparr>len = len v, vel = (\<lambda>j. a_mul ar (a_const ar c) (vel v j))\<rparr>"

definition add1 :: "'a arith \<Rightarrow> 'a tensor1 \<Rightarrow> 'a tensor1 \<Rightarrow> 'a tensor1" where
  \<comment> \<open>the sum of two rank-1 tensors of the same length\<close>
  "add1 ar u v = \<lparr>len = len u, vel = (\<lambda>j. a_add ar (vel u j) (vel v j))\<rparr>"

definition batch_normalization ::
  "'a arith \<Rightarrow> 'a tensor2 \<Rightarrow> 'a tensor1 \<Rightarrow> 'a tensor1 \<Rightarrow> 'a tensor1 \<Rightarrow> 'a tensor1 \<Rightarrow> real \<Rightarrow> 'a tensor2"
  where
  \<comment> \<open>\<open>nn.batch_normalization(x, mean, variance, offset, scale, variance_epsilon)\<close>, for
      statistics of the length of the last dimension of \<open>x\<close>\<close>
  "batch_normalization ar x mean variance offset scale variance_epsilon =
     \<lparr>nrows = nrows x, ncols = ncols x,
      el = (\<lambda>i j. a_normalize ar (el x i j) (vel mean j) (vel variance j) (vel offset j)
                     (vel scale j) variance_epsilon)\<rparr>"

subsection \<open>Exact arithmetic\<close>

definition sigmoid :: "real \<Rightarrow> real" where
  "sigmoid x = 1 / (1 + exp (- x))"

definition exact :: "real arith" where
  \<comment> \<open>the arithmetic of the real numbers, without rounding, overflow or NaN;
      \<open>a_normalize\<close> is \<open>inv = rsqrt(variance + epsilon) * scale\<close>,
      \<open>x * inv + (offset - mean * inv)\<close>\<close>
  "exact =
     \<lparr>a_const = (\<lambda>x. x), a_add = (+), a_mul = (*), a_minimum = min, a_maximum = max,
      a_sigmoid = sigmoid, a_tanh = tanh,
      a_dot = (\<lambda>xs ys. sum_list (map2 (*) xs ys)),
      a_moments = (\<lambda>xs. let n = real (length xs); m = sum_list xs / n
                          in (m, sum_list (map (\<lambda>x. (x - m)\<^sup>2) xs) / n)),
      a_normalize = (\<lambda>x m v b g e. let inv = inverse (sqrt (v + e)) * g
                                   in x * inv + (b - m * inv))\<rparr>"

subsection \<open>float32 arithmetic\<close>

text \<open>
  The values of IEEE 754 binary32, the zero without its sign. A finite value is the real
  number it stands for. Every operation computes the exact result and rounds it to the
  nearest value of the format, ties to even; a result of magnitude \<open>2^128\<close> or more
  after rounding is an infinity.
\<close>

datatype f32 = Fin real | PInf | NInf | NaN

definition rne :: "real \<Rightarrow> int" where
  \<comment> \<open>the nearest integer, a tie to the even one\<close>
  "rne t = (let f = \<lfloor>t\<rfloor>; d = t - of_int f
            in if d < 1 / 2 then f else if 1 / 2 < d then f + 1
               else if even f then f else f + 1)"

definition quantum :: "real \<Rightarrow> real" where
  \<comment> \<open>the spacing of the format at \<open>x\<close>: 24 significant bits, exponents from -126\<close>
  "quantum x = 2 powi (max (- 126) \<lfloor>log 2 \<bar>x\<bar>\<rfloor> - 23)"

definition rnd :: "real \<Rightarrow> real" where
  "rnd x = (if x = 0 then 0 else of_int (rne (x / quantum x)) * quantum x)"

definition round32 :: "real \<Rightarrow> f32" where
  "round32 x = (let y = rnd x
                in if 2 powi 128 \<le> y then PInf
                   else if y \<le> - (2 powi 128) then NInf else Fin y)"

fun fneg :: "f32 \<Rightarrow> f32" where
  "fneg (Fin x) = Fin (- x)"
| "fneg PInf = NInf"
| "fneg NInf = PInf"
| "fneg NaN = NaN"

fun fadd :: "f32 \<Rightarrow> f32 \<Rightarrow> f32" where
  "fadd NaN b = NaN"
| "fadd a NaN = NaN"
| "fadd PInf NInf = NaN"
| "fadd NInf PInf = NaN"
| "fadd PInf b = PInf"
| "fadd a PInf = PInf"
| "fadd NInf b = NInf"
| "fadd a NInf = NInf"
| "fadd (Fin x) (Fin y) = round32 (x + y)"

definition signed_inf :: "bool \<Rightarrow> f32" where
  "signed_inf positive = (if positive then PInf else NInf)"

fun fmul :: "f32 \<Rightarrow> f32 \<Rightarrow> f32" where
  "fmul NaN b = NaN"
| "fmul a NaN = NaN"
| "fmul (Fin x) (Fin y) = round32 (x * y)"
| "fmul (Fin x) PInf = (if x = 0 then NaN else signed_inf (0 < x))"
| "fmul (Fin x) NInf = (if x = 0 then NaN else signed_inf (x < 0))"
| "fmul PInf (Fin y) = (if y = 0 then NaN else signed_inf (0 < y))"
| "fmul NInf (Fin y) = (if y = 0 then NaN else signed_inf (y < 0))"
| "fmul PInf PInf = PInf"
| "fmul NInf NInf = PInf"
| "fmul PInf NInf = NInf"
| "fmul NInf PInf = NInf"

fun fdiv :: "f32 \<Rightarrow> f32 \<Rightarrow> f32" where
  "fdiv NaN b = NaN"
| "fdiv a NaN = NaN"
| "fdiv (Fin x) (Fin y) =
     (if y = 0 then (if x = 0 then NaN else signed_inf (0 < x)) else round32 (x / y))"
| "fdiv (Fin x) PInf = Fin 0"
| "fdiv (Fin x) NInf = Fin 0"
| "fdiv PInf (Fin y) = signed_inf (0 \<le> y)"
| "fdiv NInf (Fin y) = signed_inf (y < 0)"
| "fdiv a b = NaN"

fun f32_less :: "f32 \<Rightarrow> f32 \<Rightarrow> bool" where
  \<comment> \<open>the comparison \<open><\<close> of the format: false when an operand is NaN\<close>
  "f32_less NaN b = False"
| "f32_less a NaN = False"
| "f32_less (Fin x) (Fin y) = (x < y)"
| "f32_less a PInf = (a \<noteq> PInf)"
| "f32_less NInf b = (b \<noteq> NInf)"
| "f32_less a b = False"

definition f32_le :: "f32 \<Rightarrow> f32 \<Rightarrow> bool" where
  \<comment> \<open>\<open>\<le>\<close> of the format: false when an operand is NaN\<close>
  "f32_le a b = (a \<noteq> NaN \<and> b \<noteq> NaN \<and> \<not> f32_less b a)"

definition fmin :: "f32 \<Rightarrow> f32 \<Rightarrow> f32" where
  \<comment> \<open>the kernel of \<open>minimum\<close> selects by comparison, \<open>b < a ? b : a\<close>: a NaN first
      operand is returned\<close>
  "fmin a b = (if f32_less b a then b else a)"

definition fmax :: "f32 \<Rightarrow> f32 \<Rightarrow> f32" where
  \<comment> \<open>\<open>a < b ? b : a\<close>\<close>
  "fmax a b = (if f32_less a b then b else a)"

fun fsigmoid :: "f32 \<Rightarrow> f32" where
  "fsigmoid (Fin x) = Fin (rnd (sigmoid x))"
| "fsigmoid PInf = Fin 1"
| "fsigmoid NInf = Fin 0"
| "fsigmoid NaN = NaN"

fun ftanh :: "f32 \<Rightarrow> f32" where
  "ftanh (Fin x) = Fin (rnd (tanh x))"
| "ftanh PInf = Fin 1"
| "ftanh NInf = Fin (- 1)"
| "ftanh NaN = NaN"

fun frsqrt :: "f32 \<Rightarrow> f32" where
  "frsqrt (Fin x) = (if x < 0 then NaN else if x = 0 then PInf else round32 (1 / sqrt x))"
| "frsqrt PInf = Fin 0"
| "frsqrt NInf = NaN"
| "frsqrt NaN = NaN"

definition f32_dot :: "f32 list \<Rightarrow> f32 list \<Rightarrow> f32" where
  \<comment> \<open>the products accumulated from left to right\<close>
  "f32_dot xs ys = foldl fadd (Fin 0) (map2 fmul xs ys)"

definition f32_moments :: "f32 list \<Rightarrow> f32 \<times> f32" where
  "f32_moments xs =
     (let n = round32 (real (length xs));
          m = fdiv (foldl fadd (Fin 0) xs) n
      in (m, fdiv (foldl fadd (Fin 0) (map (\<lambda>x. fmul (fadd x (fneg m)) (fadd x (fneg m))) xs)) n))"

definition f32_normalize :: "f32 \<Rightarrow> f32 \<Rightarrow> f32 \<Rightarrow> f32 \<Rightarrow> f32 \<Rightarrow> real \<Rightarrow> f32" where
  "f32_normalize x m v b g e =
     (let inv = fmul (frsqrt (fadd v (round32 e))) g
      in fadd (fmul x inv) (fadd b (fneg (fmul m inv))))"

definition float32 :: "f32 arith" where
  \<comment> \<open>addition, multiplication, comparison and the conversion of a Python float are
      fixed by the format. The order of accumulation in \<open>a_dot\<close> and \<open>a_moments\<close> and the
      rounding of the transcendental kernels are those of one correct implementation;
      what is proved for every arithmetic does not depend on them.\<close>
  "float32 =
     \<lparr>a_const = round32, a_add = fadd, a_mul = fmul, a_minimum = fmin, a_maximum = fmax,
      a_sigmoid = fsigmoid, a_tanh = ftanh, a_dot = f32_dot, a_moments = f32_moments,
      a_normalize = f32_normalize\<rparr>"

section \<open>Variable creation\<close>

text \<open>
  \<open>get_variable\<close> asks the variable store for a variable of a name and a shape. The model
  passes the value the variable holds when the graph runs, and keeps the list of the
  requests made so far. A request with a negative dimension, or one for a value whose
  shape is not the requested one, is rejected by the framework.
\<close>

type_synonym var_decl = "string \<times> int list"

type_synonym 'a build = "var_decl list \<Rightarrow> 'a option \<times> var_decl list"

definition ret :: "'a \<Rightarrow> 'a build" where
  "ret x = (\<lambda>tr. (Some x, tr))"

definition lift :: "'a option \<Rightarrow> 'a build" where
  \<comment> \<open>the result of a framework operation: a failure stops the construction\<close>
  "lift r = (\<lambda>tr. (r, tr))"

definition bind_build :: "'a build \<Rightarrow> ('a \<Rightarrow> 'b build) \<Rightarrow> 'b build" where
  "bind_build m k = (\<lambda>tr. case m tr of (None, tr') \<Rightarrow> (None, tr') | (Some x, tr') \<Rightarrow> k x tr')"

definition shape1 :: "'a tensor1 \<Rightarrow> int list" where
  "shape1 v = [int (len v)]"

definition shape2 :: "'a tensor2 \<Rightarrow> int list" where
  "shape2 x = [int (nrows x), int (ncols x)]"

definition shape0 :: "64 word \<Rightarrow> int list" where
  "shape0 c = []"

definition get_variable :: "string \<Rightarrow> int list \<Rightarrow> ('v \<Rightarrow> int list) \<Rightarrow> 'v \<Rightarrow> 'v build" where
  "get_variable name shape shape_of v =
     (\<lambda>tr. if list_all (\<lambda>d. 0 \<le> d) shape \<and> shape_of v = shape
           then (Some v, tr @ [(name, shape)]) else (None, tr))"

definition get_concat_variable ::
  "string \<Rightarrow> int list \<Rightarrow> nat \<Rightarrow> 'a tensor2 \<Rightarrow> 'a tensor2 build" where
  \<comment> \<open>\<open>_get_concat_variable(name, shape, dtype, num_shards)\<close>: the variable is stored as
      \<open>num_shards\<close> row blocks and read as their concatenation; the helper rejects more
      shards than rows, and divides by the number of shards\<close>
  "get_concat_variable name shape num_shards v =
     (if num_shards = 0 \<or> int num_shards > hd shape then lift None
      else get_variable name shape shape2 v)"

section \<open>batch_norm\<close>

record 'a bn_store =
  bn_beta :: "'a tensor1"
  bn_gamma :: "'a tensor1"
  bn_mean :: "'a tensor1"
  bn_var :: "'a tensor1"
  bn_counter :: "64 word"
  bn_zero_cnt :: "64 word"

definition bn_initial :: "'a arith \<Rightarrow> nat \<Rightarrow> 'a bn_store" where
  \<comment> \<open>the values the initializers of lines 49-76 give the variables\<close>
  "bn_initial ar feat_dim =
     \<lparr>bn_beta = \<lparr>len = feat_dim, vel = (\<lambda>j. a_const ar 0)\<rparr>,
      bn_gamma = \<lparr>len = feat_dim, vel = (\<lambda>j. a_const ar (1 / 10))\<rparr>,
      bn_mean = \<lparr>len = feat_dim, vel = (\<lambda>j. a_const ar 0)\<rparr>,
      bn_var = \<lparr>len = feat_dim, vel = (\<lambda>j. a_const ar 1)\<rparr>,
      bn_counter = 0, bn_zero_cnt = 0\<rparr>"

definition bn_seed :: "'a bn_store \<Rightarrow> 'a tensor1 \<times> 'a tensor1 \<Rightarrow> 'a tensor1 \<times> 'a tensor1" where
  \<comment> \<open>lines 80-81: \<open>cond(equal(counter, zero_cnt), (batch_mean, batch_var), (mean, var))\<close>\<close>
  "bn_seed st batch =
     (if bn_counter st = bn_zero_cnt st then batch else (bn_mean st, bn_var st))"

definition blend :: "'a arith \<Rightarrow> real \<Rightarrow> 'a tensor1 \<Rightarrow> 'a tensor1 \<Rightarrow> 'a tensor1" where
  \<comment> \<open>lines 85-86: \<open>(1-alpha) * batch + alpha * running\<close>. The two Python floats
      \<open>1-alpha\<close> and \<open>alpha\<close> are converted to the dtype; the two products and the sum
      are operations of the dtype. A Python float is taken as the real number it is
      written as: for the default \<open>alpha = 0.9\<close> the doubles \<open>0.9\<close> and \<open>1 - 0.9\<close> convert
      to the same float32 values as \<open>9/10\<close> and \<open>1/10\<close>\<close>
  "blend ar alpha batch running = add1 ar (scale1 ar (1 - alpha) batch) (scale1 ar alpha running)"

definition bn_statistics ::
  "'a arith \<Rightarrow> 'a bn_store \<Rightarrow> 'a tensor2 \<Rightarrow> bool \<Rightarrow> real \<Rightarrow> 'a tensor1 \<times> 'a tensor1 \<times> 64 word" where
  \<comment> \<open>lines 78-87: the values the local names \<open>mean\<close>, \<open>var\<close>, \<open>counter\<close> are bound to\<close>
  "bn_statistics ar st x deterministic alpha =
     (let (batch_mean, batch_var) = moments ar x;
          (mean, var) = bn_seed st (batch_mean, batch_var)
      in if deterministic then (mean, var, bn_counter st)
         else (blend ar alpha batch_mean mean, blend ar alpha batch_var var, bn_counter st + 1))"

definition batch_norm ::
  "'a arith \<Rightarrow> 'a bn_store \<Rightarrow> 'a tensor2 \<Rightarrow> bool option \<Rightarrow> real \<Rightarrow> bool \<Rightarrow> string \<Rightarrow>
   ('a tensor2 \<times> 'a bn_store) build" where
  \<comment> \<open>\<open>deterministic\<close> is a boolean tensor, or Python's \<open>None\<close> (the default of the cell),
      which \<open>cond\<close> rejects. \<open>shift\<close> only decides whether \<open>beta\<close> is trainable. The
      function builds no assignment to a variable: the local names \<open>mean\<close>, \<open>var\<close> and
      \<open>counter\<close> are rebound to the results of \<open>cond\<close>, and the store is left as found.\<close>
  "batch_norm ar st x deterministic alpha shift scope =
     (let feat_dim = int (ncols x) in
      bind_build (get_variable (scope @ ''_beta'') [feat_dim] shape1 (bn_beta st)) (\<lambda>beta.
      bind_build (get_variable (scope @ ''_gamma'') [feat_dim] shape1 (bn_gamma st)) (\<lambda>gamma.
      bind_build (get_variable (scope @ ''_mean'') [feat_dim] shape1 (bn_mean st)) (\<lambda>mean.
      bind_build (get_variable (scope @ ''_var'') [feat_dim] shape1 (bn_var st)) (\<lambda>var.
      bind_build (get_variable (scope @ ''_counter'') [] shape0 (bn_counter st)) (\<lambda>counter.
      bind_build (get_variable (scope @ ''_zero_cnt'') [] shape0 (bn_zero_cnt st)) (\<lambda>zero_cnt.
      bind_build (lift deterministic) (\<lambda>det.
        (case bn_statistics ar st x det alpha of
           (mean, var, counter) \<Rightarrow>
             ret (batch_normalization ar x mean var beta gamma (1 / 10 ^ 8), st))))))))))"

section \<open>LSTMCell\<close>

record 'a lstm_config =
  num_units :: int
  use_peepholes :: bool
  cell_clip :: "real option"
  num_proj :: "int option"
  num_unit_shards :: nat
  num_proj_shards :: nat
  forget_bias :: real
  bn :: bool
  return_gate :: bool
  deterministic :: "bool option"
  activation :: "'a \<Rightarrow> 'a"

text \<open>
  \<open>forget_bias\<close> and \<open>cell_clip\<close> are Python floats, taken as the real numbers they
  stand for; \<open>activation\<close> is an elementwise operation on tensors. The constructor's
  \<open>initializer\<close> decides only the values new weight variables start with; the values
  the variables hold when the step runs are the store below.
\<close>

record 'a lstm_store =
  v_W :: "'a tensor2"
  v_W_i :: "'a tensor2"
  v_W_r :: "'a tensor2"
  v_B :: "'a tensor1"
  v_W_F_diag :: "'a tensor1"
  v_W_I_diag :: "'a tensor1"
  v_W_O_diag :: "'a tensor1"
  v_W_P :: "'a tensor2"
  v_bn_i :: "'a bn_store"
  v_bn_r :: "'a bn_store"
  v_bn_m :: "'a bn_store"

text \<open>
  What the step returns: the output \<open>m\<close>, the pair \<open>LSTMStateTuple(c, m)\<close> and, when
  \<open>return_gate\<close> is set, the tuple \<open>(i, j, f, o)\<close>.
\<close>

record 'a lstm_result =
  r_output :: "'a tensor2"
  r_c :: "'a tensor2"
  r_h :: "'a tensor2"
  r_gates :: "('a tensor2 \<times> 'a tensor2 \<times> 'a tensor2 \<times> 'a tensor2) option"

text \<open>
  \<open>ValueError\<close> is the exception the step raises from its own check of the input
  shape (lines 184-186, the call of \<open>with_rank\<close> included). \<open>FrameworkError\<close> stands
  for whatever a framework operation or a request for a variable raises when it rejects
  its arguments, of whatever Python class.
\<close>

datatype error = ValueError string | FrameworkError

definition truthy :: "int option \<Rightarrow> bool" where
  \<comment> \<open>Python's truth value of \<open>num_proj\<close>: \<open>None\<close> and 0 are false\<close>
  "truthy p = (case p of None \<Rightarrow> False | Some n \<Rightarrow> n \<noteq> 0)"

definition state_size :: "'a lstm_config \<Rightarrow> int \<times> int" where
  \<comment> \<open>lines 139-144\<close>
  "state_size cfg =
     (if truthy (num_proj cfg) then (num_units cfg, the (num_proj cfg))
      else (num_units cfg, num_units cfg))"

definition output_size :: "'a lstm_config \<Rightarrow> int" where
  "output_size cfg =
     (if truthy (num_proj cfg) then the (num_proj cfg) else num_units cfg)"

subsection \<open>Static shapes\<close>

type_synonym dimension = "nat option"

type_synonym tensor_shape = "dimension list option"

definition with_rank :: "nat \<Rightarrow> tensor_shape \<Rightarrow> dimension list option" where
  \<comment> \<open>\<open>TensorShape.with_rank\<close>: a shape of unknown rank becomes one of the given rank
      with unknown dimensions; a shape of another rank raises ValueError (\<open>None\<close>)\<close>
  "with_rank r s =
     (case s of None \<Rightarrow> Some (replicate r None)
      | Some ds \<Rightarrow> if length ds = r then Some ds else None)"

subsection \<open>The step, in the order of the source\<close>

definition proj_width :: "'a lstm_config \<Rightarrow> int" where
  \<comment> \<open>line 179: the local \<open>num_proj\<close>\<close>
  "proj_width cfg = (case num_proj cfg of None \<Rightarrow> num_units cfg | Some p \<Rightarrow> p)"

definition lstm_matrix ::
  "'a arith \<Rightarrow> 'a lstm_config \<Rightarrow> 'a lstm_store \<Rightarrow> string \<Rightarrow> nat \<Rightarrow> 'a tensor2 \<Rightarrow> 'a tensor2 \<Rightarrow>
   'a tensor2 build" where
  \<comment> \<open>lines 191-222\<close>
  "lstm_matrix ar cfg vars scope_name input_size inputs m_prev =
     (if bn cfg then
        bind_build (get_concat_variable ''W_i'' [int input_size, 4 * num_units cfg]
                      (num_unit_shards cfg) (v_W_i vars)) (\<lambda>concat_w_i.
        bind_build (get_concat_variable ''W_r'' [proj_width cfg, 4 * num_units cfg]
                      (num_unit_shards cfg) (v_W_r vars)) (\<lambda>concat_w_r.
        bind_build (get_variable ''B'' [4 * num_units cfg] shape1 (v_B vars)) (\<lambda>b.
        bind_build (lift (matmul ar inputs concat_w_i)) (\<lambda>xi.
        bind_build (batch_norm ar (v_bn_i vars) xi (deterministic cfg) (9 / 10) False
                      (scope_name @ ''bn_i'')) (\<lambda>(lstm_matrix_i, st_i).
        bind_build (lift (matmul ar m_prev concat_w_r)) (\<lambda>xr.
        bind_build (batch_norm ar (v_bn_r vars) xr (deterministic cfg) (9 / 10) False
                      (scope_name @ ''bn_r'')) (\<lambda>(lstm_matrix_r, st_r).
        bind_build (lift (broadcast2 (a_add ar) lstm_matrix_i lstm_matrix_r)) (\<lambda>s.
        lift (bias_add ar s b)))))))))
      else
        bind_build (get_concat_variable ''W'' [int input_size + proj_width cfg, 4 * num_units cfg]
                      (num_unit_shards cfg) (v_W vars)) (\<lambda>concat_w.
        bind_build (get_variable ''B'' [4 * num_units cfg] shape1 (v_B vars)) (\<lambda>b.
        bind_build (lift (concat1 inputs m_prev)) (\<lambda>cell_inputs.
        bind_build (lift (matmul ar cell_inputs concat_w)) (\<lambda>xw.
        lift (bias_add ar xw b))))))"

definition peephole_variables :: "'a lstm_config \<Rightarrow> 'a lstm_store \<Rightarrow> unit build" where
  \<comment> \<open>lines 227-233; the later lines read the three variables from the store\<close>
  "peephole_variables cfg vars =
     (if use_peepholes cfg then
        bind_build (get_variable ''W_F_diag'' [num_units cfg] shape1 (v_W_F_diag vars)) (\<lambda>w_f_diag.
        bind_build (get_variable ''W_I_diag'' [num_units cfg] shape1 (v_W_I_diag vars)) (\<lambda>w_i_diag.
        bind_build (get_variable ''W_O_diag'' [num_units cfg] shape1 (v_W_O_diag vars)) (\<lambda>w_o_diag.
        ret ())))
      else ret ())"

definition add_scalar :: "'a arith \<Rightarrow> 'a tensor2 \<Rightarrow> real \<Rightarrow> 'a tensor2" where
  \<comment> \<open>a tensor plus a Python float: the float is converted to the dtype\<close>
  "add_scalar ar x s = map_tensor (\<lambda>v. a_add ar v (a_const ar s)) x"

definition cell_update ::
  "'a arith \<Rightarrow> 'a lstm_config \<Rightarrow> 'a lstm_store \<Rightarrow> 'a tensor2 \<Rightarrow> 'a tensor2 \<Rightarrow> 'a tensor2 \<Rightarrow>
   'a tensor2 \<Rightarrow> 'a tensor2 option" where
  \<comment> \<open>lines 235-240\<close>
  "cell_update ar cfg vars i j f c_prev =
     (if use_peepholes cfg then do {
        peep_f \<leftarrow> broadcast2 (a_mul ar) (as_row (v_W_F_diag vars)) c_prev;
        fg \<leftarrow> broadcast2 (a_add ar) (add_scalar ar f (forget_bias cfg)) peep_f;
        keep \<leftarrow> broadcast2 (a_mul ar) (map_tensor (a_sigmoid ar) fg) c_prev;
        peep_i \<leftarrow> broadcast2 (a_mul ar) (as_row (v_W_I_diag vars)) c_prev;
        ig \<leftarrow> broadcast2 (a_add ar) i peep_i;
        new \<leftarrow> broadcast2 (a_mul ar) (map_tensor (a_sigmoid ar) ig) (map_tensor (activation cfg) j);
        broadcast2 (a_add ar) keep new
      } else do {
        keep \<leftarrow> broadcast2 (a_mul ar)
                  (map_tensor (a_sigmoid ar) (add_scalar ar f (forget_bias cfg))) c_prev;
        new \<leftarrow> broadcast2 (a_mul ar) (map_tensor (a_sigmoid ar) i) (map_tensor (activation cfg) j);
        broadcast2 (a_add ar) keep new
      })"

definition cell_clipped :: "'a arith \<Rightarrow> 'a lstm_config \<Rightarrow> 'a tensor2 \<Rightarrow> 'a tensor2" where
  \<comment> \<open>lines 242-245\<close>
  "cell_clipped ar cfg c =
     (case cell_clip cfg of None \<Rightarrow> c
      | Some k \<Rightarrow> clip_by_value ar c (- k) k)"

definition output_gate ::
  "'a arith \<Rightarrow> 'a lstm_config \<Rightarrow> 'a lstm_store \<Rightarrow> 'a tensor2 \<Rightarrow> 'a tensor2 \<Rightarrow> 'a tensor2 option" where
  \<comment> \<open>the argument of the first \<open>sigmoid\<close> of lines 249-258\<close>
  "output_gate ar cfg vars o_gate c =
     (if use_peepholes cfg then do {
        peep_o \<leftarrow> broadcast2 (a_mul ar) (as_row (v_W_O_diag vars)) c;
        broadcast2 (a_add ar) o_gate peep_o
      } else Some o_gate)"

definition cell_output ::
  "'a arith \<Rightarrow> 'a lstm_config \<Rightarrow> 'a lstm_store \<Rightarrow> string \<Rightarrow> 'a tensor2 \<Rightarrow> 'a tensor2 \<Rightarrow>
   'a tensor2 build" where
  \<comment> \<open>lines 247-258\<close>
  "cell_output ar cfg vars scope_name o_gate c =
     bind_build (lift (output_gate ar cfg vars o_gate c)) (\<lambda>og.
     bind_build (if bn cfg
                 then bind_build (batch_norm ar (v_bn_m vars) c (deterministic cfg) (9 / 10) True
                                    (scope_name @ ''bn_m'')) (\<lambda>(normed, st_m). ret normed)
                 else ret c) (\<lambda>cn.
     lift (broadcast2 (a_mul ar) (map_tensor (a_sigmoid ar) og) (map_tensor (activation cfg) cn))))"

definition projection ::
  "'a arith \<Rightarrow> 'a lstm_config \<Rightarrow> 'a lstm_store \<Rightarrow> 'a tensor2 \<Rightarrow> 'a tensor2 build" where
  \<comment> \<open>lines 260-265\<close>
  "projection ar cfg vars m =
     (case num_proj cfg of
        None \<Rightarrow> ret m
      | Some p \<Rightarrow>
          bind_build (get_concat_variable ''W_P'' [num_units cfg, p]
                        (num_proj_shards cfg) (v_W_P vars)) (\<lambda>concat_w_proj.
          lift (matmul ar m concat_w_proj)))"

definition LSTMCell_graph ::
  "'a arith \<Rightarrow> 'a lstm_config \<Rightarrow> 'a lstm_store \<Rightarrow> string \<Rightarrow> nat \<Rightarrow> 'a tensor2 \<Rightarrow> 'a tensor2 \<Rightarrow>
   'a tensor2 \<Rightarrow> 'a lstm_result build" where
  \<comment> \<open>lines 189-272\<close>
  "LSTMCell_graph ar cfg vars scope_name input_size inputs c_prev m_prev =
     bind_build (lstm_matrix ar cfg vars scope_name input_size inputs m_prev) (\<lambda>lm.
     bind_build (lift (split4 lm)) (\<lambda>(i, j, f, o_gate).
     bind_build (peephole_variables cfg vars) (\<lambda>u.
     bind_build (lift (cell_update ar cfg vars i j f c_prev)) (\<lambda>c0.
     bind_build (ret (cell_clipped ar cfg c0)) (\<lambda>c.
     bind_build (cell_output ar cfg vars scope_name o_gate c) (\<lambda>m0.
     bind_build (projection ar cfg vars m0) (\<lambda>m.
       ret \<lparr>r_output = m, r_c = c, r_h = m,
            r_gates = (if return_gate cfg then Some (i, j, f, o_gate) else None)\<rparr>)))))))"

definition scope_name_of :: "string option \<Rightarrow> string" where
  \<comment> \<open>line 188: \<open>scope or type(self).__name__\<close>\<close>
  "scope_name_of scope =
     (case scope of None \<Rightarrow> ''LSTMCell'' | Some s \<Rightarrow> if s = [] then ''LSTMCell'' else s)"

definition LSTMCell_call ::
  "'a arith \<Rightarrow> 'a lstm_config \<Rightarrow> 'a lstm_store \<Rightarrow> string option \<Rightarrow> tensor_shape \<Rightarrow> 'a tensor2 \<Rightarrow>
   'a tensor2 \<times> 'a tensor2 \<Rightarrow> (error + 'a lstm_result) \<times> var_decl list" where
  \<comment> \<open>\<open>inputs_shape\<close> is \<open>inputs.get_shape()\<close>, the static shape of the input tensor, and
      \<open>inputs\<close> the value it has when the graph runs. The second component lists the
      variables requested up to the return or the failure.\<close>
  "LSTMCell_call ar cfg vars scope inputs_shape inputs state =
     (case state of (c_prev, m_prev) \<Rightarrow>
        (case with_rank 2 inputs_shape of
           None \<Rightarrow> (Inl (ValueError ''Shape must have rank 2''), [])
         | Some shp \<Rightarrow>
            (case shp ! 1 of
               None \<Rightarrow>
                 (Inl (ValueError ''Could not infer input size from inputs.get_shape()[-1]''), [])
             | Some input_size \<Rightarrow>
                 (case LSTMCell_graph ar cfg vars (scope_name_of scope) input_size
                         inputs c_prev m_prev []
                  of (None, tr) \<Rightarrow> (Inl FrameworkError, tr)
                   | (Some r, tr) \<Rightarrow> (Inr r, tr)))))"

section \<open>Inputs and variables of the declared shapes\<close>

definition bn_shaped :: "'a bn_store \<Rightarrow> nat \<Rightarrow> bool" where
  \<comment> \<open>lines 49-68: the four vectors are declared with \<open>shape=[feat_dim]\<close>\<close>
  "bn_shaped st feat_dim =
     (len (bn_beta st) = feat_dim \<and> len (bn_gamma st) = feat_dim
      \<and> len (bn_mean st) = feat_dim \<and> len (bn_var st) = feat_dim)"

definition well_shaped ::
  "'a lstm_config \<Rightarrow> 'a lstm_store \<Rightarrow> nat \<Rightarrow> nat \<Rightarrow> 'a tensor2 \<Rightarrow> 'a tensor2 \<Rightarrow> 'a tensor2 \<Rightarrow> bool" where
  \<comment> \<open>a batch of \<open>b\<close> inputs of width \<open>n\<close> with a state of the widths of the docstring
      (\<open>num_units\<close> for \<open>c\<close>, the projection width for \<open>m\<close>), variables of the shapes the
      step declares them with, shard counts the helper accepts and, with batch
      normalisation, a \<open>deterministic\<close> tensor\<close>
  "well_shaped cfg vars b n inputs c_prev m_prev =
     (0 \<le> num_units cfg \<and> 0 \<le> proj_width cfg
      \<and> shape2 inputs = [int b, int n]
      \<and> shape2 c_prev = [int b, num_units cfg]
      \<and> shape2 m_prev = [int b, proj_width cfg]
      \<and> shape1 (v_B vars) = [4 * num_units cfg]
      \<and> num_unit_shards cfg \<noteq> 0
      \<and> (if bn cfg
          then shape2 (v_W_i vars) = [int n, 4 * num_units cfg]
             \<and> shape2 (v_W_r vars) = [proj_width cfg, 4 * num_units cfg]
             \<and> num_unit_shards cfg \<le> n \<and> int (num_unit_shards cfg) \<le> proj_width cfg
             \<and> deterministic cfg \<noteq> None
             \<and> bn_shaped (v_bn_i vars) (nat (4 * num_units cfg))
             \<and> bn_shaped (v_bn_r vars) (nat (4 * num_units cfg))
             \<and> bn_shaped (v_bn_m vars) (nat (num_units cfg))
          else shape2 (v_W vars) = [int n + proj_width cfg, 4 * num_units cfg]
             \<and> int (num_unit_shards cfg) \<le> int n + proj_width cfg)
      \<and> (if use_peepholes cfg
          then shape1 (v_W_F_diag vars) = [num_units cfg]
             \<and> shape1 (v_W_I_diag vars) = [num_units cfg]
             \<and> shape1 (v_W_O_diag vars) = [num_units cfg]
          else True)
      \<and> (case num_proj cfg of
            None \<Rightarrow> True
          | Some p \<Rightarrow> shape2 (v_W_P vars) = [num_units cfg, p]
              \<and> num_proj_shards cfg \<noteq> 0 \<and> int (num_proj_shards cfg) \<le> num_units cfg))"

section \<open>Observations of a step\<close>

definition returned :: "(error + 'a lstm_result) \<times> var_decl list \<Rightarrow> 'a lstm_result option" where
  "returned outcome = (case fst outcome of Inl e \<Rightarrow> None | Inr r \<Rightarrow> Some r)"

definition c_elem :: "(error + 'a lstm_result) \<times> var_decl list \<Rightarrow> nat \<Rightarrow> nat \<Rightarrow> 'a option" where
  \<comment> \<open>an element of the returned cell state, when the step returns\<close>
  "c_elem outcome row k = map_option (\<lambda>r. el (r_c r) row k) (returned outcome)"

definition widths :: "(error + 'a lstm_result) \<times> var_decl list \<Rightarrow> (nat \<times> nat \<times> nat) option" where
  \<comment> \<open>the widths of the output and of the two components of the state, when the step
      returns\<close>
  "widths outcome =
     map_option (\<lambda>r. (ncols (r_output r), ncols (r_c r), ncols (r_h r))) (returned outcome)"

definition all_zero :: "real tensor2 \<Rightarrow> bool" where
  "all_zero x = (\<forall>row<nrows x. \<forall>k<ncols x. el x row k = 0)"

definition all_zero1 :: "real tensor1 \<Rightarrow> bool" where
  "all_zero1 v = (\<forall>k<len v. vel v k = 0)"

section \<open>Example inputs\<close>

definition const2 :: "nat \<Rightarrow> nat \<Rightarrow> 'a \<Rightarrow> 'a tensor2" where
  "const2 r c v = \<lparr>nrows = r, ncols = c, el = (\<lambda>i j. v)\<rparr>"

definition const1 :: "nat \<Rightarrow> 'a \<Rightarrow> 'a tensor1" where
  "const1 n v = \<lparr>len = n, vel = (\<lambda>j. v)\<rparr>"

definition two_rows :: "'a \<Rightarrow> 'a \<Rightarrow> 'a tensor2" where
  \<comment> \<open>a batch of two rows with one feature\<close>
  "two_rows v w = \<lparr>nrows = 2, ncols = 1, el = (\<lambda>i j. if i = 0 then v else w)\<rparr>"

definition default_config :: "'a arith \<Rightarrow> int \<Rightarrow> 'a lstm_config" where
  \<comment> \<open>the defaults of \<open>__init__\<close>, lines 92-97\<close>
  "default_config ar u =
     \<lparr>num_units = u, use_peepholes = False, cell_clip = None, num_proj = None,
      num_unit_shards = 1, num_proj_shards = 1, forget_bias = 1, bn = False,
      return_gate = False, deterministic = None, activation = a_tanh ar\<rparr>"

definition const_store :: "'a arith \<Rightarrow> nat \<Rightarrow> nat \<Rightarrow> nat \<Rightarrow> 'a \<Rightarrow> 'a \<Rightarrow> 'a lstm_store" where
  \<comment> \<open>variables of the shapes the step declares for input width \<open>n\<close>, \<open>u\<close> units and
      recurrent width \<open>p\<close>: every weight is \<open>w\<close>, every element of the bias is \<open>z\<close>, and
      the batch-norm variables have their initial values\<close>
  "const_store ar n u p w z =
     \<lparr>v_W = const2 (n + p) (4 * u) w, v_W_i = const2 n (4 * u) w, v_W_r = const2 p (4 * u) w,
      v_B = const1 (4 * u) z, v_W_F_diag = const1 u w, v_W_I_diag = const1 u w,
      v_W_O_diag = const1 u w, v_W_P = const2 u p w,
      v_bn_i = bn_initial ar (4 * u), v_bn_r = bn_initial ar (4 * u), v_bn_m = bn_initial ar u\<rparr>"

definition zero_store :: "nat \<Rightarrow> nat \<Rightarrow> nat \<Rightarrow> real lstm_store" where
  "zero_store n u p = const_store exact n u p 0 0"

definition bn_example_config :: "real lstm_config" where
  \<comment> \<open>one unit, batch normalisation in evaluation mode, the cell state clipped to \<open>[-1, 1]\<close>\<close>
  "bn_example_config =
     (default_config exact 1)\<lparr>bn := True, deterministic := Some True, cell_clip := Some 1\<rparr>"

definition bn_example_store :: "real lstm_store" where
  \<comment> \<open>the normalisation of the cell state has scale 0 and offset 5\<close>
  "bn_example_store =
     (zero_store 1 1 1)\<lparr>v_bn_m := (bn_initial exact 1)\<lparr>bn_beta := const1 1 5, bn_gamma := const1 1 0\<rparr>\<rparr>"

definition opposite_weights :: "f32 lstm_store" where
  \<comment> \<open>one input feature and one unit: the weights of the input are 2, those of the
      previous output are -2, the bias is zero\<close>
  "opposite_weights =
     (const_store float32 1 1 1 (Fin 0) (Fin 0))
       \<lparr>v_W := \<lparr>nrows = 2, ncols = 4, el = (\<lambda>t q. if t = 0 then Fin 2 else Fin (- 2))\<rparr>\<rparr>"

section \<open>float32: rounding of particular numbers\<close>

lemma quantum_eval:
  assumes "2 powi e \<le> \<bar>x\<bar>" "\<bar>x\<bar> < 2 powi (e + 1)" "- 126 \<le> e"
  shows "quantum x = 2 powi (e - 23)"
proof -
  have pos: "0 < \<bar>x\<bar>" using assms(1) by (smt (verit) zero_less_power_int)
  have a: "(2::real) powr real_of_int e = 2 powi e" by (rule powr_real_of_int') simp_all
  have "(2::real) powr real_of_int (e + 1) = 2 powi (e + 1)" by (rule powr_real_of_int') simp_all
  then have b: "2 powr (real_of_int e + 1) = 2 powi (e + 1)" by simp
  have "\<lfloor>log 2 \<bar>x\<bar>\<rfloor> = e" using assms(1,2) pos a b by (subst floor_log_eq_powr_iff) simp_all
  then show ?thesis using assms(3) by (simp add: quantum_def)
qed

lemma rnd_eval:
  assumes "2 powi e \<le> \<bar>x\<bar>" "\<bar>x\<bar> < 2 powi (e + 1)" "- 126 \<le> e"
  shows "rnd x = of_int (rne (x / 2 powi (e - 23))) * 2 powi (e - 23)"
proof -
  have "x \<noteq> 0" using assms(1) by (smt (verit) zero_less_power_int)
  then show ?thesis by (simp add: rnd_def quantum_eval [OF assms])
qed

lemma rne_of_int [simp]: "rne (of_int n) = n"
  by (simp add: rne_def)

lemma rnd_zero [simp]: "rnd 0 = 0"
  by (simp add: rnd_def)

lemma round32_zero [simp]: "round32 0 = Fin 0"
  by (simp add: round32_def)

lemma rnd_exact:
  assumes "2 powi e \<le> \<bar>x\<bar>" "\<bar>x\<bar> < 2 powi (e + 1)" "- 126 \<le> e"
    and "x / 2 powi (e - 23) = of_int n"
  shows "rnd x = x"
proof -
  have "rnd x = of_int n * 2 powi (e - 23)"
    by (simp add: rnd_eval [OF assms(1-3)] assms(4))
  also have "\<dots> = x" using assms(4) by (simp add: field_simps)
  finally show ?thesis .
qed

lemma round32_exact:
  assumes "2 powi e \<le> \<bar>x\<bar>" "\<bar>x\<bar> < 2 powi (e + 1)" "- 126 \<le> e" "e \<le> 127"
    and "x / 2 powi (e - 23) = of_int n"
  shows "round32 x = Fin x"
proof -
  have "(2::real) powi (e + 1) \<le> 2 powi 128"
    using assms(4) by (intro power_int_increasing) simp_all
  with assms(2) have "\<bar>x\<bar> < 2 powi 128" by linarith
  then show ?thesis
    by (simp add: round32_def rnd_exact [OF assms(1-3,5)] Let_def abs_if split: if_splits)
qed

lemma round32_small [simp]:
  "round32 1 = Fin 1" "round32 2 = Fin 2" "round32 3 = Fin 3" "round32 4 = Fin 4"
  "round32 6 = Fin 6" "round32 (- 1) = Fin (- 1)" "round32 (- 3) = Fin (- 3)"
  "round32 50 = Fin 50" "round32 (1 / 2) = Fin (1 / 2)"
proof -
  show "round32 1 = Fin 1" by (rule round32_exact [where e = 0 and n = "2 ^ 23"]) simp_all
  show "round32 2 = Fin 2" by (rule round32_exact [where e = 1 and n = "2 ^ 23"]) simp_all
  show "round32 3 = Fin 3" by (rule round32_exact [where e = 1 and n = "3 * 2 ^ 22"]) simp_all
  show "round32 4 = Fin 4" by (rule round32_exact [where e = 2 and n = "2 ^ 23"]) simp_all
  show "round32 6 = Fin 6" by (rule round32_exact [where e = 2 and n = "3 * 2 ^ 22"]) simp_all
  show "round32 (- 1) = Fin (- 1)"
    by (rule round32_exact [where e = 0 and n = "- (2 ^ 23)"]) simp_all
  show "round32 (- 3) = Fin (- 3)"
    by (rule round32_exact [where e = 1 and n = "- (3 * 2 ^ 22)"]) simp_all
  show "round32 50 = Fin 50" by (rule round32_exact [where e = 5 and n = "25 * 2 ^ 19"]) simp_all
  show "round32 (1 / 2) = Fin (1 / 2)"
    by (rule round32_exact [where e = "- 1" and n = "2 ^ 23"]) (simp_all add: power_int_minus)
qed

lemma round32_tenth: "round32 (1 / 10) = Fin (13421773 / 2 ^ 27)"
  unfolding round32_def
  by (subst rnd_eval [where e = "- 4"]) (simp_all add: rne_def power_int_minus Let_def)

lemma round32_nine_tenths: "round32 (9 / 10) = Fin (15099494 / 2 ^ 24)"
  unfolding round32_def
  by (subst rnd_eval [where e = "- 1"]) (simp_all add: rne_def power_int_minus Let_def)

lemma blend_of_three:
  "fadd (fmul (Fin (13421773 / 2 ^ 27)) (Fin 3)) (fmul (Fin (15099494 / 2 ^ 24)) (Fin 3))
     = Fin (12582911 / 4194304)"
proof -
  have 1: "round32 (13421773 / 2 ^ 27 * 3) = Fin (10066330 / 2 ^ 25)"
    unfolding round32_def
    by (subst rnd_eval [where e = "- 2"]) (simp_all add: rne_def power_int_minus Let_def)
  have 2: "round32 (15099494 / 2 ^ 24 * 3) = Fin (11324620 / 2 ^ 22)"
    unfolding round32_def
    by (subst rnd_eval [where e = "1"]) (simp_all add: rne_def power_int_minus Let_def)
  have 3: "round32 (10066330 / 2 ^ 25 + 11324620 / 2 ^ 22) = Fin (12582911 / 4194304)"
    unfolding round32_def
    by (subst rnd_eval [where e = "1"]) (simp_all add: rne_def power_int_minus Let_def)
  show ?thesis unfolding fmul.simps 1 2 fadd.simps 3 ..
qed

lemma blend_of_two:
  "fadd (fmul (Fin (13421773 / 2 ^ 27)) (Fin 2)) (fmul (Fin (15099494 / 2 ^ 24)) (Fin 2)) = Fin 2"
proof -
  have 1: "round32 (13421773 / 2 ^ 27 * 2) = Fin (13421773 / 2 ^ 26)"
    unfolding round32_def
    by (subst rnd_eval [where e = "- 3"]) (simp_all add: rne_def power_int_minus Let_def)
  have 2: "round32 (15099494 / 2 ^ 24 * 2) = Fin (15099494 / 2 ^ 23)"
    unfolding round32_def
    by (subst rnd_eval [where e = "0"]) (simp_all add: rne_def power_int_minus Let_def)
  have 3: "round32 (13421773 / 2 ^ 26 + 15099494 / 2 ^ 23) = Fin 2"
    unfolding round32_def
    by (subst rnd_eval [where e = "0"]) (simp_all add: rne_def power_int_minus Let_def)
  show ?thesis unfolding fmul.simps 1 2 fadd.simps 3 ..
qed

lemma round32_overflow: "round32 (2 ^ 127 * 2) = PInf" "round32 (2 ^ 127 * - 2) = NInf"
  unfolding round32_def
  by (subst rnd_eval [where e = "128"]; simp add: rne_def power_int_minus Let_def)+

section \<open>float32: the sign of a rounded number, and comparisons\<close>

lemma quantum_pos: "0 < quantum x"
  by (simp add: quantum_def)

lemma rne_nonneg: "0 \<le> t \<Longrightarrow> 0 \<le> rne t"
  by (auto simp: rne_def Let_def)

lemma rne_nonpos: "t \<le> 0 \<Longrightarrow> rne t \<le> 0"
  unfolding rne_def Let_def
  by (smt (verit) floor_le_zero floor_less_zero of_int_0 of_int_floor_le floor_eq_iff
      divide_pos_pos zero_less_numeral)

lemma rnd_nonneg: "0 \<le> x \<Longrightarrow> 0 \<le> rnd x"
  using quantum_pos [of x] by (simp add: rnd_def rne_nonneg)

lemma rnd_nonpos: "x \<le> 0 \<Longrightarrow> rnd x \<le> 0"
  using quantum_pos [of x]
  by (simp add: rnd_def mult_le_0_iff rne_nonpos divide_le_0_iff less_imp_le)

lemma round32_nonneg:
  assumes "0 \<le> x"
  shows "round32 x = PInf \<or> (\<exists>y. 0 \<le> y \<and> round32 x = Fin y)"
  using rnd_nonneg [OF assms] by (auto simp: round32_def Let_def)

lemma round32_nonpos:
  assumes "x \<le> 0"
  shows "round32 x = NInf \<or> (\<exists>y. y \<le> 0 \<and> round32 x = Fin y)"
proof -
  have "\<not> 2 powi 128 \<le> rnd x"
    using rnd_nonpos [OF assms] by (smt (verit) zero_less_power_int)
  then show ?thesis using rnd_nonpos [OF assms] by (auto simp: round32_def Let_def)
qed

lemma f32_less_NaN [simp]: "f32_less a NaN = False" "f32_less NaN b = False"
  by (cases a) simp_all

lemma fadd_NaN [simp]: "fadd a NaN = NaN" "fadd NaN b = NaN"
  by (cases a) simp_all

lemma fmul_NaN [simp]: "fmul a NaN = NaN" "fmul NaN b = NaN"
  by (cases a) simp_all

lemma clip_bounds:
  assumes "hi = PInf \<or> (\<exists>y. 0 \<le> y \<and> hi = Fin y)" and "lo = NInf \<or> (\<exists>y. y \<le> 0 \<and> lo = Fin y)"
    and "fmax (fmin v hi) lo \<noteq> NaN"
  shows "f32_le lo (fmax (fmin v hi) lo) \<and> f32_le (fmax (fmin v hi) lo) hi"
  using assms by (cases v; cases hi; cases lo) (auto simp: fmin_def fmax_def f32_le_def)

lemma clip_nan: "fmax (fmin NaN hi) lo = NaN"
  by (simp add: fmin_def fmax_def)

section \<open>Construction steps\<close>

lemma bind_build_Some:
  "bind_build m k tr = (Some r, tr') \<longleftrightarrow>
     (\<exists>x tr1. m tr = (Some x, tr1) \<and> k x tr1 = (Some r, tr'))"
  by (auto simp: bind_build_def split: prod.splits option.splits)

lemma lift_Some: "lift r tr = (Some x, tr') \<longleftrightarrow> r = Some x \<and> tr' = tr"
  by (auto simp: lift_def)

lemma ret_Some: "ret y tr = (Some x, tr') \<longleftrightarrow> x = y \<and> tr' = tr"
  by (auto simp: ret_def)

lemma get_variable_Some:
  "get_variable name shape shape_of v tr = (Some x, tr') \<longleftrightarrow>
     list_all (\<lambda>d. 0 \<le> d) shape \<and> shape_of v = shape \<and> x = v \<and> tr' = tr @ [(name, shape)]"
  by (auto simp: get_variable_def)

lemma get_concat_variable_Some:
  "get_concat_variable name shape n v tr = (Some x, tr') \<longleftrightarrow>
     n \<noteq> 0 \<and> int n \<le> hd shape \<and> list_all (\<lambda>d. 0 \<le> d) shape \<and> shape2 v = shape \<and> x = v
     \<and> tr' = tr @ [(name, shape)]"
  by (auto simp: get_concat_variable_def get_variable_Some lift_Some)

lemma projection_Some:
  "projection ar cfg vars m0 tr = (Some m, tr') \<longleftrightarrow>
     (case num_proj cfg of
        None \<Rightarrow> m = m0 \<and> tr' = tr
      | Some p \<Rightarrow> num_proj_shards cfg \<noteq> 0 \<and> int (num_proj_shards cfg) \<le> num_units cfg
          \<and> 0 \<le> p \<and> shape2 (v_W_P vars) = [num_units cfg, p]
          \<and> matmul ar m0 (v_W_P vars) = Some m \<and> tr' = tr @ [(''W_P'', [num_units cfg, p])])"
  by (auto simp: projection_def bind_build_Some get_concat_variable_Some lift_Some ret_Some
      split: option.splits)

lemma peephole_variables_Some:
  "peephole_variables cfg vars tr = (Some u, tr') \<longleftrightarrow>
     (if use_peepholes cfg
      then 0 \<le> num_units cfg \<and> shape1 (v_W_F_diag vars) = [num_units cfg]
         \<and> shape1 (v_W_I_diag vars) = [num_units cfg] \<and> shape1 (v_W_O_diag vars) = [num_units cfg]
         \<and> tr' = tr @ [(''W_F_diag'', [num_units cfg]), (''W_I_diag'', [num_units cfg]),
                        (''W_O_diag'', [num_units cfg])]
      else tr' = tr)"
  by (auto simp: peephole_variables_def bind_build_Some get_variable_Some ret_Some)

section \<open>batch_norm: the statistics used and the store\<close>

lemma batch_norm_Some:
  "batch_norm ar st x dflag alpha shift scope tr = (Some (y, st'), tr') \<longleftrightarrow>
     (\<exists>det. dflag = Some det \<and> len (bn_beta st) = ncols x \<and> len (bn_gamma st) = ncols x
        \<and> len (bn_mean st) = ncols x \<and> len (bn_var st) = ncols x
        \<and> y = batch_normalization ar x (fst (bn_statistics ar st x det alpha))
                 (fst (snd (bn_statistics ar st x det alpha))) (bn_beta st) (bn_gamma st) (1 / 10 ^ 8)
        \<and> st' = st
        \<and> tr' = tr @ [(scope @ ''_beta'', [int (ncols x)]), (scope @ ''_gamma'', [int (ncols x)]),
                       (scope @ ''_mean'', [int (ncols x)]), (scope @ ''_var'', [int (ncols x)]),
                       (scope @ ''_counter'', []), (scope @ ''_zero_cnt'', [])])"
  unfolding batch_norm_def Let_def bind_build_Some get_variable_Some lift_Some ret_Some
    shape1_def shape0_def case_prod_beta
  by auto

lemma blend_exact: "blend exact a u u = u"
  by (cases u) (simp add: blend_def add1_def scale1_def exact_def fun_eq_iff algebra_simps)

lemma bn_statistics_first:
  assumes "bn_counter st = bn_zero_cnt st"
  shows "fst (bn_statistics ar st x det alpha)
           = (if det then fst (moments ar x)
              else blend ar alpha (fst (moments ar x)) (fst (moments ar x)))"
    and "fst (snd (bn_statistics ar st x det alpha))
           = (if det then snd (moments ar x)
              else blend ar alpha (snd (moments ar x)) (snd (moments ar x)))"
    and "snd (snd (bn_statistics ar st x det alpha))
           = (if det then bn_counter st else bn_counter st + 1)"
  using assms by (simp_all add: bn_statistics_def bn_seed_def case_prod_beta)

lemma two_rows_runs:
  assumes "len (bn_beta st) = 1" "len (bn_gamma st) = 1" "len (bn_mean st) = 1" "len (bn_var st) = 1"
  shows "\<exists>y tr. batch_norm ar st (two_rows v w) (Some det) alpha shift scope [] = (Some (y, st), tr)"
  using assms by (simp add: batch_norm_Some two_rows_def)

lemma column_two_rows: "column_of (two_rows v w) 0 = [v, w]"
  by (simp add: column_of_def two_rows_def eval_nat_numeral)

lemma moments_exact_1_3:
  "vel (fst (moments exact (two_rows 1 3))) 0 = 2" "vel (snd (moments exact (two_rows 1 3))) 0 = 1"
  by (simp_all add: moments_def column_two_rows exact_def power2_eq_square)

lemma moments_float32_1_3:
  "vel (fst (moments float32 (two_rows (Fin 1) (Fin 3)))) 0 = Fin 2"
  "vel (snd (moments float32 (two_rows (Fin 1) (Fin 3)))) 0 = Fin 1"
  by (simp_all add: moments_def column_two_rows float32_def f32_moments_def Let_def)

lemma moments_float32_3_3:
  "vel (fst (moments float32 (two_rows (Fin 3) (Fin 3)))) 0 = Fin 3"
  by (simp add: moments_def column_two_rows float32_def f32_moments_def Let_def)

lemma blend_float32:
  "vel (blend float32 (9 / 10) u v) 0
     = fadd (fmul (Fin (13421773 / 2 ^ 27)) (vel u 0)) (fmul (Fin (15099494 / 2 ^ 24)) (vel v 0))"
  by (simp add: blend_def add1_def scale1_def float32_def round32_tenth round32_nine_tenths)

text \<open>
  C1. In training mode (\<open>deterministic\<close> false) the claim has the stored running mean,
  variance and counter updated. The code does not do it: on the batch with the features
  1 and 3 and freshly initialised variables, in float32, the local names are bound to the
  blended mean 2 and to the counter 1, and the store handed back is the initial one, with
  the counter 0 and the mean 0. (The same holds in exact arithmetic.)
\<close>

theorem batch_norm_training_keeps_store:
  "map_option snd (fst (batch_norm float32 (bn_initial float32 1) (two_rows (Fin 1) (Fin 3))
                          (Some False) (9 / 10) True ''bn'' []))
     = Some (bn_initial float32 1)
   \<and> bn_counter (bn_initial float32 1) = 0
   \<and> vel (bn_mean (bn_initial float32 1)) 0 = Fin 0
   \<and> snd (snd (bn_statistics float32 (bn_initial float32 1) (two_rows (Fin 1) (Fin 3))
                  False (9 / 10))) = 1
   \<and> vel (fst (bn_statistics float32 (bn_initial float32 1) (two_rows (Fin 1) (Fin 3))
                  False (9 / 10))) 0 = Fin 2
   \<and> map_option snd (fst (batch_norm exact (bn_initial exact 1) (two_rows 1 3)
                          (Some False) (9 / 10) True ''bn'' []))
     = Some (bn_initial exact 1)
   \<and> bn_counter (bn_initial exact 1) = 0
   \<and> vel (bn_mean (bn_initial exact 1)) 0 = 0
   \<and> snd (snd (bn_statistics exact (bn_initial exact 1) (two_rows 1 3) False (9 / 10))) = 1
   \<and> vel (fst (bn_statistics exact (bn_initial exact 1) (two_rows 1 3) False (9 / 10))) 0 = 2"
proof -
  obtain y tr where 1:
    "batch_norm float32 (bn_initial float32 1) (two_rows (Fin 1) (Fin 3)) (Some False) (9 / 10)
       True ''bn'' [] = (Some (y, bn_initial float32 1), tr)"
    using two_rows_runs [of "bn_initial float32 1" float32 "Fin 1" "Fin 3" False "9 / 10" True "''bn''"]
    by (auto simp: bn_initial_def)
  obtain y' tr' where 2:
    "batch_norm exact (bn_initial exact 1) (two_rows 1 3) (Some False) (9 / 10)
       True ''bn'' [] = (Some (y', bn_initial exact 1), tr')"
    using two_rows_runs [of "bn_initial exact 1" exact 1 3 False "9 / 10" True "''bn''"]
    by (auto simp: bn_initial_def)
  have z: "bn_counter (bn_initial float32 1) = bn_zero_cnt (bn_initial float32 1)"
    "bn_counter (bn_initial exact 1) = bn_zero_cnt (bn_initial exact 1)"
    by (simp_all add: bn_initial_def)
  have 3: "vel (fst (bn_statistics float32 (bn_initial float32 1) (two_rows (Fin 1) (Fin 3))
                  False (9 / 10))) 0 = Fin 2"
    by (simp only: bn_statistics_first(1) [OF z(1)] if_False blend_float32 moments_float32_1_3
        blend_of_two)
  have 4: "vel (fst (bn_statistics exact (bn_initial exact 1) (two_rows 1 3) False (9 / 10))) 0 = 2"
    by (subst bn_statistics_first(1) [OF z(2)]) (simp add: blend_exact moments_exact_1_3)
  have 5: "snd (snd (bn_statistics float32 (bn_initial float32 1) (two_rows (Fin 1) (Fin 3))
                  False (9 / 10))) = 1"
    by (subst bn_statistics_first(3) [OF z(1)]) (simp add: bn_initial_def)
  have 7: "snd (snd (bn_statistics exact (bn_initial exact 1) (two_rows 1 3) False (9 / 10))) = 1"
    by (subst bn_statistics_first(3) [OF z(2)]) (simp add: bn_initial_def)
  have 6: "bn_counter (bn_initial float32 1) = 0" "vel (bn_mean (bn_initial float32 1)) 0 = Fin 0"
    "bn_counter (bn_initial exact 1) = 0" "vel (bn_mean (bn_initial exact 1)) 0 = 0"
    by (simp_all add: bn_initial_def float32_def exact_def)
  show ?thesis using 1 2 3 4 5 6 7 by simp
qed

text \<open>
  C2. On a first call, where the stored counter is zero (and so is the sentinel
  \<open>zero_cnt\<close> it is compared with, which is created as 0 and never assigned), the claim
  has the mean and variance used equal to the batch mean and variance \<open>b\<close> of \<open>x\<close> for
  both values of \<open>deterministic\<close>. For \<open>deterministic\<close> true they are. For
  \<open>deterministic\<close> false the code uses \<open>(1-alpha)*b + alpha*b\<close>, computed in the
  arithmetic of the dtype: it depends on the batch alone, not on the stored statistics,
  and it is \<open>b\<close> in exact arithmetic, but not in float32, where the two products and the
  sum are rounded. The normalised output is computed from these statistics.
\<close>

theorem batch_norm_first_call:
  assumes "bn_counter st = 0" and "bn_zero_cnt st = 0"
  shows "fst (bn_statistics ar st x True alpha) = fst (moments ar x)
       \<and> fst (snd (bn_statistics ar st x True alpha)) = snd (moments ar x)
       \<and> fst (bn_statistics ar st x False alpha)
           = blend ar alpha (fst (moments ar x)) (fst (moments ar x))
       \<and> fst (snd (bn_statistics ar st x False alpha))
           = blend ar alpha (snd (moments ar x)) (snd (moments ar x))
       \<and> (\<forall>u. blend exact alpha u u = u)
       \<and> (\<forall>det y st' tr tr'.
            batch_norm ar st x (Some det) alpha shift scope tr = (Some (y, st'), tr')
            \<longrightarrow> y = batch_normalization ar x
                      (if det then fst (moments ar x)
                       else blend ar alpha (fst (moments ar x)) (fst (moments ar x)))
                      (if det then snd (moments ar x)
                       else blend ar alpha (snd (moments ar x)) (snd (moments ar x)))
                      (bn_beta st) (bn_gamma st) (1 / 10 ^ 8))"
  using assms by (simp add: bn_statistics_first batch_norm_Some blend_exact)

theorem batch_norm_first_call_witness:
  "bn_counter (bn_initial float32 1) = 0 \<and> bn_zero_cnt (bn_initial float32 1) = 0
   \<and> vel (fst (bn_statistics float32 (bn_initial float32 1) (two_rows (Fin 1) (Fin 3)) True (9 / 10))) 0
       = Fin 2
   \<and> vel (fst (snd (bn_statistics float32 (bn_initial float32 1) (two_rows (Fin 1) (Fin 3))
                      True (9 / 10)))) 0 = Fin 1
   \<and> vel (fst (bn_statistics float32 (bn_initial float32 1) (two_rows (Fin 1) (Fin 3)) False (9 / 10))) 0
       = Fin 2
   \<and> (\<exists>y tr. batch_norm float32 (bn_initial float32 1) (two_rows (Fin 1) (Fin 3)) (Some True)
                 (9 / 10) True ''bn'' [] = (Some (y, bn_initial float32 1), tr)
             \<and> y = batch_normalization float32 (two_rows (Fin 1) (Fin 3))
                     (fst (moments float32 (two_rows (Fin 1) (Fin 3))))
                     (snd (moments float32 (two_rows (Fin 1) (Fin 3))))
                     (bn_beta (bn_initial float32 1)) (bn_gamma (bn_initial float32 1)) (1 / 10 ^ 8))"
proof -
  let ?st = "bn_initial float32 1" and ?x = "two_rows (Fin 1) (Fin 3)"
  have z: "bn_counter ?st = 0" "bn_zero_cnt ?st = 0"
    by (simp_all add: bn_initial_def)
  obtain y tr where run:
    "batch_norm float32 ?st ?x (Some True) (9 / 10) True ''bn'' [] = (Some (y, ?st), tr)"
    using two_rows_runs [of ?st float32 "Fin 1" "Fin 3" True "9 / 10" True "''bn''"]
    by (auto simp: bn_initial_def)
  note f = batch_norm_first_call [OF z, of float32 ?x "9 / 10" True "''bn''"]
  from f have 1: "fst (bn_statistics float32 ?st ?x True (9 / 10)) = fst (moments float32 ?x)"
    "fst (snd (bn_statistics float32 ?st ?x True (9 / 10))) = snd (moments float32 ?x)"
    "fst (bn_statistics float32 ?st ?x False (9 / 10))
       = blend float32 (9 / 10) (fst (moments float32 ?x)) (fst (moments float32 ?x))"
    by blast+
  from run obtain det where d: "Some True = Some det"
    and yy: "y = batch_normalization float32 ?x (fst (bn_statistics float32 ?st ?x det (9 / 10)))
      (fst (snd (bn_statistics float32 ?st ?x det (9 / 10)))) (bn_beta ?st) (bn_gamma ?st)
      (1 / 10 ^ 8)"
    unfolding batch_norm_Some by blast
  from d have dt: "det = True" by simp
  have 2: "y = batch_normalization float32 ?x (fst (moments float32 ?x))
      (snd (moments float32 ?x)) (bn_beta ?st) (bn_gamma ?st) (1 / 10 ^ 8)"
    using yy unfolding dt 1(1,2) .
  have 3: "vel (fst (bn_statistics float32 ?st ?x False (9 / 10))) 0 = Fin 2"
    by (simp only: 1(3) blend_float32 moments_float32_1_3 blend_of_two)
  show ?thesis using z run 1(1,2) 2 3 by (simp add: moments_float32_1_3)
qed

theorem blend_rounding_counterexample:
  "bn_counter (bn_initial float32 1) = 0 \<and> bn_zero_cnt (bn_initial float32 1) = 0
   \<and> vel (fst (moments float32 (two_rows (Fin 3) (Fin 3)))) 0 = Fin 3
   \<and> vel (fst (bn_statistics float32 (bn_initial float32 1) (two_rows (Fin 3) (Fin 3))
                 False (9 / 10))) 0 = Fin (12582911 / 4194304)
   \<and> Fin (12582911 / 4194304) \<noteq> Fin 3"
proof -
  have z: "bn_counter (bn_initial float32 1) = bn_zero_cnt (bn_initial float32 1)"
    by (simp add: bn_initial_def)
  have "vel (fst (bn_statistics float32 (bn_initial float32 1) (two_rows (Fin 3) (Fin 3))
                 False (9 / 10))) 0 = Fin (12582911 / 4194304)"
    by (simp only: bn_statistics_first(1) [OF z] if_False blend_float32 moments_float32_3_3
        blend_of_three)
  then show ?thesis by (simp add: moments_float32_3_3 bn_initial_def)
qed

text \<open>
  C6. Two calls in a row in evaluation mode (\<open>deterministic\<close> true), the second on the
  store the first one left, give the same output, and the store is the one the first
  call started from. (This holds for any stored counter, zero or not.)
\<close>

theorem batch_norm_eval_twice:
  assumes "batch_norm ar st x (Some True) alpha shift scope tr = (Some (y1, st1), tr1)"
      and "batch_norm ar st1 x (Some True) alpha shift scope tr2 = (Some (y2, st2), tr3)"
  shows "y2 = y1 \<and> st2 = st"
  using assms by (auto simp: batch_norm_Some)

theorem batch_norm_eval_twice_witness:
  "\<exists>y1 st1 tr1 y2 st2 tr3.
     batch_norm float32 ((bn_initial float32 1)\<lparr>bn_counter := 5\<rparr>) (two_rows (Fin 1) (Fin 3))
       (Some True) (9 / 10) True ''bn'' [] = (Some (y1, st1), tr1)
   \<and> batch_norm float32 st1 (two_rows (Fin 1) (Fin 3)) (Some True) (9 / 10) True ''bn'' []
       = (Some (y2, st2), tr3)
   \<and> y2 = y1 \<and> st2 = (bn_initial float32 1)\<lparr>bn_counter := 5\<rparr>
   \<and> bn_counter ((bn_initial float32 1)\<lparr>bn_counter := 5\<rparr>) = 5"
proof -
  let ?st = "(bn_initial float32 1)\<lparr>bn_counter := 5\<rparr>"
  obtain y tr where run:
    "batch_norm float32 ?st (two_rows (Fin 1) (Fin 3)) (Some True) (9 / 10) True ''bn'' []
       = (Some (y, ?st), tr)"
    using two_rows_runs [of ?st float32 "Fin 1" "Fin 3" True "9 / 10" True "''bn''"]
    by (auto simp: bn_initial_def)
  from batch_norm_eval_twice [OF run run] run show ?thesis
    by (simp add: bn_initial_def)
qed

section \<open>LSTMCell: the stages of a step that returns\<close>

lemma cell_output_Some:
  "cell_output ar cfg vars sn og c tr = (Some m, tr') \<longleftrightarrow>
     (\<exists>gate cn. output_gate ar cfg vars og c = Some gate
        \<and> (if bn cfg
            then (\<exists>st'. batch_norm ar (v_bn_m vars) c (deterministic cfg) (9 / 10) True (sn @ ''bn_m'') tr
                          = (Some (cn, st'), tr'))
            else cn = c \<and> tr' = tr)
        \<and> broadcast2 (a_mul ar) (map_tensor (a_sigmoid ar) gate) (map_tensor (activation cfg) cn)
            = Some m)"
  unfolding cell_output_def bind_build_Some lift_Some ret_Some
  by (auto simp: bind_build_Some ret_Some split: if_splits prod.splits)

lemma lstm_matrix_Some_plain:
  assumes "\<not> bn cfg"
  shows "lstm_matrix ar cfg vars sn n inputs m_prev tr = (Some lm, tr') \<longleftrightarrow>
     (\<exists>shape. shape = [int n + proj_width cfg, 4 * num_units cfg]
        \<and> num_unit_shards cfg \<noteq> 0 \<and> int (num_unit_shards cfg) \<le> hd shape
        \<and> list_all (\<lambda>d. 0 \<le> d) shape \<and> shape2 (v_W vars) = shape
        \<and> shape1 (v_B vars) = [4 * num_units cfg]
        \<and> (\<exists>cell_inputs xw. concat1 inputs m_prev = Some cell_inputs
               \<and> matmul ar cell_inputs (v_W vars) = Some xw \<and> bias_add ar xw (v_B vars) = Some lm)
        \<and> tr' = tr @ [(''W'', shape), (''B'', [4 * num_units cfg])])"
  using assms
  by (auto simp: lstm_matrix_def Let_def bind_build_Some get_concat_variable_Some
    get_variable_Some lift_Some)

lemma lstm_matrix_Some_bn:
  assumes "bn cfg"
  shows "lstm_matrix ar cfg vars sn n inputs m_prev tr = (Some lm, tr') \<longleftrightarrow>
     (\<exists>xi yi xr yr s tr1 tr2 tr3 tr4 st1 st2.
          get_concat_variable ''W_i'' [int n, 4 * num_units cfg] (num_unit_shards cfg) (v_W_i vars) tr
            = (Some (v_W_i vars), tr1)
        \<and> get_concat_variable ''W_r'' [proj_width cfg, 4 * num_units cfg]
             (num_unit_shards cfg) (v_W_r vars) tr1 = (Some (v_W_r vars), tr2)
        \<and> get_variable ''B'' [4 * num_units cfg] shape1 (v_B vars) tr2 = (Some (v_B vars), tr3)
        \<and> matmul ar inputs (v_W_i vars) = Some xi
        \<and> batch_norm ar (v_bn_i vars) xi (deterministic cfg) (9 / 10) False (sn @ ''bn_i'') tr3
            = (Some (yi, st1), tr4)
        \<and> matmul ar m_prev (v_W_r vars) = Some xr
        \<and> batch_norm ar (v_bn_r vars) xr (deterministic cfg) (9 / 10) False (sn @ ''bn_r'') tr4
            = (Some (yr, st2), tr')
        \<and> broadcast2 (a_add ar) yi yr = Some s
        \<and> bias_add ar s (v_B vars) = Some lm)"
  using assms
  by (simp add: lstm_matrix_def Let_def bind_build_Some lift_Some case_prod_beta)
    (auto simp: get_concat_variable_Some get_variable_Some)

lemma LSTMCell_graph_Some:
  "LSTMCell_graph ar cfg vars sn n inputs c_prev m_prev tr = (Some r, tr') \<longleftrightarrow>
     (\<exists>lm i j f og c0 m0 m tr1 tr2 tr3.
        lstm_matrix ar cfg vars sn n inputs m_prev tr = (Some lm, tr1)
      \<and> split4 lm = Some (i, j, f, og)
      \<and> peephole_variables cfg vars tr1 = (Some (), tr2)
      \<and> cell_update ar cfg vars i j f c_prev = Some c0
      \<and> cell_output ar cfg vars sn og (cell_clipped ar cfg c0) tr2 = (Some m0, tr3)
      \<and> projection ar cfg vars m0 tr3 = (Some m, tr')
      \<and> r = \<lparr>r_output = m, r_c = cell_clipped ar cfg c0, r_h = m,
              r_gates = (if return_gate cfg then Some (i, j, f, og) else None)\<rparr>)"
  unfolding LSTMCell_graph_def bind_build_Some lift_Some ret_Some case_prod_beta
  by auto

lemma LSTMCell_call_Inr:
  "LSTMCell_call ar cfg vars scope ishape inputs (c_prev, m_prev) = (Inr r, tr) \<longleftrightarrow>
     (\<exists>shp n. with_rank 2 ishape = Some shp \<and> shp ! 1 = Some n
        \<and> LSTMCell_graph ar cfg vars (scope_name_of scope) n inputs c_prev m_prev [] = (Some r, tr))"
  by (auto simp: LSTMCell_call_def split: option.splits prod.splits)

section \<open>Shapes and elements of the operations\<close>

lemma matmul_Some:
  "matmul ar a b = Some c \<longleftrightarrow> ncols a = nrows b \<and>
     c = \<lparr>nrows = nrows a, ncols = ncols b,
          el = (\<lambda>i j. a_dot ar (row_of a i) (column_of b j))\<rparr>"
  by (auto simp: matmul_def)

lemma bias_add_Some:
  "bias_add ar x b = Some y \<longleftrightarrow> len b = ncols x \<and>
     y = \<lparr>nrows = nrows x, ncols = ncols x, el = (\<lambda>i j. a_add ar (el x i j) (vel b j))\<rparr>"
  by (auto simp: bias_add_def)

lemma concat1_Some:
  "concat1 x y = Some z \<longleftrightarrow> nrows x = nrows y \<and>
     z = \<lparr>nrows = nrows x, ncols = ncols x + ncols y,
          el = (\<lambda>i j. if j < ncols x then el x i j else el y i (j - ncols x))\<rparr>"
  by (auto simp: concat1_def)

lemma split4_Some:
  "split4 x = Some (i, j, f, og) \<longleftrightarrow> ncols x mod 4 = 0 \<and>
     i = slice1 x 0 (ncols x div 4) \<and> j = slice1 x (ncols x div 4) (ncols x div 4) \<and>
     f = slice1 x (2 * (ncols x div 4)) (ncols x div 4) \<and>
     og = slice1 x (3 * (ncols x div 4)) (ncols x div 4)"
  by (auto simp: split4_def Let_def)

lemma broadcast2_Some:
  "broadcast2 g x y = Some z \<longleftrightarrow>
     (\<exists>r c. bdim (nrows x) (nrows y) = Some r \<and> bdim (ncols x) (ncols y) = Some c \<and>
        z = \<lparr>nrows = r, ncols = c,
             el = (\<lambda>i j. g (el x (bidx (nrows x) i) (bidx (ncols x) j))
                           (el y (bidx (nrows y) i) (bidx (ncols y) j)))\<rparr>)"
  by (auto simp: broadcast2_def split: option.splits)

lemma broadcast2_ncols:
  "broadcast2 g x y = Some z \<Longrightarrow> bdim (ncols x) (ncols y) = Some (ncols z)"
  by (auto simp: broadcast2_Some)

lemma ncols_simps [simp]:
  "ncols (map_tensor g x) = ncols x" "ncols (as_row v) = len v"
  "ncols (clip_by_value ar x lo hi) = ncols x" "ncols (slice1 x s w) = w"
  "ncols (batch_normalization ar x m v b ga e) = ncols x"
  "ncols (add_scalar ar x sc) = ncols x"
  by (simp_all add: map_tensor_def as_row_def clip_by_value_def slice1_def batch_normalization_def
      add_scalar_def)

lemma ncols_cell_clipped [simp]: "ncols (cell_clipped ar cfg c) = ncols c"
  by (simp add: cell_clipped_def split: option.splits)

lemma lstm_matrix_ncols:
  assumes "lstm_matrix ar cfg vars sn n inputs m_prev tr = (Some lm, tr')"
  shows "int (ncols lm) = 4 * num_units cfg"
proof (cases "bn cfg")
  case True
  with assms show ?thesis
    by (auto simp: lstm_matrix_Some_bn get_variable_Some bias_add_Some shape1_def)
next
  case False
  with assms show ?thesis
    by (auto simp: lstm_matrix_Some_plain bias_add_Some shape1_def)
qed

lemma cell_update_ncols:
  assumes "cell_update ar cfg vars i j f c_prev = Some c0"
    and "ncols i = u" "ncols j = u" "ncols f = u"
    and "use_peepholes cfg \<Longrightarrow> len (v_W_F_diag vars) = u \<and> len (v_W_I_diag vars) = u"
  shows "ncols c0 = (if u = 1 then ncols c_prev else u)"
proof (cases "use_peepholes cfg")
  case False
  with assms(1) obtain keep new where
    "broadcast2 (a_mul ar) (map_tensor (a_sigmoid ar) (add_scalar ar f (forget_bias cfg))) c_prev
       = Some keep"
    "broadcast2 (a_mul ar) (map_tensor (a_sigmoid ar) i) (map_tensor (activation cfg) j) = Some new"
    "broadcast2 (a_add ar) keep new = Some c0"
    by (auto simp: cell_update_def split: Option.bind_splits)
  then show ?thesis using assms(2-4)
    by (auto dest!: broadcast2_ncols simp: bdim_def split: if_splits)
next
  case True
  with assms(1) obtain pf fg keep pi ig new where
    "broadcast2 (a_mul ar) (as_row (v_W_F_diag vars)) c_prev = Some pf"
    "broadcast2 (a_add ar) (add_scalar ar f (forget_bias cfg)) pf = Some fg"
    "broadcast2 (a_mul ar) (map_tensor (a_sigmoid ar) fg) c_prev = Some keep"
    "broadcast2 (a_mul ar) (as_row (v_W_I_diag vars)) c_prev = Some pi"
    "broadcast2 (a_add ar) i pi = Some ig"
    "broadcast2 (a_mul ar) (map_tensor (a_sigmoid ar) ig) (map_tensor (activation cfg) j) = Some new"
    "broadcast2 (a_add ar) keep new = Some c0"
    by (auto simp: cell_update_def split: Option.bind_splits)
  then show ?thesis using assms(2-4) assms(5) [OF True]
    by (auto dest!: broadcast2_ncols simp: bdim_def split: if_splits)
qed

lemma bdim_same [simp]: "bdim a a = Some a"
  by (simp add: bdim_def)

lemma bdim_one [simp]: "bdim (Suc 0) b = Some b" "bdim a (Suc 0) = Some a"
  by (auto simp: bdim_def)

lemma bidx_less [simp]: "k < n \<Longrightarrow> bidx n k = k"
  by (auto simp: bidx_def)

lemma bidx_one [simp]: "bidx (Suc 0) k = 0"
  by (simp add: bidx_def)

lemma broadcast2_same:
  assumes "nrows x = nrows y" "ncols x = ncols y"
  shows "\<exists>z. broadcast2 g x y = Some z \<and> nrows z = nrows y \<and> ncols z = ncols y
           \<and> (\<forall>i<nrows y. \<forall>j<ncols y. el z i j = g (el x i j) (el y i j))"
  using assms by (simp add: broadcast2_def)

lemma broadcast2_row:
  assumes "ncols y = len v"
  shows "\<exists>z. broadcast2 g (as_row v) y = Some z \<and> nrows z = nrows y \<and> ncols z = ncols y
           \<and> (\<forall>i<nrows y. \<forall>j<ncols y. el z i j = g (vel v j) (el y i j))"
  using assms by (simp add: broadcast2_def as_row_def)

lemma map_tensor_simps [simp]:
  "nrows (map_tensor g x) = nrows x" "el (map_tensor g x) i j = g (el x i j)"
  "nrows (add_scalar ar x sc) = nrows x"
  "el (add_scalar ar x sc) i j = a_add ar (el x i j) (a_const ar sc)"
  by (simp_all add: map_tensor_def add_scalar_def)

lemma cell_update_formula:
  assumes i: "nrows i = b" "ncols i = u" and j: "nrows j = b" "ncols j = u"
    and f: "nrows f = b" "ncols f = u" and c: "nrows c_prev = b" "ncols c_prev = u"
    and d: "use_peepholes cfg \<Longrightarrow> len (v_W_F_diag vars) = u \<and> len (v_W_I_diag vars) = u"
  shows "\<exists>c0. cell_update ar cfg vars i j f c_prev = Some c0 \<and> nrows c0 = b \<and> ncols c0 = u
     \<and> (\<forall>row<b. \<forall>k<u. el c0 row k =
          a_add ar
            (a_mul ar
               (a_sigmoid ar
                  (if use_peepholes cfg
                   then a_add ar (a_add ar (el f row k) (a_const ar (forget_bias cfg)))
                          (a_mul ar (vel (v_W_F_diag vars) k) (el c_prev row k))
                   else a_add ar (el f row k) (a_const ar (forget_bias cfg))))
               (el c_prev row k))
            (a_mul ar
               (a_sigmoid ar
                  (if use_peepholes cfg
                   then a_add ar (el i row k) (a_mul ar (vel (v_W_I_diag vars) k) (el c_prev row k))
                   else el i row k))
               (activation cfg (el j row k))))"
proof (cases "use_peepholes cfg")
  case False
  obtain keep where keep:
    "broadcast2 (a_mul ar) (map_tensor (a_sigmoid ar) (add_scalar ar f (forget_bias cfg))) c_prev
       = Some keep"
    "nrows keep = b" "ncols keep = u"
    "\<forall>row<b. \<forall>k<u. el keep row k
       = a_mul ar (a_sigmoid ar (a_add ar (el f row k) (a_const ar (forget_bias cfg))))
           (el c_prev row k)"
    using broadcast2_same [of "map_tensor (a_sigmoid ar) (add_scalar ar f (forget_bias cfg))"
        c_prev "a_mul ar"] f c by auto
  obtain new where new:
    "broadcast2 (a_mul ar) (map_tensor (a_sigmoid ar) i) (map_tensor (activation cfg) j) = Some new"
    "nrows new = b" "ncols new = u"
    "\<forall>row<b. \<forall>k<u. el new row k
       = a_mul ar (a_sigmoid ar (el i row k)) (activation cfg (el j row k))"
    using broadcast2_same [of "map_tensor (a_sigmoid ar) i" "map_tensor (activation cfg) j" "a_mul ar"]
      i j by auto
  obtain c0 where c0: "broadcast2 (a_add ar) keep new = Some c0" "nrows c0 = b" "ncols c0 = u"
    "\<forall>row<b. \<forall>k<u. el c0 row k = a_add ar (el keep row k) (el new row k)"
    using broadcast2_same [of keep new "a_add ar"] keep(2,3) new(2,3) by auto
  have "cell_update ar cfg vars i j f c_prev = Some c0"
    using False keep(1) new(1) c0(1) by (simp add: cell_update_def)
  then show ?thesis using False c0 keep(4) new(4) by auto
next
  case True
  from d [OF True] have dl: "len (v_W_F_diag vars) = u" "len (v_W_I_diag vars) = u" by auto
  obtain pf where pf: "broadcast2 (a_mul ar) (as_row (v_W_F_diag vars)) c_prev = Some pf"
    "nrows pf = b" "ncols pf = u"
    "\<forall>row<b. \<forall>k<u. el pf row k = a_mul ar (vel (v_W_F_diag vars) k) (el c_prev row k)"
    using broadcast2_row [of c_prev "v_W_F_diag vars" "a_mul ar"] c dl by auto
  obtain fg where fg:
    "broadcast2 (a_add ar) (add_scalar ar f (forget_bias cfg)) pf = Some fg"
    "nrows fg = b" "ncols fg = u"
    "\<forall>row<b. \<forall>k<u. el fg row k
       = a_add ar (a_add ar (el f row k) (a_const ar (forget_bias cfg))) (el pf row k)"
    using broadcast2_same [of "add_scalar ar f (forget_bias cfg)" pf "a_add ar"] f pf(2,3) by auto
  obtain keep where keep: "broadcast2 (a_mul ar) (map_tensor (a_sigmoid ar) fg) c_prev = Some keep"
    "nrows keep = b" "ncols keep = u"
    "\<forall>row<b. \<forall>k<u. el keep row k = a_mul ar (a_sigmoid ar (el fg row k)) (el c_prev row k)"
    using broadcast2_same [of "map_tensor (a_sigmoid ar) fg" c_prev "a_mul ar"] fg(2,3) c by auto
  obtain pi where pi: "broadcast2 (a_mul ar) (as_row (v_W_I_diag vars)) c_prev = Some pi"
    "nrows pi = b" "ncols pi = u"
    "\<forall>row<b. \<forall>k<u. el pi row k = a_mul ar (vel (v_W_I_diag vars) k) (el c_prev row k)"
    using broadcast2_row [of c_prev "v_W_I_diag vars" "a_mul ar"] c dl by auto
  obtain ig where ig: "broadcast2 (a_add ar) i pi = Some ig" "nrows ig = b" "ncols ig = u"
    "\<forall>row<b. \<forall>k<u. el ig row k = a_add ar (el i row k) (el pi row k)"
    using broadcast2_same [of i pi "a_add ar"] i pi(2,3) by auto
  obtain new where new:
    "broadcast2 (a_mul ar) (map_tensor (a_sigmoid ar) ig) (map_tensor (activation cfg) j) = Some new"
    "nrows new = b" "ncols new = u"
    "\<forall>row<b. \<forall>k<u. el new row k
       = a_mul ar (a_sigmoid ar (el ig row k)) (activation cfg (el j row k))"
    using broadcast2_same [of "map_tensor (a_sigmoid ar) ig" "map_tensor (activation cfg) j"
        "a_mul ar"] ig(2,3) j by auto
  obtain c0 where c0: "broadcast2 (a_add ar) keep new = Some c0" "nrows c0 = b" "ncols c0 = u"
    "\<forall>row<b. \<forall>k<u. el c0 row k = a_add ar (el keep row k) (el new row k)"
    using broadcast2_same [of keep new "a_add ar"] keep(2,3) new(2,3) by auto
  have "cell_update ar cfg vars i j f c_prev = Some c0"
    using True pf(1) fg(1) keep(1) pi(1) ig(1) new(1) c0(1) by (simp add: cell_update_def)
  then show ?thesis using True c0 keep(4) new(4) fg(4) ig(4) pf(4) pi(4) by auto
qed

lemma shape_simps [simp]:
  "nrows (slice1 x s w) = nrows x" "el (slice1 x s w) i j = el x i (s + j)"
  "nrows (clip_by_value ar x lo hi) = nrows x"
  "el (clip_by_value ar x lo hi) i j
     = a_maximum ar (a_minimum ar (el x i j) (a_const ar hi)) (a_const ar lo)"
  "nrows (batch_normalization ar x m v be ga e) = nrows x"
  by (simp_all add: slice1_def clip_by_value_def batch_normalization_def map_tensor_def)

lemma nrows_cell_clipped [simp]: "nrows (cell_clipped ar cfg c) = nrows c"
  by (simp add: cell_clipped_def split: option.splits)

lemma well_shaped_nat:
  assumes "well_shaped cfg vars b n inputs c_prev m_prev"
  obtains u p where "num_units cfg = int u" "proj_width cfg = int p"
  using assms unfolding well_shaped_def by (metis nat_0_le)

lemma gates_plain:
  assumes ws: "well_shaped cfg vars b n inputs c_prev m_prev" and nb: "\<not> bn cfg"
    and u: "num_units cfg = int u"
  shows "\<exists>cell_inputs xw lm i j f og tr1.
       concat1 inputs m_prev = Some cell_inputs
     \<and> matmul ar cell_inputs (v_W vars) = Some xw
     \<and> bias_add ar xw (v_B vars) = Some lm
     \<and> split4 lm = Some (i, j, f, og)
     \<and> lstm_matrix ar cfg vars sn n inputs m_prev tr = (Some lm, tr1)
     \<and> nrows lm = b \<and> ncols lm = 4 * u
     \<and> nrows i = b \<and> ncols i = u \<and> nrows j = b \<and> ncols j = u
     \<and> nrows f = b \<and> ncols f = u \<and> nrows og = b \<and> ncols og = u
     \<and> (\<forall>row k. el i row k = el lm row k \<and> el j row k = el lm row (u + k)
           \<and> el f row k = el lm row (2 * u + k) \<and> el og row k = el lm row (3 * u + k))
     \<and> (\<forall>row q. el lm row q =
           a_add ar (a_dot ar (row_of cell_inputs row) (column_of (v_W vars) q)) (vel (v_B vars) q))"
proof -
  obtain p where p: "proj_width cfg = int p" using ws by (rule well_shaped_nat)
  from ws nb u p have sh: "nrows inputs = b" "ncols inputs = n" "nrows m_prev = b" "ncols m_prev = p"
    "nrows (v_W vars) = n + p" "ncols (v_W vars) = 4 * u" "len (v_B vars) = 4 * u"
    "num_unit_shards cfg \<noteq> 0" "num_unit_shards cfg \<le> n + p"
    by (auto simp: well_shaped_def shape2_def shape1_def)
  define cell_inputs where "cell_inputs = \<lparr>nrows = nrows inputs, ncols = ncols inputs + ncols m_prev,
          el = (\<lambda>i j. if j < ncols inputs then el inputs i j else el m_prev i (j - ncols inputs))\<rparr>"
  define xw where "xw = \<lparr>nrows = nrows cell_inputs, ncols = ncols (v_W vars),
          el = (\<lambda>i j. a_dot ar (row_of cell_inputs i) (column_of (v_W vars) j))\<rparr>"
  define lm where "lm = \<lparr>nrows = nrows xw, ncols = ncols xw,
          el = (\<lambda>i j. a_add ar (el xw i j) (vel (v_B vars) j))\<rparr>"
  have 1: "concat1 inputs m_prev = Some cell_inputs"
    using sh by (simp add: concat1_Some cell_inputs_def)
  have 2: "matmul ar cell_inputs (v_W vars) = Some xw"
    using sh by (simp add: matmul_Some xw_def cell_inputs_def)
  have 3: "bias_add ar xw (v_B vars) = Some lm" using sh by (simp add: bias_add_Some lm_def xw_def)
  have lmsh: "nrows lm = b" "ncols lm = 4 * u"
    using sh by (simp_all add: lm_def xw_def cell_inputs_def)
  have 4: "split4 lm = Some (slice1 lm 0 u, slice1 lm u u, slice1 lm (2 * u) u, slice1 lm (3 * u) u)"
    using lmsh by (simp add: split4_Some)
  have 5: "lstm_matrix ar cfg vars sn n inputs m_prev tr
      = (Some lm, tr @ [(''W'', [int n + proj_width cfg, 4 * num_units cfg]),
                        (''B'', [4 * num_units cfg])])"
    using nb sh u p 1 2 3 by (simp add: lstm_matrix_Some_plain shape2_def shape1_def)
  have 6: "\<forall>row q. el lm row q =
           a_add ar (a_dot ar (row_of cell_inputs row) (column_of (v_W vars) q)) (vel (v_B vars) q)"
    by (simp add: lm_def xw_def)
  show ?thesis using 1 2 3 4 5 6 lmsh by simp
qed

lemma well_shaped_bn_shapes:
  assumes ws: "well_shaped cfg vars b n inputs c_prev m_prev" and bn: "bn cfg"
    and u: "num_units cfg = int u" and p: "proj_width cfg = int p"
  shows "nrows inputs = b" "ncols inputs = n" "nrows m_prev = b" "ncols m_prev = p"
    "nrows (v_W_i vars) = n" "ncols (v_W_i vars) = 4 * u"
    "nrows (v_W_r vars) = p" "ncols (v_W_r vars) = 4 * u" "len (v_B vars) = 4 * u"
    "num_unit_shards cfg \<noteq> 0" "num_unit_shards cfg \<le> n" "num_unit_shards cfg \<le> p"
    "bn_shaped (v_bn_i vars) (4 * u)" "bn_shaped (v_bn_r vars) (4 * u)" "bn_shaped (v_bn_m vars) u"
  using ws bn u p
  by (simp_all add: well_shaped_def shape2_def shape1_def nat_mult_distrib)

lemma well_shaped_bn:
  assumes ws: "well_shaped cfg vars b n inputs c_prev m_prev" and bn: "bn cfg"
  shows "\<exists>det. deterministic cfg = Some det"
  using ws bn by (simp add: well_shaped_def)

lemma batch_norm_returns:
  assumes "bn_shaped st (ncols x)" and "dflag = Some det"
  shows "\<exists>y tr'. batch_norm ar st x dflag alpha shift scope tr = (Some (y, st), tr')
           \<and> nrows y = nrows x \<and> ncols y = ncols x"
  using assms by (simp add: batch_norm_Some bn_shaped_def)

lemma matmul_returns:
  assumes "ncols a = nrows w"
  shows "\<exists>y. matmul ar a w = Some y \<and> nrows y = nrows a \<and> ncols y = ncols w
     \<and> (\<forall>i j. el y i j = a_dot ar (row_of a i) (column_of w j))"
  using assms by (simp add: matmul_Some)

lemma gates_bn:
  assumes ws: "well_shaped cfg vars b n inputs c_prev m_prev" and bn: "bn cfg"
    and u: "num_units cfg = int u"
  shows "\<exists>lm i j f og tr1.
       split4 lm = Some (i, j, f, og)
     \<and> lstm_matrix ar cfg vars sn n inputs m_prev tr = (Some lm, tr1)
     \<and> nrows i = b \<and> ncols i = u \<and> nrows j = b \<and> ncols j = u
     \<and> nrows f = b \<and> ncols f = u \<and> nrows og = b \<and> ncols og = u"
proof -
  obtain p where p: "proj_width cfg = int p" using ws by (rule well_shaped_nat)
  note sh = well_shaped_bn_shapes [OF ws bn u p]
  obtain det where det: "deterministic cfg = Some det"
    using well_shaped_bn [OF ws bn] by blast
  obtain xi where xi: "matmul ar inputs (v_W_i vars) = Some xi" "nrows xi = b" "ncols xi = 4 * u"
    using matmul_returns [of inputs "v_W_i vars" ar] sh by auto
  obtain xr where xr: "matmul ar m_prev (v_W_r vars) = Some xr" "nrows xr = b" "ncols xr = 4 * u"
    using matmul_returns [of m_prev "v_W_r vars" ar] sh by auto
  define tr1 where "tr1 = tr @ [(''W_i'', [int n, 4 * num_units cfg])]"
  define tr2 where "tr2 = tr1 @ [(''W_r'', [proj_width cfg, 4 * num_units cfg])]"
  define tr3 where "tr3 = tr2 @ [(''B'', [4 * num_units cfg])]"
  have bi: "bn_shaped (v_bn_i vars) (ncols xi)" and br: "bn_shaped (v_bn_r vars) (ncols xr)"
    using sh xi xr by simp_all
  obtain yi tr4 where yi: "batch_norm ar (v_bn_i vars) xi (deterministic cfg) (9 / 10) False
      (sn @ ''bn_i'') tr3 = (Some (yi, v_bn_i vars), tr4)" "nrows yi = b" "ncols yi = 4 * u"
    using batch_norm_returns [OF bi det, where ar = ar and alpha = "9 / 10" and shift = False
        and scope = "sn @ ''bn_i''" and tr = tr3] xi by auto
  obtain yr tr5 where yr: "batch_norm ar (v_bn_r vars) xr (deterministic cfg) (9 / 10) False
      (sn @ ''bn_r'') tr4 = (Some (yr, v_bn_r vars), tr5)" "nrows yr = b" "ncols yr = 4 * u"
    using batch_norm_returns [OF br det, where ar = ar and alpha = "9 / 10" and shift = False
        and scope = "sn @ ''bn_r''" and tr = tr4] xr by auto
  obtain s where s: "broadcast2 (a_add ar) yi yr = Some s" "nrows s = b" "ncols s = 4 * u"
    using broadcast2_same [of yi yr "a_add ar"] yi yr by auto
  obtain lm where lm: "bias_add ar s (v_B vars) = Some lm" "nrows lm = b" "ncols lm = 4 * u"
    using s sh by (simp add: bias_add_Some)
  have 4: "split4 lm = Some (slice1 lm 0 u, slice1 lm u u, slice1 lm (2 * u) u, slice1 lm (3 * u) u)"
    using lm by (simp add: split4_Some)
  have g1: "get_concat_variable ''W_i'' [int n, 4 * num_units cfg] (num_unit_shards cfg) (v_W_i vars) tr
            = (Some (v_W_i vars), tr1)"
    using sh u by (simp add: get_concat_variable_Some shape2_def tr1_def)
  have g2: "get_concat_variable ''W_r'' [proj_width cfg, 4 * num_units cfg]
             (num_unit_shards cfg) (v_W_r vars) tr1 = (Some (v_W_r vars), tr2)"
    using sh u p by (simp add: get_concat_variable_Some shape2_def tr2_def)
  have g3: "get_variable ''B'' [4 * num_units cfg] shape1 (v_B vars) tr2 = (Some (v_B vars), tr3)"
    using sh u by (simp add: get_variable_Some shape1_def tr3_def)
  have 5: "lstm_matrix ar cfg vars sn n inputs m_prev tr = (Some lm, tr5)"
    unfolding lstm_matrix_Some_bn [OF bn]
    using g1 g2 g3 xi(1) xr(1) yi(1) yr(1) s(1) lm(1) by blast
  show ?thesis using 4 5 lm by simp
qed

lemma output_gate_returns:
  assumes og: "nrows og = b" "ncols og = u" and c: "nrows c = b" "ncols c = u"
    and d: "use_peepholes cfg \<Longrightarrow> len (v_W_O_diag vars) = u"
  shows "\<exists>gate. output_gate ar cfg vars og c = Some gate \<and> nrows gate = b \<and> ncols gate = u
     \<and> (\<forall>row<b. \<forall>k<u. el gate row k =
           (if use_peepholes cfg
            then a_add ar (el og row k) (a_mul ar (vel (v_W_O_diag vars) k) (el (c) row k))
            else el og row k))"
proof (cases "use_peepholes cfg")
  case False
  then show ?thesis using og by (simp add: output_gate_def)
next
  case True
  obtain po where po: "broadcast2 (a_mul ar) (as_row (v_W_O_diag vars)) c = Some po"
    "nrows po = b" "ncols po = u"
    "\<forall>row<b. \<forall>k<u. el po row k = a_mul ar (vel (v_W_O_diag vars) k) (el c row k)"
    using broadcast2_row [of c "v_W_O_diag vars" "a_mul ar"] c d [OF True] by auto
  obtain gate where gate: "broadcast2 (a_add ar) og po = Some gate" "nrows gate = b" "ncols gate = u"
    "\<forall>row<b. \<forall>k<u. el gate row k = a_add ar (el og row k) (el po row k)"
    using broadcast2_same [of og po "a_add ar"] og po(2,3) by auto
  have "output_gate ar cfg vars og c = Some gate"
    using True po(1) gate(1) by (simp add: output_gate_def)
  then show ?thesis using True gate po(4) by auto
qed

lemma cell_output_returns:
  assumes og: "nrows og = b" "ncols og = u" and c: "nrows c = b" "ncols c = u"
    and d: "use_peepholes cfg \<Longrightarrow> len (v_W_O_diag vars) = u"
    and n: "bn cfg \<Longrightarrow> bn_shaped (v_bn_m vars) u \<and> (\<exists>det. deterministic cfg = Some det)"
  shows "\<exists>gate cn m0 tr'.
       output_gate ar cfg vars og c = Some gate
     \<and> (if bn cfg
         then batch_norm ar (v_bn_m vars) c (deterministic cfg) (9 / 10) True (sn @ ''bn_m'') tr
                = (Some (cn, v_bn_m vars), tr')
         else cn = c \<and> tr' = tr)
     \<and> broadcast2 (a_mul ar) (map_tensor (a_sigmoid ar) gate) (map_tensor (activation cfg) cn)
         = Some m0
     \<and> cell_output ar cfg vars sn og c tr = (Some m0, tr')
     \<and> nrows m0 = b \<and> ncols m0 = u
     \<and> (\<forall>row<b. \<forall>k<u. el gate row k =
           (if use_peepholes cfg
            then a_add ar (el og row k) (a_mul ar (vel (v_W_O_diag vars) k) (el (c) row k))
            else el og row k))
     \<and> (\<forall>row<b. \<forall>k<u. el m0 row k
           = a_mul ar (a_sigmoid ar (el gate row k)) (activation cfg (el cn row k)))"
proof -
  obtain gate where gate: "output_gate ar cfg vars og c = Some gate" "nrows gate = b" "ncols gate = u"
    "\<forall>row<b. \<forall>k<u. el gate row k =
           (if use_peepholes cfg
            then a_add ar (el og row k) (a_mul ar (vel (v_W_O_diag vars) k) (el (c) row k))
            else el og row k)"
    using output_gate_returns [OF og c d] by blast
  obtain cn tr' where cn:
    "if bn cfg
     then batch_norm ar (v_bn_m vars) c (deterministic cfg) (9 / 10) True (sn @ ''bn_m'') tr
            = (Some (cn, v_bn_m vars), tr')
     else cn = c \<and> tr' = tr" "nrows cn = b" "ncols cn = u"
  proof (cases "bn cfg")
    case True
    from n [OF True] obtain det where "bn_shaped (v_bn_m vars) (ncols c)" "deterministic cfg = Some det"
      using c by auto
    from batch_norm_returns [OF this, where ar = ar and alpha = "9 / 10" and shift = True
        and scope = "sn @ ''bn_m''" and tr = tr] True c that
    show ?thesis by auto
  next
    case False
    then show ?thesis using c that by simp
  qed
  obtain m0 where m0:
    "broadcast2 (a_mul ar) (map_tensor (a_sigmoid ar) gate) (map_tensor (activation cfg) cn) = Some m0"
    "nrows m0 = b" "ncols m0 = u"
    "\<forall>row<b. \<forall>k<u. el m0 row k
           = a_mul ar (a_sigmoid ar (el gate row k)) (activation cfg (el cn row k))"
    using broadcast2_same [of "map_tensor (a_sigmoid ar) gate" "map_tensor (activation cfg) cn"
        "a_mul ar"] gate(2,3) cn(2,3) by auto
  have "cell_output ar cfg vars sn og c tr = (Some m0, tr')"
    unfolding cell_output_Some using gate(1) cn(1) m0(1) by (cases "bn cfg") auto
  then show ?thesis using gate cn(1) m0 by blast
qed

lemma projection_returns:
  assumes m0: "nrows m0 = b" "ncols m0 = u" and u: "num_units cfg = int u"
    and ws: "well_shaped cfg vars b n inputs c_prev m_prev"
  shows "\<exists>m tr'. projection ar cfg vars m0 tr = (Some m, tr') \<and> nrows m = b
     \<and> int (ncols m) = proj_width cfg
     \<and> (case num_proj cfg of None \<Rightarrow> m = m0
         | Some q \<Rightarrow> matmul ar m0 (v_W_P vars) = Some m
             \<and> (\<forall>i j. el m i j = a_dot ar (row_of m0 i) (column_of (v_W_P vars) j)))"
proof (cases "num_proj cfg")
  case None
  then show ?thesis using m0 u by (simp add: projection_Some proj_width_def)
next
  case (Some q)
  with ws u have sh: "nrows (v_W_P vars) = u" "int (ncols (v_W_P vars)) = q"
    "num_proj_shards cfg \<noteq> 0" "num_proj_shards cfg \<le> u" "0 \<le> q"
    by (simp_all add: well_shaped_def shape2_def proj_width_def)
  obtain m where m: "matmul ar m0 (v_W_P vars) = Some m" "nrows m = b" "ncols m = ncols (v_W_P vars)"
    "\<forall>i j. el m i j = a_dot ar (row_of m0 i) (column_of (v_W_P vars) j)"
    using matmul_returns [of m0 "v_W_P vars" ar] m0 sh by auto
  show ?thesis using Some m sh u
    by (simp add: projection_Some proj_width_def shape2_def)
qed

lemma peephole_variables_returns:
  assumes "well_shaped cfg vars b n inputs c_prev m_prev"
  shows "\<exists>tr'. peephole_variables cfg vars tr = (Some (), tr')"
  using assms by (cases "use_peepholes cfg") (simp_all add: peephole_variables_Some well_shaped_def)

lemma well_shaped_peepholes:
  assumes "well_shaped cfg vars b n inputs c_prev m_prev" "num_units cfg = int u" "use_peepholes cfg"
  shows "len (v_W_F_diag vars) = u" "len (v_W_I_diag vars) = u" "len (v_W_O_diag vars) = u"
  using assms by (simp_all add: well_shaped_def shape1_def)

lemma well_shaped_state:
  assumes "well_shaped cfg vars b n inputs c_prev m_prev" "num_units cfg = int u"
  shows "nrows c_prev = b" "ncols c_prev = u"
  using assms by (simp_all add: well_shaped_def shape2_def)

lemma with_rank_known: "with_rank 2 (Some [bd, Some n]) = Some [bd, Some n]"
  by (simp add: with_rank_def)

lemma call_returns:
  assumes ws: "well_shaped cfg vars b n inputs c_prev m_prev"
  shows "\<exists>r tr. LSTMCell_call ar cfg vars scope (Some [bd, Some n]) inputs (c_prev, m_prev)
                  = (Inr r, tr)"
proof -
  obtain u p where u: "num_units cfg = int u" and p: "proj_width cfg = int p"
    using ws by (rule well_shaped_nat)
  let ?sn = "scope_name_of scope"
  obtain lm i j f og tr1 where g: "split4 lm = Some (i, j, f, og)"
    "lstm_matrix ar cfg vars ?sn n inputs m_prev [] = (Some lm, tr1)"
    "nrows i = b" "ncols i = u" "nrows j = b" "ncols j = u"
    "nrows f = b" "ncols f = u" "nrows og = b" "ncols og = u"
  proof (cases "bn cfg")
    case True
    from gates_bn [OF ws True u, where ar = ar and sn = ?sn and tr = "[]"] that show ?thesis by blast
  next
    case False
    from gates_plain [OF ws False u, where ar = ar and sn = ?sn and tr = "[]"] that show ?thesis by blast
  qed
  obtain tr2 where pv: "peephole_variables cfg vars tr1 = (Some (), tr2)"
    using peephole_variables_returns [OF ws] by blast
  note cp = well_shaped_state [OF ws u]
  have d: "use_peepholes cfg \<Longrightarrow> len (v_W_F_diag vars) = u \<and> len (v_W_I_diag vars) = u"
    using well_shaped_peepholes [OF ws u] by simp
  obtain c0 where c0: "cell_update ar cfg vars i j f c_prev = Some c0" "nrows c0 = b" "ncols c0 = u"
    using cell_update_formula [OF g(3-8) cp d, where ar = ar] by blast
  have n: "bn cfg \<Longrightarrow> bn_shaped (v_bn_m vars) u \<and> (\<exists>det. deterministic cfg = Some det)"
    using well_shaped_bn_shapes(15) [OF ws _ u p] well_shaped_bn [OF ws] by simp
  have cc: "nrows (cell_clipped ar cfg c0) = b" "ncols (cell_clipped ar cfg c0) = u"
    using c0 by simp_all
  obtain m0 tr3 where m0: "cell_output ar cfg vars ?sn og (cell_clipped ar cfg c0) tr2 = (Some m0, tr3)"
    "nrows m0 = b" "ncols m0 = u"
    using cell_output_returns [OF g(9,10) cc well_shaped_peepholes(3) [OF ws u] n, where ar = ar and sn = ?sn and tr = tr2]
    by blast
  obtain m tr where m: "projection ar cfg vars m0 tr3 = (Some m, tr)"
    using projection_returns [OF m0(2,3) u ws, where ar = ar] by blast
  show ?thesis
    unfolding LSTMCell_call_Inr with_rank_known LSTMCell_graph_Some
    using g(1,2) pv c0(1) m0(1) m by auto
qed

section \<open>A whole step\<close>

lemma cell_output_ncols:
  assumes "cell_output ar cfg vars sn og c tr = (Some m0, tr')" and "ncols og = u"
    and "use_peepholes cfg \<Longrightarrow> len (v_W_O_diag vars) = u"
    and "u \<noteq> 1 \<Longrightarrow> ncols c = u"
  shows "ncols m0 = ncols c"
proof -
  from assms(1) obtain gate cn where g0: "output_gate ar cfg vars og c = Some gate"
    "if bn cfg
     then (\<exists>st'. batch_norm ar (v_bn_m vars) c (deterministic cfg) (9 / 10) True (sn @ ''bn_m'') tr
                   = (Some (cn, st'), tr'))
     else cn = c \<and> tr' = tr"
    "broadcast2 (a_mul ar) (map_tensor (a_sigmoid ar) gate) (map_tensor (activation cfg) cn) = Some m0"
    unfolding cell_output_Some by blast
  from g0(2) have "ncols cn = ncols c"
    by (cases "bn cfg") (auto simp: batch_norm_Some)
  note g = g0(1) this g0(3)
  have "ncols gate = (if u = 1 \<and> use_peepholes cfg then ncols c else u)"
  proof (cases "use_peepholes cfg")
    case False
    with g(1) assms(2,4) show ?thesis by (auto simp: output_gate_def)
  next
    case True
    with g(1) obtain po where "broadcast2 (a_mul ar) (as_row (v_W_O_diag vars)) c = Some po"
      "broadcast2 (a_add ar) og po = Some gate"
      by (auto simp: output_gate_def split: Option.bind_splits)
    then show ?thesis using assms(2,4) assms(3) [OF True] True
      by (auto dest!: broadcast2_ncols simp: bdim_def split: if_splits)
  qed
  with g(2,3) assms(4) show ?thesis
    by (auto dest!: broadcast2_ncols simp: bdim_def split: if_splits)
qed

lemma call_plain_stages:
  assumes ws: "well_shaped cfg vars b n inputs c_prev m_prev" and nb: "\<not> bn cfg"
    and u: "num_units cfg = int u"
  shows "\<exists>cell_inputs xw lm i j f og c gate m0 r tr.
       concat1 inputs m_prev = Some cell_inputs
     \<and> matmul ar cell_inputs (v_W vars) = Some xw
     \<and> bias_add ar xw (v_B vars) = Some lm
     \<and> split4 lm = Some (i, j, f, og)
     \<and> (\<forall>row q. el lm row q =
           a_add ar (a_dot ar (row_of cell_inputs row) (column_of (v_W vars) q)) (vel (v_B vars) q))
     \<and> (\<forall>row k. el i row k = el lm row k \<and> el j row k = el lm row (u + k)
           \<and> el f row k = el lm row (2 * u + k) \<and> el og row k = el lm row (3 * u + k))
     \<and> ncols i = u \<and> ncols j = u \<and> ncols f = u \<and> ncols og = u
     \<and> cell_update ar cfg vars i j f c_prev = Some c
     \<and> nrows c = b \<and> ncols c = u
     \<and> (\<forall>row<b. \<forall>k<u. el c row k =
          a_add ar
            (a_mul ar
               (a_sigmoid ar
                  (if use_peepholes cfg
                   then a_add ar (a_add ar (el f row k) (a_const ar (forget_bias cfg)))
                          (a_mul ar (vel (v_W_F_diag vars) k) (el c_prev row k))
                   else a_add ar (el f row k) (a_const ar (forget_bias cfg))))
               (el c_prev row k))
            (a_mul ar
               (a_sigmoid ar
                  (if use_peepholes cfg
                   then a_add ar (el i row k) (a_mul ar (vel (v_W_I_diag vars) k) (el c_prev row k))
                   else el i row k))
               (activation cfg (el j row k))))
     \<and> output_gate ar cfg vars og (cell_clipped ar cfg c) = Some gate
     \<and> (\<forall>row<b. \<forall>k<u. el gate row k =
           (if use_peepholes cfg
            then a_add ar (el og row k) (a_mul ar (vel (v_W_O_diag vars) k) (el (cell_clipped ar cfg c) row k))
            else el og row k))
     \<and> nrows m0 = b \<and> ncols m0 = u
     \<and> (\<forall>row<b. \<forall>k<u. el m0 row k
           = a_mul ar (a_sigmoid ar (el gate row k)) (activation cfg (el (cell_clipped ar cfg c) row k)))
     \<and> LSTMCell_call ar cfg vars scope (Some [bd, Some n]) inputs (c_prev, m_prev)
         = (Inr r, tr)
     \<and> r_c r = cell_clipped ar cfg c \<and> r_h r = r_output r
     \<and> nrows (r_output r) = b \<and> int (ncols (r_output r)) = proj_width cfg
     \<and> (case num_proj cfg of None \<Rightarrow> r_output r = m0
         | Some q \<Rightarrow> matmul ar m0 (v_W_P vars) = Some (r_output r)
             \<and> (\<forall>row k. el (r_output r) row k
                    = a_dot ar (row_of m0 row) (column_of (v_W_P vars) k)))"
proof -
  let ?sn = "scope_name_of scope"
  from gates_plain [OF ws nb u, where ar = ar and sn = ?sn and tr = "[]"]
  obtain cell_inputs xw lm i j f og tr1 where
    g: "concat1 inputs m_prev = Some cell_inputs" "matmul ar cell_inputs (v_W vars) = Some xw"
      "bias_add ar xw (v_B vars) = Some lm" "split4 lm = Some (i, j, f, og)"
      "lstm_matrix ar cfg vars ?sn n inputs m_prev [] = (Some lm, tr1)"
    and sh: "nrows i = b" "ncols i = u" "nrows j = b" "ncols j = u"
      "nrows f = b" "ncols f = u" "nrows og = b" "ncols og = u"
    and sl: "\<forall>row k. el i row k = el lm row k \<and> el j row k = el lm row (u + k)
           \<and> el f row k = el lm row (2 * u + k) \<and> el og row k = el lm row (3 * u + k)"
    and lm: "\<forall>row q. el lm row q =
           a_add ar (a_dot ar (row_of cell_inputs row) (column_of (v_W vars) q)) (vel (v_B vars) q)"
    by blast
  obtain tr2 where pv: "peephole_variables cfg vars tr1 = (Some (), tr2)"
    using peephole_variables_returns [OF ws] by blast
  note cp = well_shaped_state [OF ws u]
  have d: "use_peepholes cfg \<Longrightarrow> len (v_W_F_diag vars) = u \<and> len (v_W_I_diag vars) = u"
    using well_shaped_peepholes [OF ws u] by simp
  from cell_update_formula [OF sh(1-6) cp d, where ar = ar] obtain c where
    c: "cell_update ar cfg vars i j f c_prev = Some c" "nrows c = b" "ncols c = u"
    and cf: "\<forall>row<b. \<forall>k<u. el c row k =
          a_add ar
            (a_mul ar
               (a_sigmoid ar
                  (if use_peepholes cfg
                   then a_add ar (a_add ar (el f row k) (a_const ar (forget_bias cfg)))
                          (a_mul ar (vel (v_W_F_diag vars) k) (el c_prev row k))
                   else a_add ar (el f row k) (a_const ar (forget_bias cfg))))
               (el c_prev row k))
            (a_mul ar
               (a_sigmoid ar
                  (if use_peepholes cfg
                   then a_add ar (el i row k) (a_mul ar (vel (v_W_I_diag vars) k) (el c_prev row k))
                   else el i row k))
               (activation cfg (el j row k)))"
    by blast
  have cc: "nrows (cell_clipped ar cfg c) = b" "ncols (cell_clipped ar cfg c) = u"
    using c by simp_all
  have nbn: "bn cfg \<Longrightarrow> bn_shaped (v_bn_m vars) u \<and> (\<exists>det. deterministic cfg = Some det)"
    using nb by simp
  from cell_output_returns [OF sh(7,8) cc well_shaped_peepholes(3) [OF ws u] nbn,
      where ar = ar and sn = ?sn and tr = tr2] nb
  obtain gate m0 where
    o: "output_gate ar cfg vars og (cell_clipped ar cfg c) = Some gate"
      "cell_output ar cfg vars ?sn og (cell_clipped ar cfg c) tr2 = (Some m0, tr2)"
      "nrows m0 = b" "ncols m0 = u"
    and gf: "\<forall>row<b. \<forall>k<u. el gate row k =
           (if use_peepholes cfg
            then a_add ar (el og row k) (a_mul ar (vel (v_W_O_diag vars) k) (el (cell_clipped ar cfg c) row k))
            else el og row k)"
    and mf: "\<forall>row<b. \<forall>k<u. el m0 row k
           = a_mul ar (a_sigmoid ar (el gate row k)) (activation cfg (el (cell_clipped ar cfg c) row k))"
    by auto
  from projection_returns [OF o(3,4) u ws, where ar = ar and tr = tr2] obtain m tr where
    p: "projection ar cfg vars m0 tr2 = (Some m, tr)" "nrows m = b" "int (ncols m) = proj_width cfg"
      "case num_proj cfg of None \<Rightarrow> m = m0
         | Some q \<Rightarrow> matmul ar m0 (v_W_P vars) = Some m
             \<and> (\<forall>row k. el m row k = a_dot ar (row_of m0 row) (column_of (v_W_P vars) k))"
    by blast
  define r where "r = \<lparr>r_output = m, r_c = cell_clipped ar cfg c, r_h = m,
              r_gates = (if return_gate cfg then Some (i, j, f, og) else None)\<rparr>"
  have run: "LSTMCell_call ar cfg vars scope (Some [bd, Some n]) inputs (c_prev, m_prev)
         = (Inr r, tr)"
    unfolding LSTMCell_call_Inr with_rank_known LSTMCell_graph_Some r_def
    using g(4,5) pv c(1) o(2) p(1) by auto
  have rr: "r_c r = cell_clipped ar cfg c" "r_h r = r_output r"
    "nrows (r_output r) = b" "int (ncols (r_output r)) = proj_width cfg"
    "case num_proj cfg of None \<Rightarrow> r_output r = m0
         | Some q \<Rightarrow> matmul ar m0 (v_W_P vars) = Some (r_output r)
             \<and> (\<forall>row k. el (r_output r) row k
                    = a_dot ar (row_of m0 row) (column_of (v_W_P vars) k))"
    using p(2-4) by (simp_all add: r_def split: option.splits)
  from g(1-4) lm sl sh(2,4,6,8) c cf o(1) gf o(3,4) mf run rr
  show ?thesis by (intro exI conjI) assumption+
qed

lemma returned_c_clip:
  assumes "LSTMCell_call ar cfg vars scope ishape inputs state = (Inr r, tr)"
    and "cell_clip cfg = Some K"
  shows "\<exists>v. el (r_c r) row k
           = a_maximum ar (a_minimum ar v (a_const ar K)) (a_const ar (- K))"
  using assms
  by (cases state) (auto simp: LSTMCell_call_Inr LSTMCell_graph_Some cell_clipped_def)

lemma c_elem_Inr:
  "LSTMCell_call ar cfg vars scope ishape inputs state = (Inr r, tr) \<Longrightarrow>
   c_elem (LSTMCell_call ar cfg vars scope ishape inputs state) row k = Some (el (r_c r) row k)"
  by (simp add: c_elem_def returned_def)

lemma row_of_two:
  assumes "ncols a = 2"
  shows "row_of a i = [el a i 0, el a i 1]"
  using assms by (simp add: row_of_def eval_nat_numeral)

lemma column_of_two:
  assumes "nrows a = 2"
  shows "column_of a j = [el a 0 j, el a 1 j]"
  using assms by (simp add: column_of_def eval_nat_numeral)

lemma one_unit_step:
  assumes ws: "well_shaped cfg vars 1 1 inputs c_prev m_prev" and nb: "\<not> bn cfg"
    and np: "\<not> use_peepholes cfg" and u: "num_units cfg = 1" and pr: "num_proj cfg = None"
  shows "\<exists>r tr c. LSTMCell_call ar cfg vars scope (Some [bd, Some 1]) inputs (c_prev, m_prev)
         = (Inr r, tr)
     \<and> r_c r = cell_clipped ar cfg c
     \<and> el c 0 0 =
         a_add ar
           (a_mul ar
              (a_sigmoid ar
                 (a_add ar
                    (a_add ar (a_dot ar [el inputs 0 0, el m_prev 0 0]
                                 [el (v_W vars) 0 2, el (v_W vars) 1 2]) (vel (v_B vars) 2))
                    (a_const ar (forget_bias cfg))))
              (el c_prev 0 0))
           (a_mul ar
              (a_sigmoid ar
                 (a_add ar (a_dot ar [el inputs 0 0, el m_prev 0 0]
                              [el (v_W vars) 0 0, el (v_W vars) 1 0]) (vel (v_B vars) 0)))
              (activation cfg
                 (a_add ar (a_dot ar [el inputs 0 0, el m_prev 0 0]
                              [el (v_W vars) 0 1, el (v_W vars) 1 1]) (vel (v_B vars) 1))))"
proof -
  have u1: "num_units cfg = int 1" using u by simp
  from ws nb u pr have sh0: "ncols inputs = 1" "ncols m_prev = 1" "nrows (v_W vars) = 2"
    by (simp_all add: well_shaped_def shape2_def proj_width_def)
  from call_plain_stages [OF ws nb u1, where ar = ar and scope = scope and bd = bd]
  obtain cell_inputs xw lm i j f og c gate m0 r tr where big:
    "concat1 inputs m_prev = Some cell_inputs
     \<and> matmul ar cell_inputs (v_W vars) = Some xw
     \<and> bias_add ar xw (v_B vars) = Some lm
     \<and> split4 lm = Some (i, j, f, og)
     \<and> (\<forall>row q. el lm row q =
           a_add ar (a_dot ar (row_of cell_inputs row) (column_of (v_W vars) q)) (vel (v_B vars) q))
     \<and> (\<forall>row k. el i row k = el lm row k \<and> el j row k = el lm row (1 + k)
           \<and> el f row k = el lm row (2 * 1 + k) \<and> el og row k = el lm row (3 * 1 + k))
     \<and> ncols i = 1 \<and> ncols j = 1 \<and> ncols f = 1 \<and> ncols og = 1
     \<and> cell_update ar cfg vars i j f c_prev = Some c
     \<and> nrows c = 1 \<and> ncols c = 1
     \<and> (\<forall>row<1. \<forall>k<1. el c row k =
          a_add ar
            (a_mul ar
               (a_sigmoid ar
                  (if use_peepholes cfg
                   then a_add ar (a_add ar (el f row k) (a_const ar (forget_bias cfg)))
                          (a_mul ar (vel (v_W_F_diag vars) k) (el c_prev row k))
                   else a_add ar (el f row k) (a_const ar (forget_bias cfg))))
               (el c_prev row k))
            (a_mul ar
               (a_sigmoid ar
                  (if use_peepholes cfg
                   then a_add ar (el i row k) (a_mul ar (vel (v_W_I_diag vars) k) (el c_prev row k))
                   else el i row k))
               (activation cfg (el j row k))))
     \<and> output_gate ar cfg vars og (cell_clipped ar cfg c) = Some gate
     \<and> (\<forall>row<1. \<forall>k<1. el gate row k =
           (if use_peepholes cfg
            then a_add ar (el og row k) (a_mul ar (vel (v_W_O_diag vars) k) (el (cell_clipped ar cfg c) row k))
            else el og row k))
     \<and> nrows m0 = 1 \<and> ncols m0 = 1
     \<and> (\<forall>row<1. \<forall>k<1. el m0 row k
           = a_mul ar (a_sigmoid ar (el gate row k)) (activation cfg (el (cell_clipped ar cfg c) row k)))
     \<and> LSTMCell_call ar cfg vars scope (Some [bd, Some 1]) inputs (c_prev, m_prev)
         = (Inr r, tr)
     \<and> r_c r = cell_clipped ar cfg c \<and> r_h r = r_output r
     \<and> nrows (r_output r) = 1 \<and> int (ncols (r_output r)) = proj_width cfg
     \<and> (case num_proj cfg of None \<Rightarrow> r_output r = m0
         | Some q \<Rightarrow> matmul ar m0 (v_W_P vars) = Some (r_output r)
             \<and> (\<forall>row k. el (r_output r) row k
                    = a_dot ar (row_of m0 row) (column_of (v_W_P vars) k)))"
    by (elim exE) (rule that)
  from big have ci: "concat1 inputs m_prev = Some cell_inputs"
    by (elim conjE)
  from big have lm: "\<forall>row q. el lm row q =
           a_add ar (a_dot ar (row_of cell_inputs row) (column_of (v_W vars) q)) (vel (v_B vars) q)"
    by (elim conjE)
  from big have sl: "\<forall>row k. el i row k = el lm row k \<and> el j row k = el lm row (1 + k)
           \<and> el f row k = el lm row (2 * 1 + k) \<and> el og row k = el lm row (3 * 1 + k)"
    by (elim conjE)
  from big have cf: "\<forall>row<1. \<forall>k<1. el c row k =
          a_add ar
            (a_mul ar
               (a_sigmoid ar
                  (if use_peepholes cfg
                   then a_add ar (a_add ar (el f row k) (a_const ar (forget_bias cfg)))
                          (a_mul ar (vel (v_W_F_diag vars) k) (el c_prev row k))
                   else a_add ar (el f row k) (a_const ar (forget_bias cfg))))
               (el c_prev row k))
            (a_mul ar
               (a_sigmoid ar
                  (if use_peepholes cfg
                   then a_add ar (el i row k) (a_mul ar (vel (v_W_I_diag vars) k) (el c_prev row k))
                   else el i row k))
               (activation cfg (el j row k)))"
    by (elim conjE)
  from big have run1: "LSTMCell_call ar cfg vars scope (Some [bd, Some 1]) inputs (c_prev, m_prev)
         = (Inr r, tr)"
    by (elim conjE)
  from big have run2: "r_c r = cell_clipped ar cfg c"
    by (elim conjE)
  note run = run1 run2
  from ci sh0 have "ncols cell_inputs = 2" "el cell_inputs 0 0 = el inputs 0 0"
    "el cell_inputs 0 1 = el m_prev 0 0"
    by (auto simp: concat1_Some)
  then have row: "row_of cell_inputs 0 = [el inputs 0 0, el m_prev 0 0]"
    by (simp add: row_of_two)
  have col: "column_of (v_W vars) q = [el (v_W vars) 0 q, el (v_W vars) 1 q]" for q
    using sh0(3) by (rule column_of_two)
  have gates: "el i 0 0 = a_add ar (a_dot ar [el inputs 0 0, el m_prev 0 0]
                              [el (v_W vars) 0 0, el (v_W vars) 1 0]) (vel (v_B vars) 0)"
    "el j 0 0 = a_add ar (a_dot ar [el inputs 0 0, el m_prev 0 0]
                              [el (v_W vars) 0 1, el (v_W vars) 1 1]) (vel (v_B vars) 1)"
    "el f 0 0 = a_add ar (a_dot ar [el inputs 0 0, el m_prev 0 0]
                              [el (v_W vars) 0 2, el (v_W vars) 1 2]) (vel (v_B vars) 2)"
  proof -
    from sl have s0: "el i 0 0 = el lm 0 0" "el j 0 0 = el lm 0 1" "el f 0 0 = el lm 0 2"
      by (simp_all add: numeral_2_eq_2)
    have l: "el lm 0 q = a_add ar (a_dot ar [el inputs 0 0, el m_prev 0 0]
                              [el (v_W vars) 0 q, el (v_W vars) 1 q]) (vel (v_B vars) q)" for q
      using lm row col by simp
    show "el i 0 0 = a_add ar (a_dot ar [el inputs 0 0, el m_prev 0 0]
                              [el (v_W vars) 0 0, el (v_W vars) 1 0]) (vel (v_B vars) 0)"
      unfolding s0 by (rule l)
    show "el j 0 0 = a_add ar (a_dot ar [el inputs 0 0, el m_prev 0 0]
                              [el (v_W vars) 0 1, el (v_W vars) 1 1]) (vel (v_B vars) 1)"
      unfolding s0 by (rule l)
    show "el f 0 0 = a_add ar (a_dot ar [el inputs 0 0, el m_prev 0 0]
                              [el (v_W vars) 0 2, el (v_W vars) 1 2]) (vel (v_B vars) 2)"
      unfolding s0 by (rule l)
  qed
  from cf np have "el c 0 0 =
          a_add ar
            (a_mul ar (a_sigmoid ar (a_add ar (el f 0 0) (a_const ar (forget_bias cfg))))
               (el c_prev 0 0))
            (a_mul ar (a_sigmoid ar (el i 0 0)) (activation cfg (el j 0 0)))"
    by simp
  then have "el c 0 0 =
         a_add ar
           (a_mul ar
              (a_sigmoid ar
                 (a_add ar
                    (a_add ar (a_dot ar [el inputs 0 0, el m_prev 0 0]
                                 [el (v_W vars) 0 2, el (v_W vars) 1 2]) (vel (v_B vars) 2))
                    (a_const ar (forget_bias cfg))))
              (el c_prev 0 0))
           (a_mul ar
              (a_sigmoid ar
                 (a_add ar (a_dot ar [el inputs 0 0, el m_prev 0 0]
                              [el (v_W vars) 0 0, el (v_W vars) 1 0]) (vel (v_B vars) 0)))
              (activation cfg
                 (a_add ar (a_dot ar [el inputs 0 0, el m_prev 0 0]
                              [el (v_W vars) 0 1, el (v_W vars) 1 1]) (vel (v_B vars) 1))))"
    unfolding gates .
  with run show ?thesis by blast
qed

section \<open>Steps in exact arithmetic\<close>

lemma exact_simps [simp]:
  "a_const exact = (\<lambda>x. x)" "a_add exact = (+)" "a_mul exact = (*)"
  "a_minimum exact = min" "a_maximum exact = max" "a_sigmoid exact = sigmoid" "a_tanh exact = tanh"
  "a_dot exact xs ys = sum_list (map2 (*) xs ys)"
  by (simp_all add: exact_def)

lemma sigmoid_zero: "sigmoid 0 = 1 / 2"
  by (simp add: sigmoid_def)

lemma dot_zero_right:
  assumes "\<And>y. y \<in> set ys \<Longrightarrow> y = 0"
  shows "sum_list (map2 (*) xs ys) = (0::real)"
  using assms by (induction xs ys rule: list_induct2') auto

lemma dot_zero_left:
  assumes "\<And>x. x \<in> set xs \<Longrightarrow> x = 0"
  shows "sum_list (map2 (*) xs ys) = (0::real)"
  using assms by (induction xs ys rule: list_induct2') auto

lemma zero_weights_cell:
  assumes ws: "well_shaped cfg vars b n inputs c_prev m_prev"
    and nb: "\<not> bn cfg" and np: "\<not> use_peepholes cfg"
    and zw: "all_zero (v_W vars)" and zb: "all_zero1 (v_B vars)"
    and u: "num_units cfg = int u" and rk: "row < b" "k < u"
  shows "\<exists>r tr c. LSTMCell_call exact cfg vars scope (Some [bd, Some n]) inputs (c_prev, m_prev)
         = (Inr r, tr)
     \<and> r_c r = cell_clipped exact cfg c
     \<and> el c row k = sigmoid (forget_bias cfg) * el c_prev row k + 1 / 2 * activation cfg 0"
proof -
  obtain p where p: "proj_width cfg = int p" using ws by (rule well_shaped_nat)
  from ws nb u p have sh0: "ncols inputs = n" "ncols m_prev = p"
    "nrows (v_W vars) = n + p" "ncols (v_W vars) = 4 * u" "len (v_B vars) = 4 * u"
    by (simp_all add: well_shaped_def shape2_def shape1_def)
  from call_plain_stages [OF ws nb u, where ar = exact and scope = scope and bd = bd]
  obtain cell_inputs xw lm i j f og c gate m0 r tr where big:
    "concat1 inputs m_prev = Some cell_inputs
     \<and> matmul exact cell_inputs (v_W vars) = Some xw
     \<and> bias_add exact xw (v_B vars) = Some lm
     \<and> split4 lm = Some (i, j, f, og)
     \<and> (\<forall>row q. el lm row q =
           a_add exact (a_dot exact (row_of cell_inputs row) (column_of (v_W vars) q)) (vel (v_B vars) q))
     \<and> (\<forall>row k. el i row k = el lm row k \<and> el j row k = el lm row (u + k)
           \<and> el f row k = el lm row (2 * u + k) \<and> el og row k = el lm row (3 * u + k))
     \<and> ncols i = u \<and> ncols j = u \<and> ncols f = u \<and> ncols og = u
     \<and> cell_update exact cfg vars i j f c_prev = Some c
     \<and> nrows c = b \<and> ncols c = u
     \<and> (\<forall>row<b. \<forall>k<u. el c row k =
          a_add exact
            (a_mul exact
               (a_sigmoid exact
                  (if use_peepholes cfg
                   then a_add exact (a_add exact (el f row k) (a_const exact (forget_bias cfg)))
                          (a_mul exact (vel (v_W_F_diag vars) k) (el c_prev row k))
                   else a_add exact (el f row k) (a_const exact (forget_bias cfg))))
               (el c_prev row k))
            (a_mul exact
               (a_sigmoid exact
                  (if use_peepholes cfg
                   then a_add exact (el i row k) (a_mul exact (vel (v_W_I_diag vars) k) (el c_prev row k))
                   else el i row k))
               (activation cfg (el j row k))))
     \<and> output_gate exact cfg vars og (cell_clipped exact cfg c) = Some gate
     \<and> (\<forall>row<b. \<forall>k<u. el gate row k =
           (if use_peepholes cfg
            then a_add exact (el og row k) (a_mul exact (vel (v_W_O_diag vars) k) (el (cell_clipped exact cfg c) row k))
            else el og row k))
     \<and> nrows m0 = b \<and> ncols m0 = u
     \<and> (\<forall>row<b. \<forall>k<u. el m0 row k
           = a_mul exact (a_sigmoid exact (el gate row k)) (activation cfg (el (cell_clipped exact cfg c) row k)))
     \<and> LSTMCell_call exact cfg vars scope (Some [bd, Some n]) inputs (c_prev, m_prev)
         = (Inr r, tr)
     \<and> r_c r = cell_clipped exact cfg c \<and> r_h r = r_output r
     \<and> nrows (r_output r) = b \<and> int (ncols (r_output r)) = proj_width cfg
     \<and> (case num_proj cfg of None \<Rightarrow> r_output r = m0
         | Some q \<Rightarrow> matmul exact m0 (v_W_P vars) = Some (r_output r)
             \<and> (\<forall>row k. el (r_output r) row k
                    = a_dot exact (row_of m0 row) (column_of (v_W_P vars) k)))"
    by (elim exE) (rule that)
  from big have lm: "\<forall>row q. el lm row q =
           a_add exact (a_dot exact (row_of cell_inputs row) (column_of (v_W vars) q)) (vel (v_B vars) q)"
    by (elim conjE)
  from big have sl: "\<forall>row k. el i row k = el lm row k \<and> el j row k = el lm row (u + k)
           \<and> el f row k = el lm row (2 * u + k) \<and> el og row k = el lm row (3 * u + k)"
    by (elim conjE)
  from big have cf: "\<forall>row<b. \<forall>k<u. el c row k =
          a_add exact
            (a_mul exact
               (a_sigmoid exact
                  (if use_peepholes cfg
                   then a_add exact (a_add exact (el f row k) (a_const exact (forget_bias cfg)))
                          (a_mul exact (vel (v_W_F_diag vars) k) (el c_prev row k))
                   else a_add exact (el f row k) (a_const exact (forget_bias cfg))))
               (el c_prev row k))
            (a_mul exact
               (a_sigmoid exact
                  (if use_peepholes cfg
                   then a_add exact (el i row k) (a_mul exact (vel (v_W_I_diag vars) k) (el c_prev row k))
                   else el i row k))
               (activation cfg (el j row k)))"
    by (elim conjE)
  from big have run1: "LSTMCell_call exact cfg vars scope (Some [bd, Some n]) inputs (c_prev, m_prev)
         = (Inr r, tr)"
    by (elim conjE)
  from big have run2: "r_c r = cell_clipped exact cfg c"
    by (elim conjE)
  note run = run1 run2
  have lm0: "el lm row q = 0" if "q < 4 * u" for row q
  proof -
    have "sum_list (map2 (*) (row_of cell_inputs row) (column_of (v_W vars) q)) = 0"
      using zw that sh0 by (intro dot_zero_right) (auto simp: all_zero_def column_of_def)
    moreover have "vel (v_B vars) q = 0" using zb that sh0 by (simp add: all_zero1_def)
    ultimately show ?thesis using lm by simp
  qed
  have "el i row k = 0" "el j row k = 0" "el f row k = 0"
    using sl lm0 rk by simp_all
  with cf rk np have "el c row k = sigmoid (forget_bias cfg) * el c_prev row k + 1 / 2 * activation cfg 0"
    by (simp add: sigmoid_zero)
  with run show ?thesis by blast
qed

lemma returned_c_bounds_exact:
  assumes "LSTMCell_call exact cfg vars scope ishape inputs state = (Inr r, tr)"
    and "cell_clip cfg = Some K" and "0 \<le> K"
  shows "- K \<le> el (r_c r) row k \<and> el (r_c r) row k \<le> K"
proof -
  from returned_c_clip [OF assms(1,2), of row k] obtain v where
    "el (r_c r) row k = max (min v K) (- K)" by auto
  with assms(3) show ?thesis by auto
qed

section \<open>Steps in float32\<close>

lemma float32_simps [simp]:
  "a_const float32 = round32" "a_add float32 = fadd" "a_mul float32 = fmul"
  "a_minimum float32 = fmin" "a_maximum float32 = fmax" "a_sigmoid float32 = fsigmoid"
  "a_tanh float32 = ftanh" "a_dot float32 = f32_dot"
  by (simp_all add: float32_def)

lemma returned_c_bounds_float32:
  assumes "LSTMCell_call float32 cfg vars scope ishape inputs state = (Inr r, tr)"
    and "cell_clip cfg = Some K" and "0 \<le> K" and "el (r_c r) row k \<noteq> NaN"
  shows "f32_le (round32 (- K)) (el (r_c r) row k) \<and> f32_le (el (r_c r) row k) (round32 K)"
proof -
  from returned_c_clip [OF assms(1,2), of row k] obtain v where
    v: "el (r_c r) row k = fmax (fmin v (round32 K)) (round32 (- K))" by auto
  have "- K \<le> 0" using assms(3) by simp
  from clip_bounds [OF round32_nonneg [OF assms(3)] round32_nonpos [OF this], of v] assms(4)
  show ?thesis unfolding v by simp
qed

lemma rnd_half: "rnd (1 / 2) = 1 / 2"
  by (rule rnd_exact [where e = "- 1" and n = "2 ^ 23"]) (simp_all add: power_int_minus)

lemma dot_zero_float32: "f32_dot [Fin x, Fin y] [Fin 0, Fin 0] = Fin 0"
  by (simp add: f32_dot_def)

lemma dot_overflow_power: "f32_dot [Fin (2 ^ 127), Fin (2 ^ 127)] [Fin 2, Fin (- 2)] = NaN"
  unfolding f32_dot_def zip.simps list.map list.case prod.case foldl.simps fmul.simps
    round32_overflow by simp

lemma dot_overflow:
  "f32_dot [Fin 170141183460469231731687303715884105728,
            Fin 170141183460469231731687303715884105728] [Fin 2, Fin (- 2)] = NaN"
  using dot_overflow_power by simp

section \<open>The example inputs are well shaped\<close>

lemma default_config_simps [simp]:
  "num_units (default_config ar u) = u" "use_peepholes (default_config ar u) = False"
  "cell_clip (default_config ar u) = None" "num_proj (default_config ar u) = None"
  "num_unit_shards (default_config ar u) = 1" "num_proj_shards (default_config ar u) = 1"
  "forget_bias (default_config ar u) = 1" "bn (default_config ar u) = False"
  "return_gate (default_config ar u) = False" "deterministic (default_config ar u) = None"
  "activation (default_config ar u) = a_tanh ar"
  by (simp_all add: default_config_def)

lemma plain_well_shaped:
  assumes "num_units cfg = int u" "proj_width cfg = int p"
    "num_unit_shards cfg = 1" "num_proj_shards cfg = 1" "\<not> bn cfg" "0 < n" "0 < u"
  shows "well_shaped cfg (const_store ar n u p w z) b n (const2 b n x) (const2 b u c) (const2 b p h)"
  using assms
  by (auto simp: well_shaped_def const_store_def const2_def const1_def shape2_def shape1_def
      proj_width_def split: option.splits)

lemma zero_store_well_shaped:
  assumes "num_units cfg = int u" "proj_width cfg = int p"
    "num_unit_shards cfg = 1" "num_proj_shards cfg = 1" "\<not> bn cfg" "0 < n" "0 < u"
  shows "well_shaped cfg (zero_store n u p) b n (const2 b n x) (const2 b u c) (const2 b p h)"
  unfolding zero_store_def using assms by (rule plain_well_shaped)

lemma zero_store_zero: "all_zero (v_W (zero_store n u p))" "all_zero1 (v_B (zero_store n u p))"
  by (simp_all add: all_zero_def all_zero1_def zero_store_def const_store_def const2_def const1_def)

lemma bn_example_well_shaped:
  "well_shaped bn_example_config bn_example_store 2 1 (const2 2 1 0) (const2 2 1 0) (const2 2 1 0)"
  by (simp add: well_shaped_def bn_example_config_def bn_example_store_def zero_store_def
      const_store_def const2_def const1_def shape2_def shape1_def bn_shaped_def bn_initial_def
      proj_width_def)

lemma opposite_weights_well_shaped:
  assumes "num_units cfg = 1" "num_proj cfg = None" "num_unit_shards cfg = 1" "\<not> bn cfg"
    "\<not> use_peepholes cfg"
  shows "well_shaped cfg opposite_weights 1 1 (const2 1 1 x) (const2 1 1 c) (const2 1 1 h)"
  using assms
  by (simp add: well_shaped_def opposite_weights_def const_store_def const2_def const1_def
      shape2_def shape1_def proj_width_def)

section \<open>LSTMCell: the properties of a step\<close>

text \<open>
  C3. Without batch normalisation, for inputs, state and variables of the declared
  shapes, the step returns, and the cell state it computes at lines 235-240 is,
  element by element,
  \<open>sigmoid(f + forget_bias [+ w_f_diag * c_prev]) * c_prev
     + sigmoid(i [+ w_i_diag * c_prev]) * activation(j)\<close>,
  the bracketed terms being present with peepholes only, where \<open>i\<close>, \<open>j\<close>, \<open>f\<close>, \<open>o\<close>
  are the four slices of width \<open>num_units\<close>, in this order, of
  \<open>bias_add(matmul(concat(inputs, m_prev), W), B)\<close>, and the sums and products are
  those of the dtype, in the order of the source. The returned \<open>c\<close> is this value
  after the optional clipping of lines 242-245, so it is this value when \<open>cell_clip\<close>
  is unset.
\<close>

theorem cell_state_update:
  assumes "well_shaped cfg vars b n inputs c_prev m_prev" and "\<not> bn cfg"
  shows "\<exists>cell_inputs xw lm i j f og c r tr.
       concat1 inputs m_prev = Some cell_inputs
     \<and> matmul ar cell_inputs (v_W vars) = Some xw
     \<and> bias_add ar xw (v_B vars) = Some lm
     \<and> split4 lm = Some (i, j, f, og)
     \<and> int (ncols i) = num_units cfg \<and> ncols j = ncols i \<and> ncols f = ncols i \<and> ncols og = ncols i
     \<and> (\<forall>row k. el i row k = el lm row k \<and> el j row k = el lm row (ncols i + k)
           \<and> el f row k = el lm row (2 * ncols i + k) \<and> el og row k = el lm row (3 * ncols i + k))
     \<and> nrows c = b \<and> int (ncols c) = num_units cfg
     \<and> (\<forall>row<nrows c. \<forall>k<ncols c. el c row k =
          a_add ar
            (a_mul ar
               (a_sigmoid ar
                  (if use_peepholes cfg
                   then a_add ar (a_add ar (el f row k) (a_const ar (forget_bias cfg)))
                          (a_mul ar (vel (v_W_F_diag vars) k) (el c_prev row k))
                   else a_add ar (el f row k) (a_const ar (forget_bias cfg))))
               (el c_prev row k))
            (a_mul ar
               (a_sigmoid ar
                  (if use_peepholes cfg
                   then a_add ar (el i row k) (a_mul ar (vel (v_W_I_diag vars) k) (el c_prev row k))
                   else el i row k))
               (activation cfg (el j row k))))
     \<and> LSTMCell_call ar cfg vars scope (Some [bd, Some n]) inputs (c_prev, m_prev)
         = (Inr r, tr)
     \<and> r_c r = cell_clipped ar cfg c
     \<and> (cell_clip cfg = None \<longrightarrow> r_c r = c)"
proof -
  obtain u p where u: "num_units cfg = int u" and p: "proj_width cfg = int p"
    using assms(1) by (rule well_shaped_nat)
  from call_plain_stages [OF assms u, where ar = ar and scope = scope and bd = bd]
  obtain cell_inputs xw lm i j f og c gate m0 r tr where big:
    "concat1 inputs m_prev = Some cell_inputs
     \<and> matmul ar cell_inputs (v_W vars) = Some xw
     \<and> bias_add ar xw (v_B vars) = Some lm
     \<and> split4 lm = Some (i, j, f, og)
     \<and> (\<forall>row q. el lm row q =
           a_add ar (a_dot ar (row_of cell_inputs row) (column_of (v_W vars) q)) (vel (v_B vars) q))
     \<and> (\<forall>row k. el i row k = el lm row k \<and> el j row k = el lm row (u + k)
           \<and> el f row k = el lm row (2 * u + k) \<and> el og row k = el lm row (3 * u + k))
     \<and> ncols i = u \<and> ncols j = u \<and> ncols f = u \<and> ncols og = u
     \<and> cell_update ar cfg vars i j f c_prev = Some c
     \<and> nrows c = b \<and> ncols c = u
     \<and> (\<forall>row<b. \<forall>k<u. el c row k =
          a_add ar
            (a_mul ar
               (a_sigmoid ar
                  (if use_peepholes cfg
                   then a_add ar (a_add ar (el f row k) (a_const ar (forget_bias cfg)))
                          (a_mul ar (vel (v_W_F_diag vars) k) (el c_prev row k))
                   else a_add ar (el f row k) (a_const ar (forget_bias cfg))))
               (el c_prev row k))
            (a_mul ar
               (a_sigmoid ar
                  (if use_peepholes cfg
                   then a_add ar (el i row k) (a_mul ar (vel (v_W_I_diag vars) k) (el c_prev row k))
                   else el i row k))
               (activation cfg (el j row k))))
     \<and> output_gate ar cfg vars og (cell_clipped ar cfg c) = Some gate
     \<and> (\<forall>row<b. \<forall>k<u. el gate row k =
           (if use_peepholes cfg
            then a_add ar (el og row k) (a_mul ar (vel (v_W_O_diag vars) k) (el (cell_clipped ar cfg c) row k))
            else el og row k))
     \<and> nrows m0 = b \<and> ncols m0 = u
     \<and> (\<forall>row<b. \<forall>k<u. el m0 row k
           = a_mul ar (a_sigmoid ar (el gate row k)) (activation cfg (el (cell_clipped ar cfg c) row k)))
     \<and> LSTMCell_call ar cfg vars scope (Some [bd, Some n]) inputs (c_prev, m_prev)
         = (Inr r, tr)
     \<and> r_c r = cell_clipped ar cfg c \<and> r_h r = r_output r
     \<and> nrows (r_output r) = b \<and> int (ncols (r_output r)) = proj_width cfg
     \<and> (case num_proj cfg of None \<Rightarrow> r_output r = m0
         | Some q \<Rightarrow> matmul ar m0 (v_W_P vars) = Some (r_output r)
             \<and> (\<forall>row k. el (r_output r) row k
                    = a_dot ar (row_of m0 row) (column_of (v_W_P vars) k)))"
    by (elim exE) (rule that)
  from big have g1: "concat1 inputs m_prev = Some cell_inputs" by (elim conjE)
  from big have g2: "matmul ar cell_inputs (v_W vars) = Some xw" by (elim conjE)
  from big have g3: "bias_add ar xw (v_B vars) = Some lm" by (elim conjE)
  from big have g4: "split4 lm = Some (i, j, f, og)" by (elim conjE)
  from big have sl: "\<forall>row k. el i row k = el lm row k \<and> el j row k = el lm row (u + k)
           \<and> el f row k = el lm row (2 * u + k) \<and> el og row k = el lm row (3 * u + k)" by (elim conjE)
  from big have sh1: "ncols i = u" by (elim conjE)
  from big have sh2: "ncols j = u" by (elim conjE)
  from big have sh3: "ncols f = u" by (elim conjE)
  from big have sh4: "ncols og = u" by (elim conjE)
  from big have sh5: "nrows c = b" by (elim conjE)
  from big have sh6: "ncols c = u" by (elim conjE)
  from big have cf: "\<forall>row<b. \<forall>k<u. el c row k =
          a_add ar
            (a_mul ar
               (a_sigmoid ar
                  (if use_peepholes cfg
                   then a_add ar (a_add ar (el f row k) (a_const ar (forget_bias cfg)))
                          (a_mul ar (vel (v_W_F_diag vars) k) (el c_prev row k))
                   else a_add ar (el f row k) (a_const ar (forget_bias cfg))))
               (el c_prev row k))
            (a_mul ar
               (a_sigmoid ar
                  (if use_peepholes cfg
                   then a_add ar (el i row k) (a_mul ar (vel (v_W_I_diag vars) k) (el c_prev row k))
                   else el i row k))
               (activation cfg (el j row k)))" by (elim conjE)
  from big have run1: "LSTMCell_call ar cfg vars scope (Some [bd, Some n]) inputs (c_prev, m_prev)
         = (Inr r, tr)" by (elim conjE)
  from big have run2: "r_c r = cell_clipped ar cfg c" by (elim conjE)
  have 1: "int (ncols i) = num_units cfg" "ncols j = ncols i" "ncols f = ncols i"
    "ncols og = ncols i" "int (ncols c) = num_units cfg"
    using sh1 sh2 sh3 sh4 sh6 u by simp_all
  have 2: "\<forall>row k. el i row k = el lm row k \<and> el j row k = el lm row (ncols i + k)
           \<and> el f row k = el lm row (2 * ncols i + k) \<and> el og row k = el lm row (3 * ncols i + k)"
    using sl sh1 by simp
  have 3: "\<forall>row<nrows c. \<forall>k<ncols c. el c row k =
          a_add ar
            (a_mul ar
               (a_sigmoid ar
                  (if use_peepholes cfg
                   then a_add ar (a_add ar (el f row k) (a_const ar (forget_bias cfg)))
                          (a_mul ar (vel (v_W_F_diag vars) k) (el c_prev row k))
                   else a_add ar (el f row k) (a_const ar (forget_bias cfg))))
               (el c_prev row k))
            (a_mul ar
               (a_sigmoid ar
                  (if use_peepholes cfg
                   then a_add ar (el i row k) (a_mul ar (vel (v_W_I_diag vars) k) (el c_prev row k))
                   else el i row k))
               (activation cfg (el j row k)))"
    using cf sh5 sh6 by simp
  have 4: "cell_clip cfg = None \<longrightarrow> r_c r = c"
    using run2 by (simp add: cell_clipped_def)
  from g1 g2 g3 g4 1(1-4) 2 sh5 1(5) 3 run1 run2 4 show ?thesis
    by (intro exI conjI) assumption+
qed

theorem cell_state_update_witness:
  "well_shaped (default_config exact 1) (zero_store 1 1 1) 1 1
     (const2 1 1 5) (const2 1 1 2) (const2 1 1 3)
   \<and> \<not> bn (default_config exact 1)
   \<and> c_elem (LSTMCell_call exact (default_config exact 1) (zero_store 1 1 1) None
        (Some [None, Some 1]) (const2 1 1 5) (const2 1 1 2, const2 1 1 3)) 0 0
       = Some (sigmoid 1 * 2)"
proof -
  let ?cfg = "default_config exact 1" and ?V = "zero_store 1 1 1"
  have ws: "well_shaped ?cfg ?V 1 1 (const2 1 1 5) (const2 1 1 2) (const2 1 1 3)"
    by (rule zero_store_well_shaped [where u = 1 and p = 1]) (simp_all add: proj_width_def)
  have nb: "\<not> bn ?cfg" by simp
  from cell_state_update [OF ws nb, where ar = exact and scope = None and bd = None]
  obtain cell_inputs xw lm i j f og c r tr where big:
     "concat1 (const2 1 1 5) (const2 1 1 3) = Some cell_inputs
     \<and> matmul exact cell_inputs (v_W ?V) = Some xw
     \<and> bias_add exact xw (v_B ?V) = Some lm
     \<and> split4 lm = Some (i, j, f, og)
     \<and> int (ncols i) = num_units ?cfg \<and> ncols j = ncols i \<and> ncols f = ncols i \<and> ncols og = ncols i
     \<and> (\<forall>row k. el i row k = el lm row k \<and> el j row k = el lm row (ncols i + k)
           \<and> el f row k = el lm row (2 * ncols i + k) \<and> el og row k = el lm row (3 * ncols i + k))
     \<and> nrows c = 1 \<and> int (ncols c) = num_units ?cfg
     \<and> (\<forall>row<nrows c. \<forall>k<ncols c. el c row k =
          a_add exact
            (a_mul exact
               (a_sigmoid exact
                  (if use_peepholes ?cfg
                   then a_add exact (a_add exact (el f row k) (a_const exact (forget_bias ?cfg)))
                          (a_mul exact (vel (v_W_F_diag ?V) k) (el (const2 1 1 2) row k))
                   else a_add exact (el f row k) (a_const exact (forget_bias ?cfg))))
               (el (const2 1 1 2) row k))
            (a_mul exact
               (a_sigmoid exact
                  (if use_peepholes ?cfg
                   then a_add exact (el i row k) (a_mul exact (vel (v_W_I_diag ?V) k) (el (const2 1 1 2) row k))
                   else el i row k))
               (activation ?cfg (el j row k))))
     \<and> LSTMCell_call exact ?cfg ?V None (Some [None, Some 1]) (const2 1 1 5) ((const2 1 1 2), (const2 1 1 3))
         = (Inr r, tr)
     \<and> r_c r = cell_clipped exact ?cfg c
     \<and> (cell_clip ?cfg = None \<longrightarrow> r_c r = c)"
    by (elim exE) (rule that)
  from big have g2: "matmul exact cell_inputs (v_W ?V) = Some xw" by (elim conjE)
  from big have g3: "bias_add exact xw (v_B ?V) = Some lm" by (elim conjE)
  from big have sl: "\<forall>row k. el i row k = el lm row k \<and> el j row k = el lm row (ncols i + k)
           \<and> el f row k = el lm row (2 * ncols i + k) \<and> el og row k = el lm row (3 * ncols i + k)" by (elim conjE)
  from big have sh1: "nrows c = 1" by (elim conjE)
  from big have sh2: "int (ncols c) = num_units ?cfg" by (elim conjE)
  from big have cf: "\<forall>row<nrows c. \<forall>k<ncols c. el c row k =
          a_add exact
            (a_mul exact
               (a_sigmoid exact
                  (if use_peepholes ?cfg
                   then a_add exact (a_add exact (el f row k) (a_const exact (forget_bias ?cfg)))
                          (a_mul exact (vel (v_W_F_diag ?V) k) (el (const2 1 1 2) row k))
                   else a_add exact (el f row k) (a_const exact (forget_bias ?cfg))))
               (el (const2 1 1 2) row k))
            (a_mul exact
               (a_sigmoid exact
                  (if use_peepholes ?cfg
                   then a_add exact (el i row k) (a_mul exact (vel (v_W_I_diag ?V) k) (el (const2 1 1 2) row k))
                   else el i row k))
               (activation ?cfg (el j row k)))"
    by (elim conjE)
  from big have run1: "LSTMCell_call exact ?cfg ?V None (Some [None, Some 1]) (const2 1 1 5) ((const2 1 1 2), (const2 1 1 3))
         = (Inr r, tr)"
    by (elim conjE)
  from big have run2: "cell_clip ?cfg = None \<longrightarrow> r_c r = c" by (elim conjE)
  have l1: "el lm row q = sum_list (map2 (*) (row_of cell_inputs row) (column_of (v_W ?V) q))
              + vel (v_B ?V) q" for row q
    using g2 g3 by (auto simp: matmul_Some bias_add_Some)
  have w0: "sum_list (map2 (*) xs (column_of (v_W ?V) q)) = 0" for xs q
    by (rule dot_zero_right)
      (auto simp: column_of_def zero_store_def const_store_def const2_def)
  have b0: "vel (v_B ?V) q = 0" for q
    by (simp add: zero_store_def const_store_def const1_def)
  have lm0: "el lm row q = 0" for row q
    unfolding l1 w0 b0 by simp
  have "ncols c = 1" using sh2 by simp
  with cf sh1 have "el c 0 0 = sigmoid 1 * 2"
    using sl lm0 by (simp add: const2_def)
  moreover have "r_c r = c" using run2 by simp
  ultimately show ?thesis using ws nb run1 by (simp add: c_elem_def returned_def)
qed

text \<open>
  C4. The claim has every element of the returned cell state within \<open>[-K, K]\<close> for
  every \<open>cell_clip = K\<close>. The clipping is \<open>maximum(minimum(c, K), -K)\<close> in the arithmetic
  of the dtype, with the Python floats \<open>K\<close> and \<open>-K\<close> converted to the dtype. In
  float32: when \<open>K\<close> is not negative, every element of the returned cell state that is
  not NaN lies between \<open>-K\<close> and \<open>K\<close> as converted to float32, whatever the unclipped
  value is. The two restrictions are needed. For a negative \<open>K\<close> the interval is empty
  and the clipping returns \<open>-K\<close>. A NaN passes through \<open>minimum\<close> and \<open>maximum\<close>, and
  finite inputs produce one: with the input and the previous output \<open>2^127\<close> and the
  weights 2 and -2, the products overflow to the two infinities and their sum is NaN.
\<close>

theorem clipped_cell_state:
  assumes "LSTMCell_call float32 cfg vars scope ishape inputs state = (Inr r, tr)"
    and "cell_clip cfg = Some K" and "0 \<le> K" and "el (r_c r) row k \<noteq> NaN"
  shows "f32_le (round32 (- K)) (el (r_c r) row k) \<and> f32_le (el (r_c r) row k) (round32 K)"
  using assms by (rule returned_c_bounds_float32)

theorem clipped_cell_state_witness:
  "\<exists>r tr. LSTMCell_call float32 ((default_config float32 1)\<lparr>cell_clip := Some 3, forget_bias := 0\<rparr>)
             (const_store float32 1 1 1 (Fin 0) (Fin 0)) None (Some [None, Some 1])
             (const2 1 1 (Fin 0)) (const2 1 1 (Fin 100), const2 1 1 (Fin 0)) = (Inr r, tr)
         \<and> cell_clip ((default_config float32 1)\<lparr>cell_clip := Some 3, forget_bias := 0\<rparr>) = Some 3
         \<and> el (r_c r) 0 0 = Fin 3
         \<and> f32_le (round32 (- 3)) (el (r_c r) 0 0) \<and> f32_le (el (r_c r) 0 0) (round32 3)"
proof -
  let ?cfg = "(default_config float32 1)\<lparr>cell_clip := Some 3, forget_bias := 0\<rparr>"
  let ?V = "const_store float32 1 1 1 (Fin 0) (Fin 0)"
  have ws: "well_shaped ?cfg ?V 1 1 (const2 1 1 (Fin 0)) (const2 1 1 (Fin 100)) (const2 1 1 (Fin 0))"
    by (rule plain_well_shaped [where u = 1 and p = 1]) (simp_all add: proj_width_def)
  from one_unit_step [OF ws, where ar = float32 and scope = None and bd = None]
  obtain r tr c where run: "LSTMCell_call float32 ?cfg ?V None (Some [None, Some 1])
             (const2 1 1 (Fin 0)) (const2 1 1 (Fin 100), const2 1 1 (Fin 0)) = (Inr r, tr)"
    and rc: "r_c r = cell_clipped float32 ?cfg c"
    and "el c 0 0 = Fin 50"
    by (auto simp: const_store_def const2_def const1_def dot_zero_float32 sigmoid_zero rnd_half)
  then have e: "el (r_c r) 0 0 = Fin 3"
    by (simp add: cell_clipped_def fmin_def fmax_def)
  then have "el (r_c r) 0 0 \<noteq> NaN" by simp
  from clipped_cell_state [OF run _ _ this, of 3] run e show ?thesis by auto
qed

theorem clip_counterexample:
  "c_elem (LSTMCell_call float32 ((default_config float32 1)\<lparr>cell_clip := Some (- 1)\<rparr>)
             (const_store float32 1 1 1 (Fin 0) (Fin 0)) None (Some [None, Some 1])
             (const2 1 1 (Fin 0)) (const2 1 1 (Fin 0), const2 1 1 (Fin 0))) 0 0 = Some (Fin 1)
   \<and> round32 (- 1) = Fin (- 1) \<and> \<not> f32_le (Fin 1) (Fin (- 1))
   \<and> c_elem (LSTMCell_call float32 ((default_config float32 1)\<lparr>cell_clip := Some 3\<rparr>)
             opposite_weights None (Some [None, Some 1])
             (const2 1 1 (Fin (2 ^ 127))) (const2 1 1 (Fin 0), const2 1 1 (Fin (2 ^ 127)))) 0 0
       = Some NaN
   \<and> \<not> f32_le NaN (round32 3) \<and> \<not> f32_le (round32 (- 3)) NaN"
proof -
  let ?cfg = "(default_config float32 1)\<lparr>cell_clip := Some (- 1)\<rparr>"
  let ?V = "const_store float32 1 1 1 (Fin 0) (Fin 0)"
  have ws: "well_shaped ?cfg ?V 1 1 (const2 1 1 (Fin 0)) (const2 1 1 (Fin 0)) (const2 1 1 (Fin 0))"
    by (rule plain_well_shaped [where u = 1 and p = 1]) (simp_all add: proj_width_def)
  from one_unit_step [OF ws, where ar = float32 and scope = None and bd = None]
  obtain r tr c where run: "LSTMCell_call float32 ?cfg ?V None (Some [None, Some 1])
             (const2 1 1 (Fin 0)) (const2 1 1 (Fin 0), const2 1 1 (Fin 0)) = (Inr r, tr)"
    and rc: "r_c r = cell_clipped float32 ?cfg c"
    and "el c 0 0 = Fin 0"
    by (auto simp: const_store_def const2_def const1_def dot_zero_float32)
  then have "el (r_c r) 0 0 = Fin 1"
    by (simp add: cell_clipped_def fmin_def fmax_def)
  with c_elem_Inr [OF run, of 0 0] have 1:
    "c_elem (LSTMCell_call float32 ?cfg ?V None (Some [None, Some 1])
             (const2 1 1 (Fin 0)) (const2 1 1 (Fin 0), const2 1 1 (Fin 0))) 0 0 = Some (Fin 1)"
    by simp
  let ?cfg' = "(default_config float32 1)\<lparr>cell_clip := Some 3\<rparr>"
  have ws': "well_shaped ?cfg' opposite_weights 1 1 (const2 1 1 (Fin (2 ^ 127)))
      (const2 1 1 (Fin 0)) (const2 1 1 (Fin (2 ^ 127)))"
    by (rule opposite_weights_well_shaped) simp_all
  from one_unit_step [OF ws', where ar = float32 and scope = None and bd = None]
  obtain r' tr' c' where run': "LSTMCell_call float32 ?cfg' opposite_weights None (Some [None, Some 1])
             (const2 1 1 (Fin (2 ^ 127))) (const2 1 1 (Fin 0), const2 1 1 (Fin (2 ^ 127)))
          = (Inr r', tr')"
    and rc': "r_c r' = cell_clipped float32 ?cfg' c'"
    and "el c' 0 0 = NaN"
    by (auto simp: opposite_weights_def const_store_def const2_def const1_def dot_overflow)
  then have "el (r_c r') 0 0 = NaN"
    by (simp add: cell_clipped_def fmin_def fmax_def)
  with c_elem_Inr [OF run', of 0 0] have 2:
    "c_elem (LSTMCell_call float32 ?cfg' opposite_weights None (Some [None, Some 1])
             (const2 1 1 (Fin (2 ^ 127))) (const2 1 1 (Fin 0), const2 1 1 (Fin (2 ^ 127)))) 0 0
       = Some NaN"
    by simp
  show ?thesis using 1 2 by (simp add: f32_le_def)
qed

text \<open>
  C5. The step raises a ValueError from its own input check (lines 184-186) exactly when
  the static shape of the input has a known rank other than 2 (\<open>with_rank(2)\<close> rejects
  it) or its second dimension is unknown; a shape of unknown rank is of this kind. It
  does so before anything else: no variable has been requested, and the outcome depends
  on nothing but the static shape. Every other failure of the step is a failure of a
  framework operation: a negative \<open>num_units\<close>, for one, is rejected when the weight
  variable is requested.
\<close>

theorem call_value_error:
  "((\<exists>msg. fst (LSTMCell_call ar cfg vars scope ishape inputs state) = Inl (ValueError msg))
      = (case ishape of None \<Rightarrow> True | Some ds \<Rightarrow> length ds \<noteq> 2 \<or> ds ! 1 = None))
   \<and> ((case ishape of None \<Rightarrow> True | Some ds \<Rightarrow> length ds \<noteq> 2 \<or> ds ! 1 = None)
        \<longrightarrow> snd (LSTMCell_call ar cfg vars scope ishape inputs state) = []
          \<and> LSTMCell_call ar cfg vars scope ishape inputs state
              = LSTMCell_call ar' cfg' vars' scope' ishape inputs' state')"
  by (cases state; cases state')
    (auto simp: LSTMCell_call_def with_rank_def nth_Cons' split: option.splits prod.splits)

theorem call_value_error_witness:
  "fst (LSTMCell_call exact (default_config exact 1) (zero_store 1 1 1) None (Some [Some 2, None])
          (const2 2 1 0) (const2 2 1 0, const2 2 1 0))
     = Inl (ValueError ''Could not infer input size from inputs.get_shape()[-1]'')
   \<and> snd (LSTMCell_call exact (default_config exact 1) (zero_store 1 1 1) None (Some [Some 2, None])
          (const2 2 1 0) (const2 2 1 0, const2 2 1 0)) = []
   \<and> (\<exists>r. fst (LSTMCell_call exact (default_config exact 1) (zero_store 1 1 1) None
                  (Some [None, Some 1]) (const2 2 1 0) (const2 2 1 0, const2 2 1 0)) = Inr r)
   \<and> fst (LSTMCell_call exact (default_config exact (- 1)) (zero_store 1 1 1) None
            (Some [None, Some 1]) (const2 2 1 0) (const2 2 1 0, const2 2 1 0)) = Inl FrameworkError"
proof -
  have f: "fst (LSTMCell_call exact (default_config exact (- 1)) (zero_store 1 1 1) None
            (Some [None, Some 1]) (const2 2 1 0) (const2 2 1 0, const2 2 1 0)) = Inl FrameworkError"
    by (simp add: LSTMCell_call_def with_rank_def LSTMCell_graph_def lstm_matrix_def
        get_concat_variable_def bind_build_def lift_def proj_width_def)
  have "well_shaped (default_config exact 1) (zero_store 1 1 1) 2 1
          (const2 2 1 0) (const2 2 1 0) (const2 2 1 0)"
    by (rule zero_store_well_shaped [where u = 1 and p = 1]) (simp_all add: proj_width_def)
  from call_returns [OF this, where ar = exact and scope = None and bd = None] obtain r tr where
    run: "LSTMCell_call exact (default_config exact 1) (zero_store 1 1 1) None (Some [None, Some 1])
            (const2 2 1 0) (const2 2 1 0, const2 2 1 0) = (Inr r, tr)" by blast
  have e: "fst (LSTMCell_call exact (default_config exact 1) (zero_store 1 1 1) None
          (Some [Some 2, None]) (const2 2 1 0) (const2 2 1 0, const2 2 1 0))
     = Inl (ValueError ''Could not infer input size from inputs.get_shape()[-1]'')"
    by (simp add: LSTMCell_call_def with_rank_def)
  from call_value_error [of exact "default_config exact 1" "zero_store 1 1 1" None
      "Some [Some 2, None]" "const2 2 1 0" "(const2 2 1 0, const2 2 1 0)"]
  have "snd (LSTMCell_call exact (default_config exact 1) (zero_store 1 1 1) None
          (Some [Some 2, None]) (const2 2 1 0) (const2 2 1 0, const2 2 1 0)) = []"
    by simp
  with e run f show ?thesis by simp
qed

theorem rank_three_counterexample:
  "fst (LSTMCell_call exact (default_config exact 1) (zero_store 1 1 1) None
          (Some [Some 2, Some 3, Some 4]) (const2 2 1 0) (const2 2 1 0, const2 2 1 0))
     = Inl (ValueError ''Shape must have rank 2'')
   \<and> last [Some 2, Some 3, Some (4::nat)] = Some 4"
  by (simp add: LSTMCell_call_def with_rank_def)

text \<open>
  C7. The claim has, with \<open>num_proj\<close> unset, the output and both state components of
  width \<open>num_units\<close>. The code checks no width of the previous state: with one unit
  and a previous cell state of width 3, the elementwise operations broadcast the gates
  to that width, and the output and both state components have width 3 while the
  declared sizes are 1. What holds whenever the step returns: the output is the \<open>h\<close>
  component; with \<open>num_proj\<close> set to \<open>p\<close>, the output is the product of \<open>m\<close>, the
  result of lines 247-258, of width \<open>num_units\<close>, with the \<open>[num_units, p]\<close> matrix
  \<open>W_P\<close>, so it has width \<open>p\<close>, and the \<open>c\<close> component has width \<open>num_units\<close>; these
  are the declared \<open>state_size\<close> and \<open>output_size\<close> unless \<open>p\<close> is 0. With \<open>num_proj\<close>
  unset, the output is \<open>m\<close>, and the output and both state components have one width,
  which is \<open>num_units\<close>, the declared size, unless \<open>num_units\<close> is 1, when it is the
  width of the previous cell state; so it is \<open>num_units\<close> whenever the previous cell
  state has that width.
\<close>

theorem call_widths:
  assumes "LSTMCell_call ar cfg vars scope ishape inputs (c_prev, m_prev) = (Inr r, tr)"
  shows "\<exists>n lm i j f og m0 tr0 tr1 tr2.
       lstm_matrix ar cfg vars (scope_name_of scope) n inputs m_prev [] = (Some lm, tr0)
     \<and> split4 lm = Some (i, j, f, og)
     \<and> cell_output ar cfg vars (scope_name_of scope) og (r_c r) tr1 = (Some m0, tr2)
     \<and> r_h r = r_output r
     \<and> (case num_proj cfg of
           Some p \<Rightarrow>
               shape2 (v_W_P vars) = [num_units cfg, p]
             \<and> int (ncols m0) = num_units cfg
             \<and> matmul ar m0 (v_W_P vars) = Some (r_output r)
             \<and> (\<forall>row k. el (r_output r) row k
                   = a_dot ar (row_of m0 row) (column_of (v_W_P vars) k))
             \<and> int (ncols (r_output r)) = p \<and> int (ncols (r_c r)) = num_units cfg
             \<and> int (ncols (r_h r)) = p
             \<and> (p \<noteq> 0 \<longrightarrow> state_size cfg = (num_units cfg, p) \<and> output_size cfg = p)
         | None \<Rightarrow>
               r_output r = m0
             \<and> ncols (r_output r) = ncols (r_c r) \<and> ncols (r_h r) = ncols (r_c r)
             \<and> int (ncols (r_c r))
                 = (if num_units cfg = 1 then int (ncols c_prev) else num_units cfg)
             \<and> state_size cfg = (num_units cfg, num_units cfg)
             \<and> output_size cfg = num_units cfg
             \<and> (int (ncols c_prev) = num_units cfg \<longrightarrow>
                   int (ncols (r_output r)) = num_units cfg
                 \<and> int (ncols (r_c r)) = num_units cfg
                 \<and> int (ncols (r_h r)) = num_units cfg))"
proof -
  from assms obtain n lm i j f og c0 m0 m tr1 tr2 tr3 where
    lm: "lstm_matrix ar cfg vars (scope_name_of scope) n inputs m_prev [] = (Some lm, tr1)"
    and sp: "split4 lm = Some (i, j, f, og)"
    and pv: "peephole_variables cfg vars tr1 = (Some (), tr2)"
    and cu: "cell_update ar cfg vars i j f c_prev = Some c0"
    and co: "cell_output ar cfg vars (scope_name_of scope) og (cell_clipped ar cfg c0) tr2
               = (Some m0, tr3)"
    and pr: "projection ar cfg vars m0 tr3 = (Some m, tr)"
    and r: "r_output r = m" "r_c r = cell_clipped ar cfg c0" "r_h r = m"
    by (auto simp: LSTMCell_call_Inr LSTMCell_graph_Some)
  have "0 \<le> num_units cfg" using lstm_matrix_ncols [OF lm] by linarith
  then obtain u where u0: "num_units cfg = int u" by (metis nat_0_le)
  with lstm_matrix_ncols [OF lm] have "ncols lm = 4 * u" by linarith
  note u = u0 this
  from sp u have w: "ncols i = u" "ncols j = u" "ncols f = u" "ncols og = u"
    by (auto simp: split4_Some)
  have d: "use_peepholes cfg \<Longrightarrow> len (v_W_F_diag vars) = u \<and> len (v_W_I_diag vars) = u
      \<and> len (v_W_O_diag vars) = u"
    using pv u by (simp add: peephole_variables_Some shape1_def)
  have c0: "ncols c0 = (if u = 1 then ncols c_prev else u)"
    using cell_update_ncols [OF cu w(1-3)] d by simp
  have m0: "ncols m0 = ncols c0"
    using cell_output_ncols [OF co w(4)] d c0 by simp
  have co': "cell_output ar cfg vars (scope_name_of scope) og (r_c r) tr2 = (Some m0, tr3)"
    using co r(2) by simp
  have rh: "r_h r = r_output r" using r by simp
  have cs: "case num_proj cfg of
           Some p \<Rightarrow>
               shape2 (v_W_P vars) = [num_units cfg, p]
             \<and> int (ncols m0) = num_units cfg
             \<and> matmul ar m0 (v_W_P vars) = Some (r_output r)
             \<and> (\<forall>row k. el (r_output r) row k
                   = a_dot ar (row_of m0 row) (column_of (v_W_P vars) k))
             \<and> int (ncols (r_output r)) = p \<and> int (ncols (r_c r)) = num_units cfg
             \<and> int (ncols (r_h r)) = p
             \<and> (p \<noteq> 0 \<longrightarrow> state_size cfg = (num_units cfg, p) \<and> output_size cfg = p)
         | None \<Rightarrow>
               r_output r = m0
             \<and> ncols (r_output r) = ncols (r_c r) \<and> ncols (r_h r) = ncols (r_c r)
             \<and> int (ncols (r_c r))
                 = (if num_units cfg = 1 then int (ncols c_prev) else num_units cfg)
             \<and> state_size cfg = (num_units cfg, num_units cfg)
             \<and> output_size cfg = num_units cfg
             \<and> (int (ncols c_prev) = num_units cfg \<longrightarrow>
                   int (ncols (r_output r)) = num_units cfg
                 \<and> int (ncols (r_c r)) = num_units cfg
                 \<and> int (ncols (r_h r)) = num_units cfg)"
  proof (cases "num_proj cfg")
    case None
    with pr have "m = m0" by (simp add: projection_Some)
    with None r c0 m0 u show ?thesis
      by (auto simp: state_size_def output_size_def truthy_def)
  next
    case (Some p)
    with pr have a: "shape2 (v_W_P vars) = [num_units cfg, p]" "matmul ar m0 (v_W_P vars) = Some m"
      by (simp_all add: projection_Some)
    then have b: "ncols m0 = u" "int (ncols m) = p"
      "\<forall>row k. el m row k = a_dot ar (row_of m0 row) (column_of (v_W_P vars) k)"
      using u by (auto simp: matmul_Some shape2_def)
    with Some a r c0 m0 u show ?thesis
      by (auto simp: state_size_def output_size_def truthy_def split: if_splits)
  qed
  from lm sp co' rh cs show ?thesis
    by (intro exI conjI) assumption+
qed

theorem call_widths_witness:
  "(\<exists>r tr. LSTMCell_call exact ((default_config exact 1)\<lparr>num_proj := Some 2\<rparr>)
             (zero_store 1 1 2) None (Some [None, Some 1]) (const2 1 1 0)
             (const2 1 1 0, const2 1 2 0) = (Inr r, tr)
         \<and> ncols (r_output r) = 2 \<and> ncols (r_c r) = 1 \<and> ncols (r_h r) = 2
         \<and> state_size ((default_config exact 1)\<lparr>num_proj := Some 2\<rparr>) = (1, 2)
         \<and> output_size ((default_config exact 1)\<lparr>num_proj := Some 2\<rparr>) = 2)
   \<and> (\<exists>r tr. LSTMCell_call exact (default_config exact 3)
             (zero_store 1 3 3) None (Some [None, Some 1]) (const2 1 1 0)
             (const2 1 3 0, const2 1 3 0) = (Inr r, tr)
         \<and> ncols (const2 1 3 (0::real)) = 3
         \<and> ncols (r_output r) = 3 \<and> ncols (r_c r) = 3 \<and> ncols (r_h r) = 3
         \<and> state_size (default_config exact 3) = (3, 3)
         \<and> output_size (default_config exact 3) = 3)"
proof -
  let ?cfg = "(default_config exact 1)\<lparr>num_proj := Some 2\<rparr>"
  have "well_shaped ?cfg (zero_store 1 1 2) 1 1 (const2 1 1 0) (const2 1 1 0) (const2 1 2 0)"
    by (rule zero_store_well_shaped [where u = 1 and p = 2]) (simp_all add: proj_width_def)
  from call_returns [OF this, where ar = exact and scope = None and bd = None] obtain r tr where
    run: "LSTMCell_call exact ?cfg (zero_store 1 1 2) None (Some [None, Some 1]) (const2 1 1 0)
             (const2 1 1 0, const2 1 2 0) = (Inr r, tr)" by blast
  from call_widths [OF run]
  have 1: "ncols (r_output r) = 2 \<and> ncols (r_c r) = 1 \<and> ncols (r_h r) = 2
     \<and> state_size ?cfg = (1, 2) \<and> output_size ?cfg = 2"
    by auto
  have "well_shaped (default_config exact 3) (zero_store 1 3 3) 1 1
          (const2 1 1 0) (const2 1 3 0) (const2 1 3 0)"
    by (rule zero_store_well_shaped [where u = 3 and p = 3]) (simp_all add: proj_width_def)
  from call_returns [OF this, where ar = exact and scope = None and bd = None] obtain r' tr' where
    run': "LSTMCell_call exact (default_config exact 3) (zero_store 1 3 3) None (Some [None, Some 1])
             (const2 1 1 0) (const2 1 3 0, const2 1 3 0) = (Inr r', tr')" by blast
  have c: "ncols (const2 1 3 (0::real)) = 3" by (simp add: const2_def)
  from call_widths [OF run'] c
  have 2: "ncols (r_output r') = 3 \<and> ncols (r_c r') = 3 \<and> ncols (r_h r') = 3
     \<and> state_size (default_config exact 3) = (3, 3) \<and> output_size (default_config exact 3) = 3"
    by auto
  from run 1 run' c 2 show ?thesis by blast
qed

theorem broadcast_width_counterexample:
  "widths (LSTMCell_call exact (default_config exact 1) (zero_store 1 1 1) None
             (Some [None, Some 1]) (const2 1 1 0) (const2 1 3 0, const2 1 1 0)) = Some (3, 3, 3)
   \<and> num_proj (default_config exact 1) = None
   \<and> num_units (default_config exact 1) = 1
   \<and> state_size (default_config exact 1) = (1, 1)
   \<and> output_size (default_config exact 1) = 1"
  by (simp add: widths_def returned_def LSTMCell_call_def with_rank_def LSTMCell_graph_def
      lstm_matrix_def get_concat_variable_def get_variable_def bind_build_def lift_def ret_def
      proj_width_def shape2_def shape1_def zero_store_def const_store_def const2_def const1_def
      concat1_def matmul_def bias_add_def split4_def slice1_def peephole_variables_def
      cell_update_def add_scalar_def map_tensor_def broadcast2_def bdim_def cell_clipped_def
      cell_output_def output_gate_def projection_def state_size_def output_size_def truthy_def)

text \<open>
  C8. Without peepholes and without batch normalisation, in exact arithmetic, with a
  zero weight matrix \<open>W\<close>, a zero bias \<open>B\<close> and a zero previous cell state (the input
  and the previous output may then be anything), with an activation that maps 0 to 0
  (as the default \<open>tanh\<close> does) and \<open>cell_clip\<close> unset or not negative: the four gate
  pre-activations are zero, the forget gate is \<open>sigmoid(forget_bias)\<close>, and the new
  cell state and the new output are zero.
\<close>

theorem zero_step:
  assumes ws: "well_shaped cfg vars b n inputs c_prev m_prev"
    and nb: "\<not> bn cfg" and np: "\<not> use_peepholes cfg"
    and zc: "all_zero c_prev" and zw: "all_zero (v_W vars)" and zb: "all_zero1 (v_B vars)"
    and act: "activation cfg 0 = 0"
    and clip: "case cell_clip cfg of None \<Rightarrow> True | Some K \<Rightarrow> 0 \<le> K"
  shows "\<exists>cell_inputs xw lm i j f og r tr.
       concat1 inputs m_prev = Some cell_inputs
     \<and> matmul exact cell_inputs (v_W vars) = Some xw
     \<and> bias_add exact xw (v_B vars) = Some lm
     \<and> split4 lm = Some (i, j, f, og)
     \<and> all_zero i \<and> all_zero j \<and> all_zero f \<and> all_zero og
     \<and> nrows f = b \<and> int (ncols f) = num_units cfg
     \<and> (\<forall>row<nrows f. \<forall>k<ncols f.
           sigmoid (el f row k + forget_bias cfg) = sigmoid (forget_bias cfg))
     \<and> LSTMCell_call exact cfg vars scope (Some [bd, Some n]) inputs (c_prev, m_prev)
         = (Inr r, tr)
     \<and> nrows (r_c r) = b \<and> int (ncols (r_c r)) = num_units cfg \<and> all_zero (r_c r)
     \<and> nrows (r_output r) = b \<and> int (ncols (r_output r)) = proj_width cfg
     \<and> all_zero (r_output r) \<and> r_h r = r_output r"
proof -
  obtain u p where u: "num_units cfg = int u" and p: "proj_width cfg = int p"
    using ws by (rule well_shaped_nat)
  from ws nb u p have sh0: "ncols inputs = n" "ncols m_prev = p" "nrows c_prev = b" "ncols c_prev = u"
    "nrows (v_W vars) = n + p" "ncols (v_W vars) = 4 * u" "len (v_B vars) = 4 * u"
    by (simp_all add: well_shaped_def shape2_def shape1_def)
  from call_plain_stages [OF ws nb u, where ar = exact and scope = scope and bd = bd]
  obtain cell_inputs xw lm i j f og c gate m0 r tr where big:
    "concat1 inputs m_prev = Some cell_inputs
     \<and> matmul exact cell_inputs (v_W vars) = Some xw
     \<and> bias_add exact xw (v_B vars) = Some lm
     \<and> split4 lm = Some (i, j, f, og)
     \<and> (\<forall>row q. el lm row q =
           a_add exact (a_dot exact (row_of cell_inputs row) (column_of (v_W vars) q)) (vel (v_B vars) q))
     \<and> (\<forall>row k. el i row k = el lm row k \<and> el j row k = el lm row (u + k)
           \<and> el f row k = el lm row (2 * u + k) \<and> el og row k = el lm row (3 * u + k))
     \<and> ncols i = u \<and> ncols j = u \<and> ncols f = u \<and> ncols og = u
     \<and> cell_update exact cfg vars i j f c_prev = Some c
     \<and> nrows c = b \<and> ncols c = u
     \<and> (\<forall>row<b. \<forall>k<u. el c row k =
          a_add exact
            (a_mul exact
               (a_sigmoid exact
                  (if use_peepholes cfg
                   then a_add exact (a_add exact (el f row k) (a_const exact (forget_bias cfg)))
                          (a_mul exact (vel (v_W_F_diag vars) k) (el c_prev row k))
                   else a_add exact (el f row k) (a_const exact (forget_bias cfg))))
               (el c_prev row k))
            (a_mul exact
               (a_sigmoid exact
                  (if use_peepholes cfg
                   then a_add exact (el i row k) (a_mul exact (vel (v_W_I_diag vars) k) (el c_prev row k))
                   else el i row k))
               (activation cfg (el j row k))))
     \<and> output_gate exact cfg vars og (cell_clipped exact cfg c) = Some gate
     \<and> (\<forall>row<b. \<forall>k<u. el gate row k =
           (if use_peepholes cfg
            then a_add exact (el og row k) (a_mul exact (vel (v_W_O_diag vars) k) (el (cell_clipped exact cfg c) row k))
            else el og row k))
     \<and> nrows m0 = b \<and> ncols m0 = u
     \<and> (\<forall>row<b. \<forall>k<u. el m0 row k
           = a_mul exact (a_sigmoid exact (el gate row k)) (activation cfg (el (cell_clipped exact cfg c) row k)))
     \<and> LSTMCell_call exact cfg vars scope (Some [bd, Some n]) inputs (c_prev, m_prev)
         = (Inr r, tr)
     \<and> r_c r = cell_clipped exact cfg c \<and> r_h r = r_output r
     \<and> nrows (r_output r) = b \<and> int (ncols (r_output r)) = proj_width cfg
     \<and> (case num_proj cfg of None \<Rightarrow> r_output r = m0
         | Some q \<Rightarrow> matmul exact m0 (v_W_P vars) = Some (r_output r)
             \<and> (\<forall>row k. el (r_output r) row k
                    = a_dot exact (row_of m0 row) (column_of (v_W_P vars) k)))"
    by (elim exE) (rule that)
  from big have g1: "concat1 inputs m_prev = Some cell_inputs" by (elim conjE)
  from big have g2: "matmul exact cell_inputs (v_W vars) = Some xw" by (elim conjE)
  from big have g3: "bias_add exact xw (v_B vars) = Some lm" by (elim conjE)
  from big have g4: "split4 lm = Some (i, j, f, og)" by (elim conjE)
  from big have lm: "\<forall>row q. el lm row q =
           a_add exact (a_dot exact (row_of cell_inputs row) (column_of (v_W vars) q)) (vel (v_B vars) q)" by (elim conjE)
  from big have sl: "\<forall>row k. el i row k = el lm row k \<and> el j row k = el lm row (u + k)
           \<and> el f row k = el lm row (2 * u + k) \<and> el og row k = el lm row (3 * u + k)" by (elim conjE)
  from big have sh1: "ncols i = u" by (elim conjE)
  from big have sh2: "ncols j = u" by (elim conjE)
  from big have sh3: "ncols f = u" by (elim conjE)
  from big have sh4: "ncols og = u" by (elim conjE)
  from big have sh5: "nrows c = b" by (elim conjE)
  from big have sh6: "ncols c = u" by (elim conjE)
  from big have cf: "\<forall>row<b. \<forall>k<u. el c row k =
          a_add exact
            (a_mul exact
               (a_sigmoid exact
                  (if use_peepholes cfg
                   then a_add exact (a_add exact (el f row k) (a_const exact (forget_bias cfg)))
                          (a_mul exact (vel (v_W_F_diag vars) k) (el c_prev row k))
                   else a_add exact (el f row k) (a_const exact (forget_bias cfg))))
               (el c_prev row k))
            (a_mul exact
               (a_sigmoid exact
                  (if use_peepholes cfg
                   then a_add exact (el i row k) (a_mul exact (vel (v_W_I_diag vars) k) (el c_prev row k))
                   else el i row k))
               (activation cfg (el j row k)))" by (elim conjE)
  from big have m01: "nrows m0 = b" by (elim conjE)
  from big have m02: "ncols m0 = u" by (elim conjE)
  from big have m03: "\<forall>row<b. \<forall>k<u. el m0 row k
           = a_mul exact (a_sigmoid exact (el gate row k)) (activation cfg (el (cell_clipped exact cfg c) row k))" by (elim conjE)
  from big have run1: "LSTMCell_call exact cfg vars scope (Some [bd, Some n]) inputs (c_prev, m_prev)
         = (Inr r, tr)" by (elim conjE)
  from big have run2: "r_c r = cell_clipped exact cfg c" by (elim conjE)
  from big have run3: "r_h r = r_output r" by (elim conjE)
  from big have run4: "nrows (r_output r) = b" by (elim conjE)
  from big have run5: "int (ncols (r_output r)) = proj_width cfg" by (elim conjE)
  from big have run6: "case num_proj cfg of None \<Rightarrow> r_output r = m0
         | Some q \<Rightarrow> matmul exact m0 (v_W_P vars) = Some (r_output r)
             \<and> (\<forall>row k. el (r_output r) row k
                    = a_dot exact (row_of m0 row) (column_of (v_W_P vars) k))" by (elim conjE)
  have lm0: "el lm row q = 0" if "q < 4 * u" for row q
  proof -
    have "sum_list (map2 (*) (row_of cell_inputs row) (column_of (v_W vars) q)) = 0"
      using zw that sh0 by (intro dot_zero_right) (auto simp: all_zero_def column_of_def)
    moreover have "vel (v_B vars) q = 0" using zb that sh0 by (simp add: all_zero1_def)
    ultimately show ?thesis using lm by simp
  qed
  from g3 g4 have rows: "nrows f = nrows lm"
    by (auto simp: split4_Some)
  have el0: "el i row k = 0" "el j row k = 0" "el f row k = 0" "el og row k = 0"
    if "k < u" for row k
    using sl lm0 that by simp_all
  have zi: "all_zero i" "all_zero j" "all_zero f" "all_zero og"
    using el0 sh1 sh2 sh3 sh4 by (simp_all add: all_zero_def)
  have fg: "\<forall>row<nrows f. \<forall>k<ncols f.
           sigmoid (el f row k + forget_bias cfg) = sigmoid (forget_bias cfg)"
    using zi(3) by (simp add: all_zero_def)
  have c0: "el c row k = 0" if "row < b" "k < u" for row k
    using cf that np zc sh0 act el0 by (simp add: all_zero_def)
  have cc0: "el (cell_clipped exact cfg c) row k = 0" if "row < b" "k < u" for row k
    using c0 [OF that] clip by (auto simp: cell_clipped_def split: option.splits)
  have zrc: "all_zero (r_c r)" "nrows (r_c r) = b" "int (ncols (r_c r)) = num_units cfg"
    using run2 cc0 sh5 sh6 u by (simp_all add: all_zero_def)
  have m00: "el m0 row k = 0" if "row < b" "k < u" for row k
    using m03 cc0 [OF that] that act by simp
  have zo: "all_zero (r_output r)"
  proof (cases "num_proj cfg")
    case None
    with run6 m00 m01 m02 show ?thesis by (simp add: all_zero_def)
  next
    case (Some q)
    with run6 have "el (r_output r) row k
        = sum_list (map2 (*) (row_of m0 row) (column_of (v_W_P vars) k))" for row k
      by simp
    moreover have "sum_list (map2 (*) (row_of m0 row) (column_of (v_W_P vars) k)) = 0"
      if "row < b" for row k
      using m00 [OF that] m02 by (intro dot_zero_left) (auto simp: row_of_def)
    ultimately show ?thesis using run4 by (simp add: all_zero_def)
  qed
  have fsh: "nrows f = b" "int (ncols f) = num_units cfg"
    using rows g1 g2 g3 sh3 u ws
    by (auto simp: concat1_Some matmul_Some bias_add_Some well_shaped_def shape2_def)
  from g1 g2 g3 g4 zi fsh fg run1 zrc(2,3,1) run4 run5 zo run3 show ?thesis
    by (intro exI conjI) assumption+
qed

theorem zero_step_witness:
  "well_shaped (default_config exact 1) (zero_store 1 1 1) 2 1
     (const2 2 1 0) (const2 2 1 0) (const2 2 1 0)
   \<and> \<not> bn (default_config exact 1) \<and> \<not> use_peepholes (default_config exact 1)
   \<and> all_zero (const2 2 1 0) \<and> all_zero (v_W (zero_store 1 1 1))
   \<and> all_zero1 (v_B (zero_store 1 1 1)) \<and> activation (default_config exact 1) 0 = 0
   \<and> (\<exists>r tr. LSTMCell_call exact (default_config exact 1) (zero_store 1 1 1) None
               (Some [None, Some 1]) (const2 2 1 0) (const2 2 1 0, const2 2 1 0) = (Inr r, tr)
             \<and> nrows (r_c r) = 2 \<and> ncols (r_c r) = 1 \<and> all_zero (r_c r)
             \<and> nrows (r_output r) = 2 \<and> ncols (r_output r) = 1 \<and> all_zero (r_output r))"
proof -
  let ?cfg = "default_config exact 1"
  have ws: "well_shaped ?cfg (zero_store 1 1 1) 2 1 (const2 2 1 0) (const2 2 1 0) (const2 2 1 0)"
    by (rule zero_store_well_shaped [where u = 1 and p = 1]) (simp_all add: proj_width_def)
  have h: "\<not> bn ?cfg" "\<not> use_peepholes ?cfg" "all_zero (const2 2 1 0)"
    "activation ?cfg 0 = 0" "case cell_clip ?cfg of None \<Rightarrow> True | Some K \<Rightarrow> 0 \<le> K"
    by (simp_all add: all_zero_def const2_def)
  from zero_step [OF ws h(1,2,3) zero_store_zero h(4,5), where scope = None and bd = None]
  obtain r tr where "LSTMCell_call exact ?cfg (zero_store 1 1 1) None (Some [None, Some 1])
               (const2 2 1 0) (const2 2 1 0, const2 2 1 0) = (Inr r, tr)"
    "nrows (r_c r) = 2" "int (ncols (r_c r)) = num_units ?cfg" "all_zero (r_c r)"
    "nrows (r_output r) = 2" "int (ncols (r_output r)) = proj_width ?cfg" "all_zero (r_output r)"
    by auto
  then show ?thesis using ws h zero_store_zero [of 1 1 1]
    by (auto simp: proj_width_def)
qed

theorem sigmoid_activation_counterexample:
  "c_elem (LSTMCell_call exact ((default_config exact 1)\<lparr>activation := sigmoid\<rparr>)
      (zero_store 1 1 1) None (Some [None, Some 1]) (const2 1 1 0)
      (const2 1 1 0, const2 1 1 0)) 0 0 = Some (1 / 4)"
proof -
  let ?cfg = "(default_config exact 1)\<lparr>activation := sigmoid\<rparr>"
  have ws: "well_shaped ?cfg (zero_store 1 1 1) 1 1 (const2 1 1 0) (const2 1 1 0) (const2 1 1 0)"
    by (rule zero_store_well_shaped [where u = 1 and p = 1]) (simp_all add: proj_width_def)
  from zero_weights_cell [OF ws _ _ zero_store_zero, where u = 1 and row = 0 and k = 0
      and scope = None and bd = None]
  obtain r tr c where run: "LSTMCell_call exact ?cfg (zero_store 1 1 1) None
      (Some [None, Some 1]) (const2 1 1 0) (const2 1 1 0, const2 1 1 0) = (Inr r, tr)"
    "r_c r = cell_clipped exact ?cfg c"
    "el c 0 0 = sigmoid (forget_bias ?cfg) * el (const2 1 1 0) 0 0 + 1 / 2 * activation ?cfg 0"
    by auto
  then have "el (r_c r) 0 0 = 1 / 4"
    by (simp add: cell_clipped_def const2_def sigmoid_zero)
  with run(1) show ?thesis by (simp add: c_elem_def returned_def)
qed

text \<open>
  C9. With batch normalisation, a step that returns has computed its output \<open>m\<close> as
  \<open>sigmoid(o [+ w_o_diag * c]) * activation(batch_norm(c))\<close> (followed by the projection
  when \<open>num_proj\<close> is set), where \<open>c\<close> is the cell state after the optional clipping;
  the \<open>c\<close> component of the returned state is this \<open>c\<close> itself, not its normalisation.
\<close>

theorem bn_output_from_normalized_cell:
  assumes run: "LSTMCell_call ar cfg vars scope ishape inputs (c_prev, m_prev) = (Inr r, tr)"
    and bn: "bn cfg"
  shows "\<exists>n lm i j f og c0 gate normed st' m0 tr0 tr1 tr2.
       lstm_matrix ar cfg vars (scope_name_of scope) n inputs m_prev [] = (Some lm, tr0)
     \<and> split4 lm = Some (i, j, f, og)
     \<and> cell_update ar cfg vars i j f c_prev = Some c0
     \<and> r_c r = cell_clipped ar cfg c0
     \<and> output_gate ar cfg vars og (r_c r) = Some gate
     \<and> batch_norm ar (v_bn_m vars) (r_c r) (deterministic cfg) (9 / 10) True
          (scope_name_of scope @ ''bn_m'') tr1 = (Some (normed, st'), tr2)
     \<and> broadcast2 (a_mul ar) (map_tensor (a_sigmoid ar) gate) (map_tensor (activation cfg) normed)
         = Some m0
     \<and> (case num_proj cfg of None \<Rightarrow> r_output r = m0
         | Some p \<Rightarrow> matmul ar m0 (v_W_P vars) = Some (r_output r))"
proof -
  from run obtain n lm i j f og c0 m0 m tr1 tr2 tr3 where
    lm: "lstm_matrix ar cfg vars (scope_name_of scope) n inputs m_prev [] = (Some lm, tr1)"
    and sp: "split4 lm = Some (i, j, f, og)"
    and cu: "cell_update ar cfg vars i j f c_prev = Some c0"
    and co: "cell_output ar cfg vars (scope_name_of scope) og (cell_clipped ar cfg c0) tr2
               = (Some m0, tr3)"
    and pr: "projection ar cfg vars m0 tr3 = (Some m, tr)"
    and r: "r_output r = m" "r_c r = cell_clipped ar cfg c0"
    by (auto simp: LSTMCell_call_Inr LSTMCell_graph_Some)
  from co bn obtain gate normed st' where
    g: "output_gate ar cfg vars og (cell_clipped ar cfg c0) = Some gate"
    "batch_norm ar (v_bn_m vars) (cell_clipped ar cfg c0) (deterministic cfg) (9 / 10) True
          (scope_name_of scope @ ''bn_m'') tr2 = (Some (normed, st'), tr3)"
    "broadcast2 (a_mul ar) (map_tensor (a_sigmoid ar) gate) (map_tensor (activation cfg) normed)
       = Some m0"
    unfolding cell_output_Some by auto
  have p: "case num_proj cfg of None \<Rightarrow> r_output r = m0
         | Some p \<Rightarrow> matmul ar m0 (v_W_P vars) = Some (r_output r)"
    using pr r(1) by (auto simp: projection_Some split: option.splits)
  from g r(2) have g1: "output_gate ar cfg vars og (r_c r) = Some gate"
    and g2: "batch_norm ar (v_bn_m vars) (r_c r) (deterministic cfg) (9 / 10) True
          (scope_name_of scope @ ''bn_m'') tr2 = (Some (normed, st'), tr3)"
    by simp_all
  from lm sp cu r(2) g1 g2 g(3) p show ?thesis
    by (intro exI conjI) assumption+
qed

theorem bn_output_from_normalized_cell_witness:
  "\<exists>r tr normed st' tr1 tr2.
      LSTMCell_call exact bn_example_config bn_example_store None
        (Some [None, Some 1]) (const2 2 1 0) (const2 2 1 0, const2 2 1 0) = (Inr r, tr)
    \<and> bn bn_example_config
    \<and> batch_norm exact (v_bn_m bn_example_store) (r_c r) (Some True) (9 / 10) True
        ''LSTMCellbn_m'' tr1 = (Some (normed, st'), tr2)
    \<and> el normed 0 0 = 5 \<and> el (r_c r) 0 0 \<le> 1"
proof -
  from call_returns [OF bn_example_well_shaped, where ar = exact and scope = None and bd = None]
  obtain r tr where
    run: "LSTMCell_call exact bn_example_config bn_example_store None (Some [None, Some 1])
             (const2 2 1 0) (const2 2 1 0, const2 2 1 0) = (Inr r, tr)" by blast
  have bn: "bn bn_example_config" by (simp add: bn_example_config_def)
  from bn_output_from_normalized_cell [OF run bn] obtain normed st' tr1 tr2 where
    b: "batch_norm exact (v_bn_m bn_example_store) (r_c r) (deterministic bn_example_config)
          (9 / 10) True (scope_name_of None @ ''bn_m'') tr1 = (Some (normed, st'), tr2)"
    by auto
  then have "el normed 0 0 = 5"
    by (auto simp: batch_norm_Some batch_normalization_def bn_example_store_def bn_initial_def
        const1_def exact_def)
  moreover have "el (r_c r) 0 0 \<le> 1"
    using returned_c_bounds_exact [OF run, of 1 0 0] by (simp add: bn_example_config_def)
  ultimately show ?thesis using run b bn
    by (auto simp: scope_name_of_def bn_example_config_def)
qed

text \<open>
  C10. Whenever the step returns, with or without \<open>return_gate\<close>, the output is the \<open>h\<close>
  component of the returned state: both are the tensor \<open>m\<close>, which is the result of the
  projection by \<open>W_P\<close> when \<open>num_proj\<close> is set.
\<close>

theorem output_is_state_h:
  assumes "LSTMCell_call ar cfg vars scope ishape inputs state = (Inr r, tr)"
  shows "r_output r = r_h r
       \<and> (\<exists>m0. (case num_proj cfg of None \<Rightarrow> Some m0 | Some p \<Rightarrow> matmul ar m0 (v_W_P vars))
                 = Some (r_output r))"
  using assms
  by (cases state) (auto simp: LSTMCell_call_Inr LSTMCell_graph_Some projection_Some
      split: option.splits)

theorem output_is_state_h_witness:
  "(\<exists>r tr. LSTMCell_call exact ((default_config exact 1)\<lparr>num_proj := Some 2, return_gate := True\<rparr>)
             (zero_store 1 1 2) None (Some [None, Some 1]) (const2 1 1 0)
             (const2 1 1 0, const2 1 2 0) = (Inr r, tr)
         \<and> r_output r = r_h r)
   \<and> (\<exists>r tr. LSTMCell_call exact (default_config exact 1)
             (zero_store 1 1 1) None (Some [None, Some 1]) (const2 1 1 0)
             (const2 1 1 0, const2 1 1 0) = (Inr r, tr)
         \<and> r_output r = r_h r)"
proof -
  let ?cfg = "(default_config exact 1)\<lparr>num_proj := Some 2, return_gate := True\<rparr>"
  have "well_shaped ?cfg (zero_store 1 1 2) 1 1 (const2 1 1 0) (const2 1 1 0) (const2 1 2 0)"
    by (rule zero_store_well_shaped [where u = 1 and p = 2]) (simp_all add: proj_width_def)
  from call_returns [OF this, where ar = exact and scope = None and bd = None] obtain r tr where
    run: "LSTMCell_call exact ?cfg (zero_store 1 1 2) None (Some [None, Some 1]) (const2 1 1 0)
             (const2 1 1 0, const2 1 2 0) = (Inr r, tr)" by blast
  have "well_shaped (default_config exact 1) (zero_store 1 1 1) 1 1
          (const2 1 1 0) (const2 1 1 0) (const2 1 1 0)"
    by (rule zero_store_well_shaped [where u = 1 and p = 1]) (simp_all add: proj_width_def)
  from call_returns [OF this, where ar = exact and scope = None and bd = None] obtain r' tr' where
    run': "LSTMCell_call exact (default_config exact 1) (zero_store 1 1 1) None (Some [None, Some 1])
             (const2 1 1 0) (const2 1 1 0, const2 1 1 0) = (Inr r', tr')" by blast
  from output_is_state_h [OF run] output_is_state_h [OF run'] run run' show ?thesis by blast
qed

end
